theory Spec2Isabelle
  imports Complex_Main "HOL-Library.Log_Nat"
begin

section \<open>Numbers\<close>

text \<open>
  The demos compute on JavaScript numbers, which are IEEE 754 binary64 floats. The beam
  balance and the linear regression are modelled on binary64 values, every operation
  rounded to nearest with ties to even, because what they return depends on rounding
  and overflow. The pendulum, the magnetism demos and the wave field are modelled on
  exact reals; there a result that JavaScript would report as \<open>NaN\<close> or \<open>\<plusminus>Infinity\<close>
  (a division by zero, a read past the end of an array) is outside the reals and is
  modelled as \<open>None\<close>.
\<close>

section \<open>JavaScript numbers as binary64 values\<close>

text \<open>
  A number is a finite value, negative zero, an infinity or \<open>NaN\<close>; \<open>Fin 0\<close> is positive
  zero. Every operation below rounds its result, so its finite results are
  representable whatever the arguments are.
\<close>

datatype double = Fin real | NegZero | PInf | NInf | NaN

text \<open>The nearest integer, a tie going to the even neighbour.\<close>

definition rhe :: "real \<Rightarrow> int" where
  "rhe x =
     (let f = \<lfloor>x\<rfloor>; d = x - of_int f
      in if d < 1 / 2 then f
         else if 1 / 2 < d then f + 1
         else if even f then f else f + 1)"

text \<open>
  The binary exponent of a non-zero real \<open>r\<close>, that is the \<open>e\<close> with
  \<open>2 ^ e \<le> \<bar>r\<bar> < 2 ^ (e + 1)\<close>, but no less than \<open>- 1022\<close>, where the subnormal range
  starts.
\<close>

definition expo :: "real \<Rightarrow> int" where
  "expo r =
     max (if 1 \<le> \<bar>r\<bar> then bitlen \<lfloor>\<bar>r\<bar>\<rfloor> - 1 else - bitlen (\<lceil>1 / \<bar>r\<bar>\<rceil> - 1)) (- 1022)"

text \<open>
  Rounding of an exact result to binary64: to a multiple of \<open>2 ^ (e - 52)\<close> (53
  significant bits), to an infinity from \<open>2 ^ 1024\<close> on, and to a zero that keeps the
  sign when the result underflows.
\<close>

definition round64 :: "real \<Rightarrow> double" where
  "round64 r =
     (if r = 0 then Fin 0
      else
        let q = 2 powi (expo r - 52);
            v = of_int (rhe (\<bar>r\<bar> / q)) * q
        in if 2 ^ 1024 \<le> v then (if 0 < r then PInf else NInf)
           else if v = 0 then (if 0 < r then Fin 0 else NegZero)
           else Fin (if 0 < r then v else - v))"

fun is_inf :: "double \<Rightarrow> bool" where
  "is_inf PInf = True"
| "is_inf NInf = True"
| "is_inf _ = False"

fun is_zero :: "double \<Rightarrow> bool" where
  "is_zero (Fin r) = (r = 0)"
| "is_zero NegZero = True"
| "is_zero _ = False"

fun is_finite :: "double \<Rightarrow> bool" where
  "is_finite (Fin r) = True"
| "is_finite NegZero = True"
| "is_finite _ = False"

fun negative :: "double \<Rightarrow> bool" where
  "negative (Fin r) = (r < 0)"
| "negative NegZero = True"
| "negative NInf = True"
| "negative _ = False"

fun dval :: "double \<Rightarrow> real" where
  "dval (Fin r) = r"
| "dval _ = 0"

definition signed_inf :: "bool \<Rightarrow> double" where
  "signed_inf n = (if n then NInf else PInf)"

definition signed_zero :: "bool \<Rightarrow> double" where
  "signed_zero n = (if n then NegZero else Fin 0)"

text \<open>Unary minus, \<open>+\<close>, \<open>-\<close>, \<open>*\<close> and \<open>/\<close>.\<close>

fun dneg :: "double \<Rightarrow> double" where
  "dneg (Fin r) = (if r = 0 then NegZero else Fin (- r))"
| "dneg NegZero = Fin 0"
| "dneg PInf = NInf"
| "dneg NInf = PInf"
| "dneg NaN = NaN"

definition dadd :: "double \<Rightarrow> double \<Rightarrow> double" where
  "dadd a b =
     (if a = NaN \<or> b = NaN then NaN
      else if is_inf a then (if is_inf b \<and> a \<noteq> b then NaN else a)
      else if is_inf b then b
      else if a = NegZero \<and> b = NegZero then NegZero
      else let s = dval a + dval b in if s = 0 then Fin 0 else round64 s)"

definition dsub :: "double \<Rightarrow> double \<Rightarrow> double" where
  "dsub a b = dadd a (dneg b)"

definition dmul :: "double \<Rightarrow> double \<Rightarrow> double" where
  "dmul a b =
     (if a = NaN \<or> b = NaN then NaN
      else if is_inf a \<or> is_inf b
        then (if is_zero a \<or> is_zero b then NaN else signed_inf (negative a \<noteq> negative b))
      else let p = dval a * dval b
           in if p = 0 then signed_zero (negative a \<noteq> negative b) else round64 p)"

definition ddiv :: "double \<Rightarrow> double \<Rightarrow> double" where
  "ddiv a b =
     (if a = NaN \<or> b = NaN then NaN
      else if is_inf a then (if is_inf b then NaN else signed_inf (negative a \<noteq> negative b))
      else if is_inf b then signed_zero (negative a \<noteq> negative b)
      else if is_zero b then (if is_zero a then NaN else signed_inf (negative a \<noteq> negative b))
      else if is_zero a then signed_zero (negative a \<noteq> negative b)
      else round64 (dval a / dval b))"

text \<open>The comparisons \<open><\<close>, \<open><=\<close> and \<open>===\<close>: false as soon as an operand is \<open>NaN\<close>.\<close>

definition dlt :: "double \<Rightarrow> double \<Rightarrow> bool" where
  "dlt a b \<longleftrightarrow>
     a \<noteq> NaN \<and> b \<noteq> NaN
     \<and> (if a = NInf then b \<noteq> NInf
        else if b = PInf then a \<noteq> PInf
        else if is_inf a \<or> is_inf b then False
        else dval a < dval b)"

definition dle :: "double \<Rightarrow> double \<Rightarrow> bool" where
  "dle a b \<longleftrightarrow> a \<noteq> NaN \<and> b \<noteq> NaN \<and> \<not> dlt b a"

definition deq :: "double \<Rightarrow> double \<Rightarrow> bool" where
  "deq a b \<longleftrightarrow> a \<noteq> NaN \<and> b \<noteq> NaN \<and> \<not> dlt a b \<and> \<not> dlt b a"

text \<open>
  \<open>Math.min\<close> and \<open>Math.max\<close> of two arguments: \<open>NaN\<close> as soon as an argument is \<open>NaN\<close>,
  and negative zero counts as less than positive zero.
\<close>

definition dmin :: "double \<Rightarrow> double \<Rightarrow> double" where
  "dmin a b =
     (if a = NaN \<or> b = NaN then NaN
      else if dlt a b then a
      else if dlt b a then b
      else if a = NegZero \<or> b = NegZero then NegZero else a)"

definition dmax :: "double \<Rightarrow> double \<Rightarrow> double" where
  "dmax a b =
     (if a = NaN \<or> b = NaN then NaN
      else if dlt a b then b
      else if dlt b a then a
      else if a = Fin 0 \<or> b = Fin 0 then Fin 0 else a)"

text \<open>\<open>Math.PI\<close>, the binary64 value nearest to \<open>pi\<close>.\<close>

definition Math_PI :: double where
  "Math_PI = Fin (884279719003555 / 2 ^ 48)"

section \<open>Beam balance (principle of moments)\<close>

definition GRAVITY :: double where
  "GRAVITY = round64 9.81"

definition MAX_TILT_ANGLE :: double where
  "MAX_TILT_ANGLE = ddiv Math_PI (Fin 6)"

record beam_state =
  mass1 :: double
  dist1 :: double
  mass2 :: double
  dist2 :: double
  currentAngle :: double
  targetAngle :: double

record moments =
  moment1 :: double
  moment2 :: double
  F1 :: double
  F2 :: double

definition calculateMoments :: "beam_state \<Rightarrow> moments" where
  "calculateMoments s =
     (let m1 = ddiv (mass1 s) (Fin 1000);
          m2 = ddiv (mass2 s) (Fin 1000);
          d1 = ddiv (dist1 s) (Fin 100);
          d2 = ddiv (dist2 s) (Fin 100);
          f1 = dmul m1 GRAVITY;
          f2 = dmul m2 GRAVITY
      in \<lparr>moment1 = dmul f1 d1, moment2 = dmul f2 d2, F1 = f1, F2 = f2\<rparr>)"

definition calculateTiltAngle :: "beam_state \<Rightarrow> double" where
  "calculateTiltAngle s =
     (let ms = calculateMoments s;
          netMoment = dsub (moment2 ms) (moment1 ms);
          maxMoment = round64 0.5;
          angle = dmul (ddiv netMoment maxMoment) MAX_TILT_ANGLE
      in dmax (dneg MAX_TILT_ANGLE) (dmin MAX_TILT_ANGLE angle))"

definition updateBeamRotation :: "beam_state \<Rightarrow> beam_state" where
  "updateBeamRotation s =
     (let t = calculateTiltAngle s;
          diff = dsub t (currentAngle s)
      in s\<lparr>targetAngle := t, currentAngle := dadd (currentAngle s) (dmul diff (round64 0.1))\<rparr>)"

section \<open>Simple pendulum\<close>

definition G :: real where
  "G = 9.81"

record dataPoint =
  dp_length :: real
  period :: real
  periodSquared :: real

record pendulum_state =
  length_cm :: real
  initialAngle :: real
  angle :: real
  angularVelocity :: real
  angularAcceleration :: real
  isRunning :: bool
  startTime :: real
  lastCrossTime :: real
  oscillations :: nat
  elapsedTime :: real
  lastAngle :: real
  dataPoints :: "dataPoint list"

text \<open>The \<open>state\<close> object as the script creates it.\<close>

definition initial_pendulum :: pendulum_state where
  "initial_pendulum =
     \<lparr>length_cm = 50, initialAngle = 5, angle = 0, angularVelocity = 0,
      angularAcceleration = 0, isRunning = False, startTime = 0, lastCrossTime = 0,
      oscillations = 0, elapsedTime = 0, lastAngle = 0, dataPoints = []\<rparr>"

text \<open>
  \<open>updatePendulumPhysics\<close>. The field \<open>length\<close> of the source is \<open>length_cm\<close> here.
  With \<open>length = 0\<close> the source divides by zero (\<open>g / L\<close> is \<open>Infinity\<close>): \<open>None\<close>.
\<close>

definition updatePendulumPhysics :: "real \<Rightarrow> pendulum_state \<Rightarrow> pendulum_state option" where
  "updatePendulumPhysics deltaTime s =
     (if \<not> isRunning s then Some s
      else
        let L = length_cm s / 100;
            g = G;
            damping = 0.001
        in if L = 0 then None
           else
             let acc = - (g / L) * sin (angle s) - damping * angularVelocity s;
                 vel = angularVelocity s + acc * deltaTime;
                 ang = angle s + vel * deltaTime;
                 el = elapsedTime s + deltaTime;
                 s1 = s\<lparr>angularAcceleration := acc, angularVelocity := vel,
                        angle := ang, elapsedTime := el\<rparr>;
                 s2 = (if ang \<ge> 0 \<and> lastAngle s1 < 0
                       then (if lastCrossTime s1 = 0
                             then s1\<lparr>lastCrossTime := el\<rparr>
                             else s1\<lparr>oscillations := oscillations s1 + 1\<rparr>)
                       else s1)
             in Some (s2\<lparr>lastAngle := ang\<rparr>))"

text \<open>
  The animation loop: \<open>lastTime\<close> is the module variable, \<open>currentTime\<close> the clock
  reading of the frame. Drawing is left out.
\<close>

record frame =
  lastTime :: real
  pendulum :: pendulum_state

definition animate :: "real \<Rightarrow> frame \<Rightarrow> frame option" where
  "animate currentTime f =
     (let deltaTime = min (currentTime - lastTime f) 0.02
      in case updatePendulumPhysics deltaTime (pendulum f) of
           None \<Rightarrow> None
         | Some s' \<Rightarrow> Some \<lparr>lastTime = currentTime, pendulum = s'\<rparr>)"

text \<open>
  The start button's click handler; \<open>now\<close> is the clock reading
  \<open>performance.now() / 1000\<close>.
\<close>

definition startBtn_click :: "real \<Rightarrow> pendulum_state \<Rightarrow> pendulum_state" where
  "startBtn_click now s =
     (if \<not> isRunning s
      then s\<lparr>isRunning := True, angle := (initialAngle s * pi) / 180, angularVelocity := 0,
             startTime := now, lastCrossTime := 0, oscillations := 0, elapsedTime := 0,
             lastAngle := (initialAngle s * pi) / 180\<rparr>
      else s)"

text \<open>
  The period that \<open>updateUI\<close> shows: \<open>elapsedTime / oscillations\<close> once an oscillation
  has been counted, a dash (\<open>None\<close>) before.
\<close>

definition updateUI_period :: "pendulum_state \<Rightarrow> real option" where
  "updateUI_period s =
     (if oscillations s \<ge> 1 then Some (elapsedTime s / real (oscillations s)) else None)"

text \<open>
  \<open>run_frames n gap f\<close>: the animation loop called \<open>n\<close> times from frame state \<open>f\<close>, the
  clock advancing by \<open>gap\<close> seconds between calls.
\<close>

fun run_frames :: "nat \<Rightarrow> real \<Rightarrow> frame \<Rightarrow> frame option" where
  "run_frames 0 gap f = Some f"
| "run_frames (Suc n) gap f =
     (case run_frames n gap f of
        None \<Rightarrow> None
      | Some f' \<Rightarrow> animate (lastTime f' + gap) f')"

text \<open>
  An enclosure of a running 50 cm pendulum, used to follow a trajectory: elapsed time,
  bounds on angle and angular velocity, the crossing time and the oscillation count.
\<close>

definition tracked ::
  "frame option \<Rightarrow> real \<Rightarrow> real \<Rightarrow> real \<Rightarrow> real \<Rightarrow> real \<Rightarrow> real \<Rightarrow> nat \<Rightarrow> bool" where
  "tracked r el a b c d lct osc \<longleftrightarrow>
     (case r of
        None \<Rightarrow> False
      | Some f \<Rightarrow>
          isRunning (pendulum f) \<and> length_cm (pendulum f) = 50
          \<and> elapsedTime (pendulum f) = el
          \<and> a \<le> angle (pendulum f) \<and> angle (pendulum f) \<le> b
          \<and> c \<le> angularVelocity (pendulum f) \<and> angularVelocity (pendulum f) \<le> d
          \<and> lastAngle (pendulum f) = angle (pendulum f)
          \<and> lastCrossTime (pendulum f) = lct
          \<and> oscillations (pendulum f) = osc)"

text \<open>The frame state right after Start is pressed on the page as loaded, at clock 0.\<close>

definition start_frame :: frame where
  "start_frame = \<lparr>lastTime = 0, pendulum = startBtn_click 0 initial_pendulum\<rparr>"

subsection \<open>Linear regression for the length against period-squared plot\<close>

record regression =
  slope :: double
  intercept :: double

text \<open>
  The value that a read \<open>y[i]\<close> brings into the product \<open>xi * y[i]\<close>: past the end of
  \<open>y\<close> the read gives \<open>undefined\<close>, which the product turns into \<open>NaN\<close>.
\<close>

definition js_index :: "double list \<Rightarrow> nat \<Rightarrow> double" where
  "js_index ys i = (if i < length ys then ys ! i else NaN)"

definition calculateLinearRegression :: "double list \<Rightarrow> double list \<Rightarrow> regression" where
  "calculateLinearRegression x y =
     (let n = Fin (real (length x));
          sumX = foldl (\<lambda>a b. dadd a b) (Fin 0) x;
          sumY = foldl (\<lambda>a b. dadd a b) (Fin 0) y;
          sumXY = foldl (\<lambda>sum (i, xi). dadd sum (dmul xi (js_index y i))) (Fin 0) (enumerate 0 x);
          sumXX = foldl (\<lambda>sum xi. dadd sum (dmul xi xi)) (Fin 0) x;
          slope = ddiv (dsub (dmul n sumXY) (dmul sumX sumY)) (dsub (dmul n sumXX) (dmul sumX sumX));
          intercept = ddiv (dsub sumY (dmul slope sumX)) n
      in \<lparr>slope = slope, intercept = intercept\<rparr>)"

text \<open>
  When the regression computes without rounding. \<open>exact r\<close>: the real \<open>r\<close> is a binary64
  value, its own rounding. \<open>fin_val d r\<close>: the number \<open>d\<close> is the real \<open>r\<close>, as a finite
  value or as a zero of either sign. \<open>exact_sums a vs\<close>: the running sums of \<open>vs\<close> from
  \<open>a\<close> on are exact. \<open>no_rounding xs ys\<close>: every intermediate result of the regression
  of the points \<open>(xs, ys)\<close>, taken in exact arithmetic in the order of the code, is
  exact.
\<close>

definition exact :: "real \<Rightarrow> bool" where
  "exact r \<longleftrightarrow> round64 r = Fin r"




section \<open>Magnetism demos\<close>

record magnetGroup =
  position_x :: real
  position_z :: real
  rotation_y :: real

record magnetic_field =
  bx :: real
  bz :: real
  strength :: real

text \<open>
  \<open>calculateFieldAt\<close> of the magnetic-materials demo. \<open>strengthValue\<close> is the number
  read from the \<open>magnetStrength\<close> slider. A zero \<open>r3\<close> would divide by zero: \<open>None\<close>.
\<close>

definition calculateFieldAt :: "magnetGroup \<Rightarrow> real \<Rightarrow> real \<Rightarrow> real \<Rightarrow> magnetic_field option" where
  "calculateFieldAt magnet strengthValue x z =
     (let dx = x - position_x magnet;
          dz = z - position_z magnet;
          dist = sqrt (dx * dx + dz * dz)
      in if dist < 0.1 then Some \<lparr>bx = 0, bz = 0, strength = 0\<rparr>
         else
           let magStrength = strengthValue * 0.5;
               r3 = dist * dist * dist
           in if r3 = 0 then None
              else
                let b_x = ((3 * dx * dz) / r3) * magStrength;
                    b_z = ((2 * dz * dz - dx * dx) / r3) * magStrength
                in Some \<lparr>bx = b_x, bz = b_z, strength = sqrt (b_x * b_x + b_z * b_z)\<rparr>)"

text \<open>\<open>calculateFieldAt\<close> of the demo with a rotatable magnet of fixed strength.\<close>

definition calculateFieldAt_rotated :: "magnetGroup \<Rightarrow> real \<Rightarrow> real \<Rightarrow> magnetic_field option" where
  "calculateFieldAt_rotated magnet x z =
     (let magnetRot = rotation_y magnet;
          dx = x - position_x magnet;
          dz = z - position_z magnet;
          cosRot = cos (- magnetRot);
          sinRot = sin (- magnetRot);
          dxRot = dx * cosRot - dz * sinRot;
          dzRot = dx * sinRot + dz * cosRot;
          dist = sqrt (dx * dx + dz * dz)
      in if dist < 0.1 then Some \<lparr>bx = 0, bz = 0, strength = 0\<rparr>
         else
           let magStrength = 0.5;
               r3 = dist * dist * dist
           in if r3 = 0 then None
              else
                let bxRot = ((3 * dxRot * dzRot) / r3) * magStrength;
                    bzRot = ((2 * dzRot * dzRot - dxRot * dxRot) / r3) * magStrength;
                    b_x = bxRot * cosRot - bzRot * sinRot;
                    b_z = bxRot * sinRot + bzRot * cosRot
                in Some \<lparr>bx = b_x, bz = b_z, strength = sqrt (b_x * b_x + b_z * b_z)\<rparr>)"

text \<open>A magnet at the origin, not rotated, as both demos start.\<close>

definition magnet_at_origin :: magnetGroup where
  "magnet_at_origin = \<lparr>position_x = 0, position_z = 0, rotation_y = 0\<rparr>"

text \<open>
  The magnitude that \<open>calculateFieldAt\<close> computes outside its guard, as a function of the
  displacement \<open>(dx, dz)\<close> from the magnet and of \<open>magStrength\<close>.
\<close>

definition dipole_strength :: "real \<Rightarrow> real \<Rightarrow> real \<Rightarrow> real" where
  "dipole_strength dx dz M =
     (let d = sqrt (dx * dx + dz * dz);
          A = (3 * dx * dz) / (d * d * d) * M;
          B = (2 * dz * dz - dx * dx) / (d * d * d) * M
      in sqrt (A * A + B * B))"

section \<open>Wave field\<close>

text \<open>
  The \<open>field\<close> array of a \<open>WaveField\<close>. A cell is \<open>Some v\<close> for a number \<open>v\<close> and \<open>None\<close>
  for a hole, \<open>undefined\<close> or \<open>NaN\<close>. Reading past the end gives \<open>undefined\<close>; writing
  past the end extends the array with holes.
\<close>

record WaveField =
  width :: nat
  height :: nat
  cells :: "real option list"

definition js_read :: "real option list \<Rightarrow> nat \<Rightarrow> real option" where
  "js_read xs i = (if i < length xs then xs ! i else None)"

definition js_write :: "real option list \<Rightarrow> nat \<Rightarrow> real option \<Rightarrow> real option list" where
  "js_write xs i v =
     (if i < length xs then xs[i := v]
      else xs @ replicate (i - length xs) None @ [v])"

definition newWaveField :: "nat \<Rightarrow> nat \<Rightarrow> WaveField" where
  "newWaveField w h = \<lparr>width = w, height = h, cells = replicate (w * h) (Some 0)\<rparr>"

definition cellIndex :: "WaveField \<Rightarrow> real \<Rightarrow> real \<Rightarrow> nat" where
  "cellIndex fld x y = nat \<lfloor>y\<rfloor> * width fld + nat \<lfloor>x\<rfloor>"

definition getValue :: "WaveField \<Rightarrow> real \<Rightarrow> real \<Rightarrow> real option" where
  "getValue fld x y =
     (if x < 0 \<or> x \<ge> real (width fld) \<or> y < 0 \<or> y \<ge> real (height fld) then Some 0
      else js_read (cells fld) (cellIndex fld x y))"

definition setValue :: "WaveField \<Rightarrow> real \<Rightarrow> real \<Rightarrow> real \<Rightarrow> WaveField" where
  "setValue fld x y v =
     (if x < 0 \<or> x \<ge> real (width fld) \<or> y < 0 \<or> y \<ge> real (height fld) then fld
      else fld\<lparr>cells := js_write (cells fld) (cellIndex fld x y) (Some v)\<rparr>)"

definition addWave :: "WaveField \<Rightarrow> real \<Rightarrow> real \<Rightarrow> real \<Rightarrow> real \<Rightarrow> WaveField" where
  "addWave fld x y amplitude phase =
     (if x < 0 \<or> x \<ge> real (width fld) \<or> y < 0 \<or> y \<ge> real (height fld) then fld
      else
        let i = cellIndex fld x y;
            v = (case js_read (cells fld) i of
                   None \<Rightarrow> None
                 | Some old \<Rightarrow> Some (old + amplitude * sin phase))
        in fld\<lparr>cells := js_write (cells fld) i v\<rparr>)"

definition clear :: "WaveField \<Rightarrow> WaveField" where
  "clear fld = fld\<lparr>cells := map (\<lambda>_. Some 0) (cells fld)\<rparr>"

section \<open>Chemistry lab\<close>

text \<open>
  The eight step flags of the lab's \<open>state\<close>, the \<open>disabled\<close> property of each button,
  and the number of pending two-second timers started by the heat button.
\<close>

datatype button =
  addZincBtn | addHClBtn | collectGasBtn | popTestBtn | addCuOBtn | heatBtn
  | passHydrogenBtn | waterTestBtn | resetBtn

record lab_state =
  zincAdded :: bool
  hclAdded :: bool
  gasCollected :: bool
  popTested :: bool
  cuoAdded :: bool
  heated :: bool
  hydrogenPassed :: bool
  waterTested :: bool
  disabled :: "button \<Rightarrow> bool"
  heatTimers :: nat

datatype event = Click button | HeatTimeout

text \<open>
  The page's markup, which sets the buttons' \<open>disabled\<close> attributes at load time, is not
  part of the scripts: the initial \<open>disabled\<close> map is a parameter.
\<close>

definition initial_lab :: "(button \<Rightarrow> bool) \<Rightarrow> lab_state" where
  "initial_lab d =
     \<lparr>zincAdded = False, hclAdded = False, gasCollected = False, popTested = False,
      cuoAdded = False, heated = False, hydrogenPassed = False, waterTested = False,
      disabled = d, heatTimers = 0\<rparr>"

fun handler :: "button \<Rightarrow> lab_state \<Rightarrow> lab_state" where
  "handler addZincBtn s =
     (if \<not> zincAdded s
      then s\<lparr>zincAdded := True, disabled := (disabled s)(addHClBtn := False)\<rparr>
      else s)"
| "handler addHClBtn s =
     (if zincAdded s \<and> \<not> hclAdded s
      then s\<lparr>hclAdded := True, disabled := (disabled s)(collectGasBtn := False)\<rparr>
      else s)"
| "handler collectGasBtn s =
     (if hclAdded s \<and> \<not> gasCollected s
      then s\<lparr>gasCollected := True, disabled := (disabled s)(popTestBtn := False)\<rparr>
      else s)"
| "handler popTestBtn s =
     (if gasCollected s \<and> \<not> popTested s
      then s\<lparr>popTested := True, disabled := (disabled s)(addCuOBtn := False)\<rparr>
      else s)"
| "handler addCuOBtn s =
     (if \<not> cuoAdded s
      then s\<lparr>cuoAdded := True, disabled := (disabled s)(heatBtn := False)\<rparr>
      else s)"
| "handler heatBtn s =
     (if cuoAdded s \<and> \<not> heated s
      then s\<lparr>heated := True, heatTimers := heatTimers s + 1\<rparr>
      else s)"
| "handler passHydrogenBtn s =
     (if heated s \<and> gasCollected s \<and> \<not> hydrogenPassed s
      then s\<lparr>hydrogenPassed := True, disabled := (disabled s)(waterTestBtn := False)\<rparr>
      else s)"
| "handler waterTestBtn s =
     (if hydrogenPassed s \<and> \<not> waterTested s
      then s\<lparr>waterTested := True\<rparr>
      else s)"
| "handler resetBtn s =
     s\<lparr>zincAdded := False, hclAdded := False, gasCollected := False, popTested := False,
       cuoAdded := False, heated := False, hydrogenPassed := False, waterTested := False,
       disabled := (\<lambda>b. if b \<in> {addHClBtn, collectGasBtn, popTestBtn, addCuOBtn,
                                   heatBtn, passHydrogenBtn, waterTestBtn}
                           then True else disabled s b)\<rparr>"

text \<open>A click on a disabled button does not reach its handler.\<close>

fun step :: "lab_state \<Rightarrow> event \<Rightarrow> lab_state" where
  "step s (Click b) = (if disabled s b then s else handler b s)"
| "step s HeatTimeout =
     (if heatTimers s = 0 then s
      else s\<lparr>heatTimers := heatTimers s - 1,
             disabled := (disabled s)(passHydrogenBtn := False)\<rparr>)"

definition run :: "lab_state \<Rightarrow> event list \<Rightarrow> lab_state" where
  "run s evs = foldl step s evs"

definition step_order :: "lab_state \<Rightarrow> bool" where
  "step_order s \<longleftrightarrow>
     (hclAdded s \<longrightarrow> zincAdded s)
     \<and> (gasCollected s \<longrightarrow> hclAdded s)
     \<and> (popTested s \<longrightarrow> gasCollected s)
     \<and> (heated s \<longrightarrow> cuoAdded s)
     \<and> (hydrogenPassed s \<longrightarrow> heated s \<and> gasCollected s)
     \<and> (waterTested s \<longrightarrow> hydrogenPassed s)"

text \<open>
  An example run: every button but the first and the reset button starts disabled, and
  the experiment is carried out in order, the heat timer firing before hydrogen is passed.
\<close>

definition page_load_disabled :: "button \<Rightarrow> bool" where
  "page_load_disabled b = (b \<noteq> addZincBtn \<and> b \<noteq> resetBtn)"

definition full_experiment :: "event list" where
  "full_experiment =
     [Click addZincBtn, Click addHClBtn, Click collectGasBtn, Click popTestBtn,
      Click addCuOBtn, Click heatBtn, HeatTimeout, Click passHydrogenBtn,
      Click waterTestBtn]"

section \<open>Properties of the pendulum\<close>

text \<open>
  C7. When \<open>isRunning\<close> is false, \<open>updatePendulumPhysics\<close> returns the state record
  unchanged, whatever the \<open>deltaTime\<close>: no field is written.
\<close>

theorem paused_update_changes_nothing:
  "\<not> isRunning s \<Longrightarrow> updatePendulumPhysics deltaTime s = Some s"
  by (simp add: updatePendulumPhysics_def)

theorem paused_update_changes_nothing_witness:
  "\<not> isRunning (initial_pendulum\<lparr>angle := 1, angularVelocity := 2\<rparr>)
   \<and> updatePendulumPhysics 0.02 (initial_pendulum\<lparr>angle := 1, angularVelocity := 2\<rparr>)
       = Some (initial_pendulum\<lparr>angle := 1, angularVelocity := 2\<rparr>)"
  using paused_update_changes_nothing
    [of "initial_pendulum\<lparr>angle := 1, angularVelocity := 2\<rparr>" "0.02"]
  by (simp add: initial_pendulum_def)

text \<open>
  C5. In a frame with \<open>isRunning\<close> true (and a non-zero length), \<open>animate\<close> passes
  \<open>updatePendulumPhysics\<close> a delta \<open>dt\<close> that is the clock difference capped at 0.02,
  and the update is one Euler step with linear damping 0.001: the new angular velocity
  is \<open>omega + (-(g/L) * sin angle - damping * omega) * dt\<close>, and the new angle is the
  old angle plus the new velocity times \<open>dt\<close>.
\<close>

theorem running_frame_is_one_euler_step:
  assumes run: "isRunning (pendulum f)"
    and len: "length_cm (pendulum f) \<noteq> 0"
    and dt: "dt = min (currentTime - lastTime f) 0.02"
  shows "dt \<le> 0.02
         \<and> (\<exists>s'. updatePendulumPhysics dt (pendulum f) = Some s'
               \<and> animate currentTime f = Some \<lparr>lastTime = currentTime, pendulum = s'\<rparr>
               \<and> angularVelocity s'
                   = angularVelocity (pendulum f)
                     + (- (G / (length_cm (pendulum f) / 100)) * sin (angle (pendulum f))
                        - 0.001 * angularVelocity (pendulum f)) * dt
               \<and> angle s' = angle (pendulum f) + angularVelocity s' * dt)"
proof -
  obtain s' where upd: "updatePendulumPhysics dt (pendulum f) = Some s'"
    using run len by (simp add: updatePendulumPhysics_def Let_def)
  have vel: "angularVelocity s'
               = angularVelocity (pendulum f)
                 + (- (G / (length_cm (pendulum f) / 100)) * sin (angle (pendulum f))
                    - 0.001 * angularVelocity (pendulum f)) * dt"
    using upd run len by (auto simp add: updatePendulumPhysics_def Let_def)
  have ang: "angle s' = angle (pendulum f) + angularVelocity s' * dt"
    using upd run len by (auto simp add: updatePendulumPhysics_def Let_def)
  have anim: "animate currentTime f = Some \<lparr>lastTime = currentTime, pendulum = s'\<rparr>"
    using upd unfolding dt by (simp add: animate_def Let_def)
  have "dt \<le> 0.02" unfolding dt by (rule min.cobounded2)
  with upd vel ang anim show ?thesis by blast
qed

theorem running_frame_is_one_euler_step_witness:
  "isRunning (initial_pendulum\<lparr>isRunning := True, angularVelocity := 1\<rparr>)
   \<and> length_cm (initial_pendulum\<lparr>isRunning := True, angularVelocity := 1\<rparr>) \<noteq> 0
   \<and> (0.02::real) = min (1 - 0) 0.02
   \<and> (\<exists>s'. updatePendulumPhysics 0.02
                (initial_pendulum\<lparr>isRunning := True, angularVelocity := 1\<rparr>) = Some s'
            \<and> animate 1 \<lparr>lastTime = 0,
                pendulum = initial_pendulum\<lparr>isRunning := True, angularVelocity := 1\<rparr>\<rparr>
              = Some \<lparr>lastTime = 1, pendulum = s'\<rparr>
            \<and> angularVelocity s' = 1 + (- 0.001) * 0.02
            \<and> angle s' = angularVelocity s' * 0.02)"
  using running_frame_is_one_euler_step
    [of "\<lparr>lastTime = 0,
          pendulum = initial_pendulum\<lparr>isRunning := True, angularVelocity := 1\<rparr>\<rparr>"
        "0.02" 1]
  by (simp add: initial_pendulum_def)

section \<open>Properties of the chemistry lab\<close>

lemma handler_step_order: "step_order s \<Longrightarrow> step_order (handler b s)"
  by (cases b) (simp_all add: step_order_def)

lemma step_step_order: "step_order s \<Longrightarrow> step_order (step s e)"
  by (cases e) (simp_all add: handler_step_order, simp add: step_order_def)

lemma run_step_order: "step_order s \<Longrightarrow> step_order (run s evs)"
  unfolding run_def
  by (induction evs arbitrary: s) (simp_all add: step_step_order)

lemma initial_step_order: "step_order (initial_lab d)"
  by (simp add: step_order_def initial_lab_def)

text \<open>
  C9. In every state reached from the initial state by any sequence of button clicks
  (a disabled button does nothing, reset clears all flags) and timer expiries, whatever
  the buttons' load-time \<open>disabled\<close> attributes, the step-ordering implications hold:
  \<open>hclAdded\<close> implies \<open>zincAdded\<close>, \<open>gasCollected\<close> implies \<open>hclAdded\<close>, \<open>popTested\<close>
  implies \<open>gasCollected\<close>, \<open>heated\<close> implies \<open>cuoAdded\<close>, \<open>hydrogenPassed\<close> implies
  \<open>heated\<close> and \<open>gasCollected\<close>, and \<open>waterTested\<close> implies \<open>hydrogenPassed\<close>.
\<close>

theorem reachable_step_order: "step_order (run (initial_lab d) evs)"
  by (rule run_step_order) (rule initial_step_order)

lemma full_experiment_flags:
  "zincAdded (run (initial_lab page_load_disabled) full_experiment)
   \<and> hclAdded (run (initial_lab page_load_disabled) full_experiment)
   \<and> gasCollected (run (initial_lab page_load_disabled) full_experiment)
   \<and> popTested (run (initial_lab page_load_disabled) full_experiment)
   \<and> cuoAdded (run (initial_lab page_load_disabled) full_experiment)
   \<and> heated (run (initial_lab page_load_disabled) full_experiment)
   \<and> hydrogenPassed (run (initial_lab page_load_disabled) full_experiment)
   \<and> waterTested (run (initial_lab page_load_disabled) full_experiment)"
  by (simp add: run_def full_experiment_def initial_lab_def page_load_disabled_def)

theorem reachable_step_order_witness:
  "step_order (run (initial_lab page_load_disabled) full_experiment)
   \<and> zincAdded (run (initial_lab page_load_disabled) full_experiment)
   \<and> hclAdded (run (initial_lab page_load_disabled) full_experiment)
   \<and> gasCollected (run (initial_lab page_load_disabled) full_experiment)
   \<and> popTested (run (initial_lab page_load_disabled) full_experiment)
   \<and> cuoAdded (run (initial_lab page_load_disabled) full_experiment)
   \<and> heated (run (initial_lab page_load_disabled) full_experiment)
   \<and> hydrogenPassed (run (initial_lab page_load_disabled) full_experiment)
   \<and> waterTested (run (initial_lab page_load_disabled) full_experiment)"
  using reachable_step_order [of page_load_disabled full_experiment]
    full_experiment_flags
  by simp

section \<open>Properties of the wave field\<close>

text \<open>
  C10. For coordinates outside \<open>[0, width) \<times> [0, height)\<close>, \<open>getValue\<close> returns 0, and
  \<open>setValue\<close> and \<open>addWave\<close> return the wave field, and so its array, unchanged.
\<close>

theorem out_of_range_access_is_total:
  assumes "\<not> (0 \<le> x \<and> x < real (width fld) \<and> 0 \<le> y \<and> y < real (height fld))"
  shows "getValue fld x y = Some 0
         \<and> setValue fld x y v = fld
         \<and> cells (setValue fld x y v) = cells fld
         \<and> addWave fld x y amplitude phase = fld
         \<and> cells (addWave fld x y amplitude phase) = cells fld"
proof -
  from assms have out: "x < 0 \<or> x \<ge> real (width fld) \<or> y < 0 \<or> y \<ge> real (height fld)"
    by auto
  have g: "getValue fld x y = Some 0" using out by (simp add: getValue_def)
  have s: "setValue fld x y v = fld" using out by (simp add: setValue_def)
  have a: "addWave fld x y amplitude phase = fld" using out by (simp add: addWave_def)
  from g s a show ?thesis by simp
qed

theorem out_of_range_access_is_total_witness:
  "\<not> (0 \<le> (3::real) \<and> (3::real) < real (width (setValue (newWaveField 3 2) 1 1 7))
        \<and> 0 \<le> (1::real) \<and> (1::real) < real (height (setValue (newWaveField 3 2) 1 1 7)))
   \<and> cells (setValue (newWaveField 3 2) 1 1 7)
        = [Some 0, Some 0, Some 0, Some 0, Some 7, Some 0]
   \<and> getValue (setValue (newWaveField 3 2) 1 1 7) 1.5 1.5 = Some 7
   \<and> getValue (setValue (newWaveField 3 2) 1 1 7) 3 1 = Some 0
   \<and> cells (setValue (setValue (newWaveField 3 2) 1 1 7) 3 1 9)
        = [Some 0, Some 0, Some 0, Some 0, Some 7, Some 0]
   \<and> cells (addWave (setValue (newWaveField 3 2) 1 1 7) 3 1 2 (pi / 2))
        = [Some 0, Some 0, Some 0, Some 0, Some 7, Some 0]"
  using out_of_range_access_is_total
    [of 3 "setValue (newWaveField 3 2) 1 1 7" 1 9 2 "pi / 2"]
  by (simp add: setValue_def getValue_def newWaveField_def cellIndex_def js_write_def
      js_read_def numeral_eq_Suc)

section \<open>Properties of the magnetic field\<close>

lemma sqrt_four: "sqrt 4 = 2"
  using real_sqrt_abs [of 2] by simp

lemma sqrt_quarter: "sqrt (1 / 4) = 1 / 2"
  by (simp add: real_sqrt_divide sqrt_four)

lemma calculateFieldAt_total: "calculateFieldAt magnet strengthValue x z \<noteq> None"
  by (auto simp add: calculateFieldAt_def Let_def)

lemma calculateFieldAt_rotated_total: "calculateFieldAt_rotated magnet x z \<noteq> None"
  by (auto simp add: calculateFieldAt_rotated_def Let_def)

text \<open>
  C3. At a sample point at zero distance from the magnet, \<open>calculateFieldAt\<close> returns
  \<open>bx = 0\<close>, \<open>bz = 0\<close> and \<open>strength = 0\<close>, a number and not \<open>NaN\<close>, in both magnetism
  demos.
\<close>

theorem field_at_magnet_is_zero:
  "calculateFieldAt magnet strengthValue (position_x magnet) (position_z magnet)
     = Some \<lparr>bx = 0, bz = 0, strength = 0\<rparr>
   \<and> calculateFieldAt_rotated magnet (position_x magnet) (position_z magnet)
     = Some \<lparr>bx = 0, bz = 0, strength = 0\<rparr>"
  by (simp add: calculateFieldAt_def calculateFieldAt_rotated_def)

text \<open>
  C6. The inverse-cube law, that scaling the displacement from the magnet by \<open>lambda\<close>
  divides the strength by \<open>lambda\<close> cubed, does not hold of \<open>calculateFieldAt\<close>: with the
  magnet at the origin, the strength at \<open>(0, 1)\<close> is 1 and at \<open>(0, 2)\<close> it is 1/2, not
  1/8, in both demos. The numerators are quadratic in the displacement and only the
  denominator is cubic, so the strength falls off with the first power of the distance
  (\<open>field_strength_scales_inversely\<close> below).
\<close>

theorem field_strength_halves_at_double_distance:
  "calculateFieldAt magnet_at_origin 1 0 1 = Some \<lparr>bx = 0, bz = 1, strength = 1\<rparr>
   \<and> calculateFieldAt magnet_at_origin 1 0 2 = Some \<lparr>bx = 0, bz = 1 / 2, strength = 1 / 2\<rparr>
   \<and> calculateFieldAt_rotated magnet_at_origin 0 1 = Some \<lparr>bx = 0, bz = 1, strength = 1\<rparr>
   \<and> calculateFieldAt_rotated magnet_at_origin 0 2
       = Some \<lparr>bx = 0, bz = 1 / 2, strength = 1 / 2\<rparr>"
  by (simp add: calculateFieldAt_def calculateFieldAt_rotated_def magnet_at_origin_def
      Let_def sqrt_four sqrt_quarter)

lemma scaled_dist:
  assumes "0 < lam"
  shows "sqrt (lam * dx * (lam * dx) + lam * dz * (lam * dz)) = lam * sqrt (dx * dx + dz * dz)"
proof -
  have "lam * dx * (lam * dx) + lam * dz * (lam * dz) = lam\<^sup>2 * (dx * dx + dz * dz)"
    by (simp add: power2_eq_square algebra_simps)
  then have "sqrt (lam * dx * (lam * dx) + lam * dz * (lam * dz))
               = sqrt (lam\<^sup>2) * sqrt (dx * dx + dz * dz)"
    by (simp add: real_sqrt_mult)
  with assms show ?thesis by simp
qed

lemma dipole_strength_scaled:
  assumes lam: "0 < lam" and d: "0 < sqrt (dx * dx + dz * dz)"
  shows "dipole_strength (lam * dx) (lam * dz) M = dipole_strength dx dz M / lam"
proof -
  define d where "d = sqrt (dx * dx + dz * dz)"
  define A where "A = (3 * dx * dz) / (d * d * d) * M"
  define B where "B = (2 * dz * dz - dx * dx) / (d * d * d) * M"
  have dpos: "0 < d" using d by (simp only: d_def)
  have sd: "sqrt (lam * dx * (lam * dx) + lam * dz * (lam * dz)) = lam * d"
    unfolding d_def by (rule scaled_dist [OF lam])
  have a: "(3 * (lam * dx) * (lam * dz)) / (lam * d * (lam * d) * (lam * d)) * M = A / lam"
    using lam dpos by (simp add: A_def field_simps)
  have b: "(2 * (lam * dz) * (lam * dz) - lam * dx * (lam * dx))
             / (lam * d * (lam * d) * (lam * d)) * M = B / lam"
    using lam dpos by (simp add: B_def field_simps)
  have "sqrt (A / lam * (A / lam) + B / lam * (B / lam)) = sqrt ((A * A + B * B) / lam\<^sup>2)"
    by (simp add: power2_eq_square add_divide_distrib)
  also have "\<dots> = sqrt (A * A + B * B) / lam"
    using lam by (simp add: real_sqrt_divide)
  finally have key: "sqrt (A / lam * (A / lam) + B / lam * (B / lam))
                       = sqrt (A * A + B * B) / lam" .
  have lhs: "dipole_strength (lam * dx) (lam * dz) M
               = sqrt (A / lam * (A / lam) + B / lam * (B / lam))"
    unfolding dipole_strength_def Let_def sd a b ..
  have rhs: "dipole_strength dx dz M = sqrt (A * A + B * B)"
    unfolding dipole_strength_def Let_def A_def B_def d_def ..
  show ?thesis unfolding lhs rhs by (rule key)
qed

lemma calculateFieldAt_far:
  assumes far: "0.1 \<le> sqrt (dx * dx + dz * dz)"
  shows "\<exists>f. calculateFieldAt magnet strengthValue
                (position_x magnet + dx) (position_z magnet + dz) = Some f
             \<and> strength f = dipole_strength dx dz (strengthValue * 0.5)"
proof -
  have nlt: "\<not> sqrt (dx * dx + dz * dz) < 0.1" using far by linarith
  have pos: "0 < sqrt (dx * dx + dz * dz)" using far by linarith
  have cube: "s * s * s \<noteq> 0" if "0 < s" for s :: real
    using that by simp
  have nz: "sqrt (dx * dx + dz * dz) * sqrt (dx * dx + dz * dz) * sqrt (dx * dx + dz * dz) \<noteq> 0"
    by (rule cube [OF pos])
  have shift: "position_x magnet + dx - position_x magnet = dx"
    "position_z magnet + dz - position_z magnet = dz"
    by simp_all
  show ?thesis
    unfolding calculateFieldAt_def dipole_strength_def Let_def shift
    by (simp only: nlt nz if_False magnetic_field.simps option.inject simp_thms)
qed

lemma field_strength_scales_inversely:
  assumes far: "0.1 \<le> sqrt (dx * dx + dz * dz)" and lam: "1 < lam"
  shows "\<exists>f g. calculateFieldAt magnet strengthValue
                  (position_x magnet + dx) (position_z magnet + dz) = Some f
               \<and> calculateFieldAt magnet strengthValue
                  (position_x magnet + lam * dx) (position_z magnet + lam * dz) = Some g
               \<and> strength g = strength f / lam"
proof -
  define d where "d = sqrt (dx * dx + dz * dz)"
  have d01: "0.1 \<le> d" using far by (simp only: d_def)
  then have dpos: "0 < d" by linarith
  have lpos: "0 < lam" using lam by simp
  have sd: "sqrt (lam * dx * (lam * dx) + lam * dz * (lam * dz)) = lam * d"
    unfolding d_def by (rule scaled_dist [OF lpos])
  have "d \<le> lam * d" using lam dpos by simp
  with d01 have far': "0.1 \<le> sqrt (lam * dx * (lam * dx) + lam * dz * (lam * dz))"
    unfolding sd by linarith
  obtain f where f: "calculateFieldAt magnet strengthValue
                  (position_x magnet + dx) (position_z magnet + dz) = Some f"
     "strength f = dipole_strength dx dz (strengthValue * 0.5)"
    using calculateFieldAt_far [OF far] by blast
  obtain g where g: "calculateFieldAt magnet strengthValue
                  (position_x magnet + lam * dx) (position_z magnet + lam * dz) = Some g"
     "strength g = dipole_strength (lam * dx) (lam * dz) (strengthValue * 0.5)"
    using calculateFieldAt_far [OF far'] by blast
  have "strength g = strength f / lam"
    using dipole_strength_scaled [OF lpos, of dx dz "strengthValue * 0.5"] dpos f(2) g(2)
    by (simp only: d_def)
  with f(1) g(1) show ?thesis by blast
qed

section \<open>Properties of the displayed period\<close>

subsection \<open>Bounds on sine and pi\<close>

lemma sum_below_7: "(\<Sum>m<7. f m) = f 0 + f 1 + f 2 + f 3 + f 4 + f 5 + f (6::nat)"
  for f :: "nat \<Rightarrow> real"
  by (simp add: numeral_eq_Suc)

lemma sin_coeffs:
  "sin_coeff 0 = 0" "sin_coeff 1 = 1" "sin_coeff 2 = 0" "sin_coeff 3 = - 1 / 6"
  "sin_coeff 4 = 0" "sin_coeff 5 = 1 / 120" "sin_coeff 6 = 0"
  by (simp_all add: sin_coeff_def fact_numeral)

lemma fact_7: "fact 7 = (5040 :: real)"
  by (simp add: fact_numeral)

lemma sin_taylor5:
  "\<bar>sin x - (x - x^3 / 6 + x^5 / 120)\<bar> \<le> \<bar>x\<bar>^7 / 5040" for x :: real
proof -
  have s: "(\<Sum>m<7. sin_coeff m * x ^ m) = x - x^3 / 6 + x^5 / 120"
    unfolding sum_below_7 sin_coeffs by simp
  have r: "inverse (fact 7) * \<bar>x\<bar> ^ 7 = \<bar>x\<bar>^7 / 5040"
    unfolding fact_7 by simp
  have "\<bar>sin x - (\<Sum>m<7. sin_coeff m * x ^ m)\<bar> \<le> inverse (fact 7) * \<bar>x\<bar> ^ 7"
    by (rule Maclaurin_sin_bound)
  then show ?thesis unfolding s r .
qed

lemma sum_below_13:
  "(\<Sum>m<13. f m) = f 0 + f 1 + f 2 + f 3 + f 4 + f 5 + f 6 + f 7 + f 8 + f 9 + f 10
      + f 11 + f (12::nat)"
  for f :: "nat \<Rightarrow> real"
  by (simp add: numeral_eq_Suc)

lemma sin_coeffs_more:
  "sin_coeff 7 = - 1 / 5040" "sin_coeff 8 = 0" "sin_coeff 9 = 1 / 362880"
  "sin_coeff 10 = 0" "sin_coeff 11 = - 1 / 39916800" "sin_coeff 12 = 0"
  by (simp_all add: sin_coeff_def fact_numeral)

lemma fact_13: "fact 13 = (6227020800 :: real)"
  by (simp add: fact_numeral)

lemma sin_taylor11:
  "\<bar>sin x - (x - x^3 / 6 + x^5 / 120 - x^7 / 5040 + x^9 / 362880 - x^11 / 39916800)\<bar>
     \<le> \<bar>x\<bar>^13 / 6227020800" for x :: real
proof -
  have s: "(\<Sum>m<13. sin_coeff m * x ^ m)
             = x - x^3 / 6 + x^5 / 120 - x^7 / 5040 + x^9 / 362880 - x^11 / 39916800"
    unfolding sum_below_13 sin_coeffs sin_coeffs_more by simp
  have r: "inverse (fact 13) * \<bar>x\<bar> ^ 13 = \<bar>x\<bar>^13 / 6227020800"
    unfolding fact_13 by simp
  have "\<bar>sin x - (\<Sum>m<13. sin_coeff m * x ^ m)\<bar> \<le> inverse (fact 13) * \<bar>x\<bar> ^ 13"
    by (rule Maclaurin_sin_bound)
  then show ?thesis unfolding s r .
qed

text \<open>pi/6 is where sin reaches 1/2 on [0, 1].\<close>

lemma pi_lower: "3.1415926 < pi"
proof -
  define a :: real where "a = 3.1415926 / 6"
  have a01: "0 \<le> a" "a \<le> 1" by (simp_all add: a_def)
  have "sin a \<le> (a - a^3 / 6 + a^5 / 120 - a^7 / 5040 + a^9 / 362880 - a^11 / 39916800)
                  + \<bar>a\<bar>^13 / 6227020800"
    using sin_taylor11 [of a] by linarith
  also have "\<dots> < 1 / 2"
    unfolding a_def by (simp add: power_divide)
  finally have lt: "sin a < sin (pi / 6)" by (simp add: sin_30)
  have "a < pi / 6"
  proof (rule ccontr)
    assume "\<not> a < pi / 6"
    then have "pi / 6 \<le> a" by simp
    moreover have "a \<le> pi / 2" using a01 pi_ge_two by linarith
    moreover have "- (pi / 2) \<le> pi / 6" using pi_gt_zero by linarith
    ultimately have "sin (pi / 6) \<le> sin a" by (intro sin_monotone_2pi_le)
    with lt show False by simp
  qed
  then show ?thesis by (simp add: a_def)
qed

lemma pi_upper: "pi < 3.1415927"
proof -
  define b :: real where "b = 3.1415927 / 6"
  have b01: "0 \<le> b" "b \<le> 1" by (simp_all add: b_def)
  have "1 / 2 < (b - b^3 / 6 + b^5 / 120 - b^7 / 5040 + b^9 / 362880 - b^11 / 39916800)
                  - \<bar>b\<bar>^13 / 6227020800"
    unfolding b_def by (simp add: power_divide)
  also have "\<dots> \<le> sin b"
    using sin_taylor11 [of b] by linarith
  finally have lt: "sin (pi / 6) < sin b" by (simp add: sin_30)
  have "pi / 6 < b"
  proof (rule ccontr)
    assume "\<not> pi / 6 < b"
    then have "b \<le> pi / 6" by simp
    moreover have "pi / 6 \<le> pi / 2" using pi_gt_zero by linarith
    moreover have "- (pi / 2) \<le> b" using b01 pi_gt_zero by linarith
    ultimately have "sin b \<le> sin (pi / 6)" by (intro sin_monotone_2pi_le)
    with lt show False by simp
  qed
  then show ?thesis by (simp add: b_def)
qed

lemma sin_lipschitz:
  fixes x a :: real
  assumes "a \<le> x" "x - a \<le> 1"
  shows "sin x - sin a \<le> x - a"
proof -
  define t where "t = (x - a) / 2"
  have t: "0 \<le> t" "t \<le> pi" using assms pi_ge_two by (simp_all add: t_def)
  have s0: "0 \<le> sin t" using t by (rule sin_ge_zero)
  have s1: "sin t \<le> t" using t(1) by (rule sin_x_le_x)
  have "sin x - sin a = 2 * sin t * cos ((x + a) / 2)"
    unfolding t_def by (rule sin_diff_sin)
  also have "\<dots> \<le> 2 * sin t * 1"
    using s0 by (intro mult_left_mono) simp_all
  also have "\<dots> \<le> x - a" using s1 by (simp add: t_def)
  finally show ?thesis .
qed

lemma sin_enclosure:
  fixes x :: real
  assumes ax: "a \<le> x" and xb: "x \<le> b"
    and small: "- (1 / 10) \<le> a" "b \<le> 1 / 10"
    and q: "q_lo \<le> a * a" "a * a \<le> q_hi" "0 \<le> q_lo" "q_hi \<le> 1"
    and w: "w_lo \<le> q_lo * (1 / 6 - q_lo / 120)" "q_hi * (1 / 6 - q_hi / 120) \<le> w_hi"
    and t: "t_lo \<le> a * w_lo" "t_lo \<le> a * w_hi" "a * w_lo \<le> t_hi" "a * w_hi \<le> t_hi"
    and sl: "sl \<le> a - t_hi - 2 / 10 ^ 11"
    and sh: "a - t_lo + 2 / 10 ^ 11 + (b - a) \<le> sh"
  shows "sl \<le> sin x" and "sin x \<le> sh"
proof -
  define w where "w = a * a * (1 / 6 - a * a / 120)"
  have mono: "u * (1 / 6 - u / 120) \<le> v * (1 / 6 - v / 120)"
    if "0 \<le> u" "u \<le> v" "v \<le> 1" for u v :: real
  proof -
    have "v * (1 / 6 - v / 120) - u * (1 / 6 - u / 120) = (v - u) * (1 / 6 - (u + v) / 120)"
      by (simp add: field_simps)
    moreover have "0 \<le> (v - u) * (1 / 6 - (u + v) / 120)"
      using that by (intro mult_nonneg_nonneg) simp_all
    ultimately show ?thesis by linarith
  qed
  have sq: "0 \<le> a * a" by simp
  have w1: "w_lo \<le> w"
    using mono [OF q(3) q(1)] q(2,4) w(1) unfolding w_def by linarith
  have w2: "w \<le> w_hi"
    using mono [OF sq q(2) q(4)] w(2) unfolding w_def by linarith
  have aw: "t_lo \<le> a * w \<and> a * w \<le> t_hi"
  proof (cases "0 \<le> a")
    case True
    have "a * w_lo \<le> a * w" "a * w \<le> a * w_hi"
      using True w1 w2 by (simp_all add: mult_left_mono)
    with t show ?thesis by linarith
  next
    case False
    then have "a \<le> 0" by simp
    then have "a * w_hi \<le> a * w" "a * w \<le> a * w_lo"
      using w1 w2 by (simp_all add: mult_left_mono_neg)
    with t show ?thesis by linarith
  qed
  have poly: "a - a^3 / 6 + a^5 / 120 = a - a * w"
    unfolding w_def by (simp add: power3_eq_cube power_numeral_reduce algebra_simps)
  have abs_a: "\<bar>a\<bar> \<le> 1 / 10" using small ax xb by linarith
  have "\<bar>a\<bar>^7 \<le> (1 / 10)^7"
    using abs_a by (intro power_mono) simp_all
  then have rem: "\<bar>a\<bar>^7 / 5040 \<le> 2 / 10 ^ 11" by (simp add: power_divide)
  have tay: "\<bar>sin a - (a - a * w)\<bar> \<le> 2 / 10 ^ 11"
    using sin_taylor5 [of a] rem unfolding poly by linarith
  have half: "1 / 10 \<le> pi / 2" using pi_ge_two by simp
  have "sin a \<le> sin x"
    using ax xb small half by (intro sin_monotone_2pi_le) linarith+
  then show "sl \<le> sin x" using tay aw sl by linarith
  have "sin x - sin a \<le> x - a"
    using ax xb small by (intro sin_lipschitz) linarith+
  then show "sin x \<le> sh" using tay aw sh ax xb by linarith
qed

subsection \<open>One frame on an enclosure\<close>

lemma physics_step_fields:
  assumes run: "isRunning s" and len: "length_cm s = 50"
    and vel: "vel = angularVelocity s
                + (- (981 / 50) * sin (angle s) - (1 / 1000) * angularVelocity s) * (1 / 50)"
    and ang: "ang = angle s + vel * (1 / 50)"
  shows "\<exists>s'. updatePendulumPhysics (1 / 50) s = Some s'
           \<and> isRunning s' \<and> length_cm s' = 50
           \<and> angularVelocity s' = vel \<and> angle s' = ang \<and> lastAngle s' = ang
           \<and> elapsedTime s' = elapsedTime s + (1 / 50)
           \<and> lastCrossTime s'
               = (if ang \<ge> 0 \<and> lastAngle s < 0 \<and> lastCrossTime s = 0
                  then elapsedTime s + (1 / 50) else lastCrossTime s)
           \<and> oscillations s'
               = (if ang \<ge> 0 \<and> lastAngle s < 0 \<and> lastCrossTime s \<noteq> 0
                  then oscillations s + 1 else oscillations s)"
  using run len unfolding vel ang
  by (simp add: updatePendulumPhysics_def Let_def G_def)

lemma euler_enclosure:
  fixes \<theta> \<omega> :: real
  assumes th: "a \<le> \<theta>" "\<theta> \<le> b" and om: "c \<le> \<omega>" "\<omega> \<le> d"
    and small: "- (1 / 10) \<le> a" "b \<le> 1 / 10"
    and q: "q_lo \<le> a * a" "a * a \<le> q_hi" "0 \<le> q_lo" "q_hi \<le> 1"
    and w: "w_lo \<le> q_lo * (1 / 6 - q_lo / 120)" "q_hi * (1 / 6 - q_hi / 120) \<le> w_hi"
    and t: "t_lo \<le> a * w_lo" "t_lo \<le> a * w_hi" "a * w_lo \<le> t_hi" "a * w_hi \<le> t_hi"
    and sl: "sl \<le> a - t_hi - 2 / 10 ^ 11"
    and sh: "a - t_lo + 2 / 10 ^ 11 + (b - a) \<le> sh"
    and c': "c' \<le> (49999 / 50000) * c - (981 / 2500) * sh"
    and d': "(49999 / 50000) * d - (981 / 2500) * sl \<le> d'"
    and a': "a' \<le> a + (1 / 50) * c'"
    and b': "b + (1 / 50) * d' \<le> b'"
    and vel: "vel = \<omega> + (- (981 / 50) * sin \<theta> - (1 / 1000) * \<omega>) * (1 / 50)"
    and ang: "ang = \<theta> + vel * (1 / 50)"
  shows "c' \<le> vel" "vel \<le> d'" "a' \<le> ang" "ang \<le> b'"
proof -
  have s1: "sl \<le> sin \<theta>" and s2: "sin \<theta> \<le> sh"
    using sin_enclosure [OF th small q w t sl sh] by simp_all
  have v: "vel = (49999 / 50000) * \<omega> - (981 / 2500) * sin \<theta>"
    unfolding vel by (simp add: algebra_simps)
  show lo: "c' \<le> vel" using c' om(1) s2 unfolding v by linarith
  show hi: "vel \<le> d'" using d' om(2) s1 unfolding v by linarith
  show "a' \<le> ang" using a' th(1) lo unfolding ang by linarith
  show "ang \<le> b'" using b' th(2) hi unfolding ang by linarith
qed

lemma frame_step:
  assumes prev: "tracked (run_frames n (1 / 50) f0) el a b c d lct osc"
    and n': "n' = Suc n" and el': "el' = el + (1 / 50)"
    and small: "- (1 / 10) \<le> a" "b \<le> 1 / 10"
    and q: "q_lo \<le> a * a" "a * a \<le> q_hi" "0 \<le> q_lo" "q_hi \<le> 1"
    and w: "w_lo \<le> q_lo * (1 / 6 - q_lo / 120)" "q_hi * (1 / 6 - q_hi / 120) \<le> w_hi"
    and t: "t_lo \<le> a * w_lo" "t_lo \<le> a * w_hi" "a * w_lo \<le> t_hi" "a * w_hi \<le> t_hi"
    and sl: "sl \<le> a - t_hi - 2 / 10 ^ 11"
    and sh: "a - t_lo + 2 / 10 ^ 11 + (b - a) \<le> sh"
    and c': "c' \<le> (49999 / 50000) * c - (981 / 2500) * sh"
    and d': "(49999 / 50000) * d - (981 / 2500) * sl \<le> d'"
    and a': "a' \<le> a + (1 / 50) * c'"
    and b': "b + (1 / 50) * d' \<le> b'"
    and decided: "(0 \<le> a' \<and> b < 0) \<or> b' < 0 \<or> 0 \<le> a"
  shows "tracked (run_frames n' (1 / 50) f0) el' a' b' c' d'
           (if 0 \<le> a' \<and> b < 0 \<and> lct = 0 then el' else lct)
           (if 0 \<le> a' \<and> b < 0 \<and> lct \<noteq> 0 then osc + 1 else osc)"
proof -
  from prev obtain f where f: "run_frames n (1 / 50) f0 = Some f"
    and run: "isRunning (pendulum f)" and len: "length_cm (pendulum f) = 50"
    and el: "elapsedTime (pendulum f) = el"
    and th: "a \<le> angle (pendulum f)" "angle (pendulum f) \<le> b"
    and om: "c \<le> angularVelocity (pendulum f)" "angularVelocity (pendulum f) \<le> d"
    and last: "lastAngle (pendulum f) = angle (pendulum f)"
    and lct: "lastCrossTime (pendulum f) = lct"
    and osc: "oscillations (pendulum f) = osc"
    by (auto simp add: tracked_def split: option.splits)
  define vel where "vel = angularVelocity (pendulum f)
      + (- (981 / 50) * sin (angle (pendulum f)) - (1 / 1000) * angularVelocity (pendulum f)) * (1 / 50)"
  define ang where "ang = angle (pendulum f) + vel * (1 / 50)"
  have encl: "c' \<le> vel" "vel \<le> d'" "a' \<le> ang" "ang \<le> b'"
    by (rule euler_enclosure [OF th om small q w t sl sh c' d' a' b' vel_def ang_def])+
  have cross: "(ang \<ge> 0 \<and> lastAngle (pendulum f) < 0) \<longleftrightarrow> (0 \<le> a' \<and> b < 0)"
    using decided encl th last by auto
  obtain s' where upd: "updatePendulumPhysics (1 / 50) (pendulum f) = Some s'"
    and s': "isRunning s'" "length_cm s' = 50" "angularVelocity s' = vel" "angle s' = ang"
      "lastAngle s' = ang" "elapsedTime s' = elapsedTime (pendulum f) + (1 / 50)"
      "lastCrossTime s'
         = (if ang \<ge> 0 \<and> lastAngle (pendulum f) < 0 \<and> lastCrossTime (pendulum f) = 0
            then elapsedTime (pendulum f) + (1 / 50) else lastCrossTime (pendulum f))"
      "oscillations s'
         = (if ang \<ge> 0 \<and> lastAngle (pendulum f) < 0 \<and> lastCrossTime (pendulum f) \<noteq> 0
            then oscillations (pendulum f) + 1 else oscillations (pendulum f))"
    using physics_step_fields [OF run len vel_def ang_def] by blast
  have dt: "min (lastTime f + 1 / 50 - lastTime f) (1 / 50) = (1 / 50 :: real)" by simp
  have next_frame: "run_frames n' (1 / 50) f0 = Some \<lparr>lastTime = lastTime f + (1 / 50), pendulum = s'\<rparr>"
    unfolding n' by (simp add: f animate_def Let_def dt upd del: min_less_iff_conj)
  have lct': "lastCrossTime s' = (if 0 \<le> a' \<and> b < 0 \<and> lct = 0 then el' else lct)"
    using s'(7) cross by (auto simp add: el el' lct)
  have osc': "oscillations s' = (if 0 \<le> a' \<and> b < 0 \<and> lct \<noteq> 0 then osc + 1 else osc)"
    using s'(8) cross by (auto simp add: lct osc)
  show ?thesis
    unfolding tracked_def next_frame
    using s'(1-6) encl lct' osc' by (simp add: el el')
qed

text \<open>The same step with all bounds given in units of \<open>10 ^ - 10\<close>.\<close>

lemma frame_step_scaled:
  fixes A B C D A' B' C' D' Qlo Qhi Wlo Whi Tlo Thi Sl Sh :: real
  assumes prev: "tracked (run_frames n (1 / 50) f0) el
                   (A / 10 ^ 10) (B / 10 ^ 10) (C / 10 ^ 10) (D / 10 ^ 10) lct osc"
    and n': "n' = Suc n" and el': "el' = el + 1 / 50"
    and small: "- (10 ^ 9) \<le> A" "B \<le> 10 ^ 9"
    and q: "Qlo * 10 ^ 10 \<le> A * A" "A * A \<le> Qhi * 10 ^ 10" "0 \<le> Qlo" "Qhi \<le> 10 ^ 10"
    and w: "Wlo * (120 * 10 ^ 10) \<le> Qlo * (20 * 10 ^ 10 - Qlo)"
      "Qhi * (20 * 10 ^ 10 - Qhi) \<le> Whi * (120 * 10 ^ 10)"
    and t: "Tlo * 10 ^ 10 \<le> A * Wlo" "Tlo * 10 ^ 10 \<le> A * Whi"
      "A * Wlo \<le> Thi * 10 ^ 10" "A * Whi \<le> Thi * 10 ^ 10"
    and sl: "Sl * 10 \<le> (A - Thi) * 10 - 2"
    and sh: "(A - Tlo) * 10 + 2 + (B - A) * 10 \<le> Sh * 10"
    and c': "C' * 125000000 \<le> 124997500 * C - 49050000 * Sh"
    and d': "124997500 * D - 49050000 * Sl \<le> D' * 125000000"
    and a': "A' * 50 \<le> A * 50 + C'"
    and b': "B * 50 + D' \<le> B' * 50"
    and decided: "(0 \<le> A' \<and> B < 0) \<or> B' < 0 \<or> 0 \<le> A"
  shows "tracked (run_frames n' (1 / 50) f0) el'
           (A' / 10 ^ 10) (B' / 10 ^ 10) (C' / 10 ^ 10) (D' / 10 ^ 10)
           (if 0 \<le> A' \<and> B < 0 \<and> lct = 0 then el' else lct)
           (if 0 \<le> A' \<and> B < 0 \<and> lct \<noteq> 0 then osc + 1 else osc)"
proof -
  define k :: real where "k = 10 ^ 10"
  have k: "0 < k" by (simp add: k_def)
  have kk: "10 ^ 9 = k / 10" "(10 :: real) ^ 11 = k * 10" by (simp_all add: k_def)
  note prem = small q w t sl sh c' d' a' b' decided
  have 1: "- (1 / 10) \<le> A / k" "B / k \<le> 1 / 10"
    using small k unfolding kk by (simp_all add: field_simps)
  have 2: "Qlo / k \<le> A / k * (A / k)" "A / k * (A / k) \<le> Qhi / k" "0 \<le> Qlo / k" "Qhi / k \<le> 1"
    using q k unfolding k_def [symmetric] by (simp_all add: field_simps)
  have scale: "u / k = u * (120 * k) / (120 * k * k)"
    "u / k * (1 / 6 - u / k / 120) = u * (20 * k - u) / (120 * k * k)" for u
    using k by (simp_all add: field_simps)
  have pos: "0 \<le> 120 * k * k" using k by simp
  have "Wlo * (120 * k) / (120 * k * k) \<le> Qlo * (20 * k - Qlo) / (120 * k * k)"
    using w(1) [folded k_def] pos by (rule divide_right_mono)
  then have w_lo: "Wlo / k \<le> Qlo / k * (1 / 6 - Qlo / k / 120)"
    by (simp only: scale [symmetric])
  have "Qhi * (20 * k - Qhi) / (120 * k * k) \<le> Whi * (120 * k) / (120 * k * k)"
    using w(2) [folded k_def] pos by (rule divide_right_mono)
  then have w_hi: "Qhi / k * (1 / 6 - Qhi / k / 120) \<le> Whi / k"
    by (simp only: scale [symmetric])
  have 4: "Tlo / k \<le> A / k * (Wlo / k)" "Tlo / k \<le> A / k * (Whi / k)"
    "A / k * (Wlo / k) \<le> Thi / k" "A / k * (Whi / k) \<le> Thi / k"
    using t k unfolding k_def [symmetric] by (simp_all add: field_simps)
  have 5: "Sl / k \<le> A / k - Thi / k - 2 / 10 ^ 11"
    using sl by (simp add: k_def field_simps)
  have 6: "A / k - Tlo / k + 2 / 10 ^ 11 + (B / k - A / k) \<le> Sh / k"
    using sh by (simp add: k_def field_simps)
  have 7: "C' / k \<le> (49999 / 50000) * (C / k) - (981 / 2500) * (Sh / k)"
    using c' by (simp add: k_def field_simps)
  have 8: "(49999 / 50000) * (D / k) - (981 / 2500) * (Sl / k) \<le> D' / k"
    using d' by (simp add: k_def field_simps)
  have 9: "A' / k \<le> A / k + (1 / 50) * (C' / k)" "B / k + (1 / 50) * (D' / k) \<le> B' / k"
    using a' b' by (simp_all add: k_def field_simps)
  have 10: "(0 \<le> A' / k \<and> B / k < 0) \<or> B' / k < 0 \<or> 0 \<le> A / k"
    using decided k by (simp add: zero_le_divide_iff divide_less_0_iff)
  have sgn: "0 \<le> A' / 10 ^ 10 \<longleftrightarrow> 0 \<le> A'" "B / 10 ^ 10 < 0 \<longleftrightarrow> B < 0"
    by (simp_all add: zero_le_divide_iff divide_less_0_iff)
  show ?thesis
    using frame_step [OF prev [folded k_def] n' el' 1 2 w_lo w_hi 4 5 6 7 8 9 10]
    unfolding k_def by (simp only: sgn)
qed

subsection \<open>The trajectory from Start, frame by frame\<close>

lemma frame_0:
  "tracked (run_frames 0 (1 / 50) start_frame) 0 (872664611 / 10 ^ 10) (872664639 / 10 ^ 10) (0 / 10 ^ 10) (0 / 10 ^ 10) 0 0"
proof -
  have "0.0872664611 \<le> 5 * 3.1415926 / (180 :: real)" by simp
  also have "\<dots> \<le> 5 * pi / 180" using pi_lower by simp
  finally have lo: "0.0872664611 \<le> 5 * pi / 180" .
  have "5 * pi / 180 \<le> 5 * 3.1415927 / (180 :: real)" using pi_upper by simp
  also have "\<dots> \<le> 0.0872664639" by simp
  finally have hi: "5 * pi / 180 \<le> 0.0872664639" .
  show ?thesis
    using lo hi
    by (simp add: tracked_def start_frame_def startBtn_click_def initial_pendulum_def)
qed

lemma frame_1:
  "tracked (run_frames 1 (1 / 50) start_frame) (1 / 50)
     (865824628 / 10 ^ 10) (865824657 / 10 ^ 10)
     (- 341999141 / 10 ^ 10) (- 341999128 / 10 ^ 10) 0 0"
  using frame_step_scaled [OF frame_0, where n' = 1 and el' = "1 / 50"
      and Qlo = "76154352" and Qhi = "76154353" and Wlo = "12687559" and Whi = "12687560"
      and Tlo = "1107198" and Thi = "1107199" and Sl = "871557411" and Sh = "871557442"
      and C' = "(- 341999141)" and D' = "(- 341999128)" and A' = "865824628" and B' = "865824657"]
  by simp

lemma frame_2:
  "tracked (run_frames 2 (1 / 50) start_frame) (2 / 50)
     (852198276 / 10 ^ 10) (852198307 / 10 ^ 10)
     (- 681317567 / 10 ^ 10) (- 681317540 / 10 ^ 10) 0 0"
  using frame_step_scaled [OF frame_1, where n' = 2 and el' = "2 / 50"
      and Qlo = "74965228" and Qhi = "74965229" and Wlo = "12489521" and Whi = "12489522"
      and Tlo = "1081373" and Thi = "1081374" and Sl = "864743253" and Sh = "864743285"
      and C' = "(- 681317567)" and D' = "(- 681317540)" and A' = "852198276" and B' = "852198307"]
  by simp

lemma frame_3:
  "tracked (run_frames 3 (1 / 50) start_frame) (3 / 50)
     (831892237 / 10 ^ 10) (831892269 / 10 ^ 10)
     (- 1015301943 / 10 ^ 10) (- 1015301901 / 10 ^ 10) 0 0"
  using frame_step_scaled [OF frame_2, where n' = 3 and el' = "3 / 50"
      and Qlo = "72624190" and Qhi = "72624191" and Wlo = "12099636" and Whi = "12099637"
      and Tlo = "1031128" and Thi = "1031129" and Sl = "851167146" and Sh = "851167180"
      and C' = "(- 1015301943)" and D' = "(- 1015301901)" and A' = "831892237" and B' = "831892269"]
  by simp

lemma frame_4:
  "tracked (run_frames 4 (1 / 50) start_frame) (4 / 50)
     (805065441 / 10 ^ 10) (805065475 / 10 ^ 10)
     (- 1341339783 / 10 ^ 10) (- 1341339726 / 10 ^ 10) 0 0"
  using frame_step_scaled [OF frame_3, where n' = 4 and el' = "4 / 50"
      and Qlo = "69204469" and Qhi = "69204470" and Wlo = "11530087" and Whi = "11530088"
      and Tlo = "959178" and Thi = "959180" and Sl = "830933056" and Sh = "830933092"
      and C' = "(- 1341339783)" and D' = "(- 1341339726)" and A' = "805065441" and B' = "805065475"]
  by simp

lemma frame_5:
  "tracked (run_frames 5 (1 / 50) start_frame) (5 / 50)
     (771927850 / 10 ^ 10) (771927887 / 10 ^ 10)
     (- 1656879511 / 10 ^ 10) (- 1656879439 / 10 ^ 10) 0 0"
  using frame_step_scaled [OF frame_4, where n' = 5 and el' = "5 / 50"
      and Qlo = "64813036" and Qhi = "64813037" and Wlo = "10798672" and Whi = "10798673"
      and Tlo = "869363" and Thi = "869364" and Sl = "804196076" and Sh = "804196113"
      and C' = "(- 1656879511)" and D' = "(- 1656879439)" and A' = "771927850" and B' = "771927887"]
  by simp

lemma frame_6:
  "tracked (run_frames 6 (1 / 50) start_frame) (6 / 50)
     (732738847 / 10 ^ 10) (732738886 / 10 ^ 10)
     (- 1959450146 / 10 ^ 10) (- 1959450057 / 10 ^ 10) 0 0"
  using frame_step_scaled [OF frame_5, where n' = 6 and el' = "6 / 50"
      and Qlo = "59587260" and Qhi = "59587261" and Wlo = "9928251" and Whi = "9928252"
      and Tlo = "766389" and Thi = "766390" and Sl = "771161459" and Sh = "771161499"
      and C' = "(- 1959450146)" and D' = "(- 1959450057)" and A' = "732738847" and B' = "732738886"]
  by simp

lemma frame_7:
  "tracked (run_frames 7 (1 / 50) start_frame) (7 / 50)
     (687805237 / 10 ^ 10) (687805279 / 10 ^ 10)
     (- 2246680475 / 10 ^ 10) (- 2246680368 / 10 ^ 10) 0 0"
  using frame_step_scaled [OF frame_6, where n' = 7 and el' = "7 / 50"
      and Qlo = "53690621" and Qhi = "53690622" and Wlo = "8946034" and Whi = "8946035"
      and Tlo = "655510" and Thi = "655511" and Sl = "732083335" and Sh = "732083377"
      and C' = "(- 2246680475)" and D' = "(- 2246680368)" and A' = "687805237" and B' = "687805279"]
  by simp

lemma frame_8:
  "tracked (run_frames 8 (1 / 50) start_frame) (8 / 50)
     (637478885 / 10 ^ 10) (637478930 / 10 ^ 10)
     (- 2516317583 / 10 ^ 10) (- 2516317457 / 10 ^ 10) 0 0"
  using frame_step_scaled [OF frame_7, where n' = 8 and el' = "8 / 50"
      and Qlo = "47307604" and Qhi = "47307605" and Wlo = "7882735" and Whi = "7882736"
      and Tlo = "542178" and Thi = "542179" and Sl = "687263057" and Sh = "687263102"
      and C' = "(- 2516317583)" and D' = "(- 2516317457)" and A' = "637478885" and B' = "637478930"]
  by simp

lemma frame_9:
  "tracked (run_frames 9 (1 / 50) start_frame) (9 / 50)
     (582153993 / 10 ^ 10) (582154041 / 10 ^ 10)
     (- 2766244600 / 10 ^ 10) (- 2766244454 / 10 ^ 10) 0 0"
  using frame_step_scaled [OF frame_8, where n' = 9 and el' = "9 / 50"
      and Qlo = "40637932" and Qhi = "40637933" and Wlo = "6771612" and Whi = "6771613"
      and Tlo = "431675" and Thi = "431677" and Sl = "637047207" and Sh = "637047256"
      and C' = "(- 2766244600)" and D' = "(- 2766244454)" and A' = "582153993" and B' = "582154041"]
  by simp

lemma frame_10:
  "tracked (run_frames 10 (1 / 50) start_frame) (10 / 50)
     (522264042 / 10 ^ 10) (522264095 / 10 ^ 10)
     (- 2994497514 / 10 ^ 10) (- 2994497347 / 10 ^ 10) 0 0"
  using frame_step_scaled [OF frame_9, where n' = 10 and el' = "10 / 50"
      and Qlo = "33890327" and Qhi = "33890328" and Wlo = "5647430" and Whi = "5647431"
      and Tlo = "328767" and Thi = "328768" and Sl = "581825224" and Sh = "581825275"
      and C' = "(- 2994497514)" and D' = "(- 2994497347)" and A' = "522264042" and B' = "522264095"]
  by simp

lemma frame_11:
  "tracked (run_frames 11 (1 / 50) start_frame) (11 / 50)
     (458278423 / 10 ^ 10) (458278481 / 10 ^ 10)
     (- 3199280905 / 10 ^ 10) (- 3199280715 / 10 ^ 10) 0 0"
  using frame_step_scaled [OF frame_10, where n' = 11 and el' = "11 / 50"
      and Qlo = "27275972" and Qhi = "27275973" and Wlo = "4545375" and Whi = "4545376"
      and Tlo = "237388" and Thi = "237389" and Sl = "522026652" and Sh = "522026708"
      and C' = "(- 3199280905)" and D' = "(- 3199280715)" and A' = "458278423" and B' = "458278481"]
  by simp

lemma frame_12:
  "tracked (run_frames 12 (1 / 50) start_frame) (12 / 50)
     (390698773 / 10 ^ 10) (390698837 / 10 ^ 10)
     (- 3378982457 / 10 ^ 10) (- 3378982242 / 10 ^ 10) 0 0"
  using frame_step_scaled [OF frame_11, where n' = 12 and el' = "12 / 50"
      and Qlo = "21001911" and Qhi = "21001912" and Wlo = "3499950" and Whi = "3499952"
      and Tlo = "160395" and Thi = "160396" and Sl = "458118026" and Sh = "458118087"
      and C' = "(- 3378982457)" and D' = "(- 3378982242)" and A' = "390698773" and B' = "390698837"]
  by simp

lemma frame_13:
  "tracked (run_frames 13 (1 / 50) start_frame) (13 / 50)
     (320055050 / 10 ^ 10) (320055120 / 10 ^ 10)
     (- 3532186102 / 10 ^ 10) (- 3532185859 / 10 ^ 10) 0 0"
  using frame_step_scaled [OF frame_12, where n' = 13 and el' = "13 / 50"
      and Qlo = "15264553" and Qhi = "15264554" and Wlo = "2543897" and Whi = "2543899"
      and Tlo = "99389" and Thi = "99390" and Sl = "390599382" and Sh = "390599449"
      and C' = "(- 3532186102)" and D' = "(- 3532185859)" and A' = "320055050" and B' = "320055120"]
  by simp

lemma frame_14:
  "tracked (run_frames 14 (1 / 50) start_frame) (14 / 50)
     (246901377 / 10 ^ 10) (246901453 / 10 ^ 10)
     (- 3657683648 / 10 ^ 10) (- 3657683376 / 10 ^ 10) 0 0"
  using frame_step_scaled [OF frame_13, where n' = 14 and el' = "14 / 50"
      and Qlo = "10243523" and Qhi = "10243524" and Wlo = "1707166" and Whi = "1707167"
      and Tlo = "54638" and Thi = "54639" and Sl = "320000410" and Sh = "320000483"
      and C' = "(- 3657683648)" and D' = "(- 3657683376)" and A' = "246901377" and B' = "246901453"]
  by simp

lemma frame_15:
  "tracked (run_frames 15 (1 / 50) start_frame) (15 / 50)
     (171811681 / 10 ^ 10) (171811764 / 10 ^ 10)
     (- 3754484782 / 10 ^ 10) (- 3754484478 / 10 ^ 10) 0 0"
  using frame_step_scaled [OF frame_14, where n' = 15 and el' = "15 / 50"
      and Qlo = "6096028" and Qhi = "6096029" and Wlo = "1015973" and Whi = "1015974"
      and Tlo = "25084" and Thi = "25085" and Sl = "246876291" and Sh = "246876370"
      and C' = "(- 3754484782)" and D' = "(- 3754484478)" and A' = "171811681" and B' = "171811764"]
  by simp

lemma frame_16:
  "tracked (run_frames 16 (1 / 50) start_frame) (16 / 50)
     (95375174 / 10 ^ 10) (95375265 / 10 ^ 10)
     (- 3821825313 / 10 ^ 10) (- 3821824974 / 10 ^ 10) 0 0"
  using frame_step_scaled [OF frame_15, where n' = 16 and el' = "16 / 50"
      and Qlo = "2951925" and Qhi = "2951926" and Wlo = "491980" and Whi = "491981"
      and Tlo = "8452" and Thi = "8453" and Sl = "171803227" and Sh = "171803313"
      and C' = "(- 3821825313)" and D' = "(- 3821824974)" and A' = "95375174" and B' = "95375265"]
  by simp

lemma frame_17:
  "tracked (run_frames 17 (1 / 50) start_frame) (17 / 50)
     (18191702 / 10 ^ 10) (18191802 / 10 ^ 10)
     (- 3859173564 / 10 ^ 10) (- 3859173187 / 10 ^ 10) 0 0"
  using frame_step_scaled [OF frame_16, where n' = 17 and el' = "17 / 50"
      and Qlo = "909642" and Qhi = "909643" and Wlo = "151606" and Whi = "151607"
      and Tlo = "1445" and Thi = "1446" and Sl = "95373727" and Sh = "95373821"
      and C' = "(- 3859173564)" and D' = "(- 3859173187)" and A' = "18191702" and B' = "18191802"]
  by simp

lemma frame_18:
  "tracked (run_frames 18 (1 / 50) start_frame) (18 / 50)
     (- 59132995 / 10 ^ 10) (- 59132886 / 10 ^ 10)
     (- 3866234841 / 10 ^ 10) (- 3866234422 / 10 ^ 10) 0 0"
  using frame_step_scaled [OF frame_17, where n' = 18 and el' = "18 / 50"
      and Qlo = "33093" and Qhi = "33094" and Wlo = "5515" and Whi = "5516"
      and Tlo = "10" and Thi = "11" and Sl = "18191690" and Sh = "18191793"
      and C' = "(- 3866234841)" and D' = "(- 3866234422)" and A' = "(- 59132995)" and B' = "(- 59132886)"]
  by simp

lemma frame_19:
  "tracked (run_frames 19 (1 / 50) start_frame) (19 / 50)
     (- 135992074 / 10 ^ 10) (- 135991954 / 10 ^ 10)
     (- 3842953908 / 10 ^ 10) (- 3842953444 / 10 ^ 10) 0 0"
  using frame_step_scaled [OF frame_18, where n' = 19 and el' = "19 / 50"
      and Qlo = "349671" and Qhi = "349672" and Wlo = "58278" and Whi = "58279"
      and Tlo = "(- 345)" and Thi = "(- 344)" and Sl = "(- 59132652)" and Sh = "(- 59132540)"
      and C' = "(- 3842953908)" and D' = "(- 3842953444)" and A' = "(- 135992074)" and B' = "(- 135991954)"]
  by simp

lemma frame_20:
  "tracked (run_frames 20 (1 / 50) start_frame) (20 / 50)
     (- 211782384 / 10 ^ 10) (- 211782252 / 10 ^ 10)
     (- 3789515452 / 10 ^ 10) (- 3789514939 / 10 ^ 10) 0 0"
  using frame_step_scaled [OF frame_19, where n' = 20 and el' = "20 / 50"
      and Qlo = "1849384" and Qhi = "1849385" and Wlo = "308227" and Whi = "308228"
      and Tlo = "(- 4192)" and Thi = "(- 4191)" and Sl = "(- 135987884)" and Sh = "(- 135987761)"
      and C' = "(- 3789515452)" and D' = "(- 3789514939)" and A' = "(- 211782384)" and B' = "(- 211782252)"]
  by simp

lemma frame_21:
  "tracked (run_frames 21 (1 / 50) start_frame) (21 / 50)
     (- 285909235 / 10 ^ 10) (- 285909091 / 10 ^ 10)
     (- 3706342519 / 10 ^ 10) (- 3706341952 / 10 ^ 10) 0 0"
  using frame_step_scaled [OF frame_20, where n' = 21 and el' = "21 / 50"
      and Qlo = "4485177" and Qhi = "4485178" and Wlo = "747512" and Whi = "747513"
      and Tlo = "(- 15832)" and Thi = "(- 15830)" and Sl = "(- 211766555)" and Sh = "(- 211766419)"
      and C' = "(- 3706342519)" and D' = "(- 3706341952)" and A' = "(- 285909235)" and B' = "(- 285909091)"]
  by simp

lemma frame_22:
  "tracked (run_frames 22 (1 / 50) start_frame) (22 / 50)
     (- 357791094 / 10 ^ 10) (- 357790937 / 10 ^ 10)
     (- 3594092950 / 10 ^ 10) (- 3594092324 / 10 ^ 10) 0 0"
  using frame_step_scaled [OF frame_21, where n' = 22 and el' = "22 / 50"
      and Qlo = "8174409" and Qhi = "8174410" and Wlo = "1362345" and Whi = "1362346"
      and Tlo = "(- 38951)" and Thi = "(- 38950)" and Sl = "(- 285870286)" and Sh = "(- 285870139)"
      and C' = "(- 3594092950)" and D' = "(- 3594092324)" and A' = "(- 357791094)" and B' = "(- 357790937)"]
  by simp

lemma frame_23:
  "tracked (run_frames 23 (1 / 50) start_frame) (23 / 50)
     (- 426864172 / 10 ^ 10) (- 426864000 / 10 ^ 10)
     (- 3453653858 / 10 ^ 10) (- 3453653169 / 10 ^ 10) 0 0"
  using frame_step_scaled [OF frame_22, where n' = 23 and el' = "23 / 50"
      and Qlo = "12801446" and Qhi = "12801447" and Wlo = "2133437" and Whi = "2133438"
      and Tlo = "(- 76333)" and Thi = "(- 76332)" and Sl = "(- 357714763)" and Sh = "(- 357714603)"
      and C' = "(- 3453653858)" and D' = "(- 3453653169)" and A' = "(- 426864172)" and B' = "(- 426864000)"]
  by simp

lemma frame_24:
  "tracked (run_frames 24 (1 / 50) start_frame) (24 / 50)
     (- 492586857 / 10 ^ 10) (- 492586669 / 10 ^ 10)
     (- 3286134216 / 10 ^ 10) (- 3286133457 / 10 ^ 10) 0 0"
  using frame_step_scaled [OF frame_23, where n' = 24 and el' = "24 / 50"
      and Qlo = "18221302" and Qhi = "18221303" and Wlo = "3036606" and Whi = "3036608"
      and Tlo = "(- 129622)" and Thi = "(- 129621)" and Sl = "(- 426734552)" and Sh = "(- 426734377)"
      and C' = "(- 3286134216)" and D' = "(- 3286133457)" and A' = "(- 492586857)" and B' = "(- 492586669)"]
  by simp

lemma frame_25:
  "tracked (run_frames 25 (1 / 50) start_frame) (25 / 50)
     (- 554443970 / 10 ^ 10) (- 554443765 / 10 ^ 10)
     (- 3092855644 / 10 ^ 10) (- 3092854809 / 10 ^ 10) 0 0"
  using frame_step_scaled [OF frame_24, where n' = 25 and el' = "25 / 50"
      and Qlo = "24264181" and Qhi = "24264182" and Wlo = "4043539" and Whi = "4043540"
      and Tlo = "(- 199180)" and Thi = "(- 199179)" and Sl = "(- 492387679)" and Sh = "(- 492387488)"
      and C' = "(- 3092855644)" and D' = "(- 3092854809)" and A' = "(- 554443970)" and B' = "(- 554443765)"]
  by simp

lemma frame_26:
  "tracked (run_frames 26 (1 / 50) start_frame) (26 / 50)
     (- 611950801 / 10 ^ 10) (- 611950576 / 10 ^ 10)
     (- 2875341506 / 10 ^ 10) (- 2875340588 / 10 ^ 10) 0 0"
  using frame_step_scaled [OF frame_25, where n' = 26 and el' = "26 / 50"
      and Qlo = "30740811" and Qhi = "30740812" and Wlo = "5122681" and Whi = "5122682"
      and Tlo = "(- 284025)" and Thi = "(- 284023)" and Sl = "(- 554159948)" and Sh = "(- 554159739)"
      and C' = "(- 2875341506)" and D' = "(- 2875340588)" and A' = "(- 611950801)" and B' = "(- 611950576)"]
  by simp

lemma frame_27:
  "tracked (run_frames 27 (1 / 50) start_frame) (27 / 50)
     (- 664656890 / 10 ^ 10) (- 664656644 / 10 ^ 10)
     (- 2635304441 / 10 ^ 10) (- 2635303432 / 10 ^ 10) 0 0"
  using frame_step_scaled [OF frame_26, where n' = 27 and el' = "27 / 50"
      and Qlo = "37448378" and Qhi = "37448379" and Wlo = "6240227" and Whi = "6240228"
      and Tlo = "(- 381872)" and Thi = "(- 381871)" and Sl = "(- 611568931)" and Sh = "(- 611568703)"
      and C' = "(- 2635304441)" and D' = "(- 2635303432)" and A' = "(- 664656890)" and B' = "(- 664656644)"]
  by simp

lemma frame_28:
  "tracked (run_frames 28 (1 / 50) start_frame) (28 / 50)
     (- 712149540 / 10 ^ 10) (- 712149270 / 10 ^ 10)
     (- 2374632457 / 10 ^ 10) (- 2374631349 / 10 ^ 10) 0 0"
  using frame_step_scaled [OF frame_27, where n' = 28 and el' = "28 / 50"
      and Qlo = "44176878" and Qhi = "44176879" and Wlo = "7361186" and Whi = "7361187"
      and Tlo = "(- 489267)" and Thi = "(- 489266)" and Sl = "(- 664167625)" and Sh = "(- 664167376)"
      and C' = "(- 2374632457)" and D' = "(- 2374631349)" and A' = "(- 712149540)" and B' = "(- 712149270)"]
  by simp

lemma frame_29:
  "tracked (run_frames 29 (1 / 50) start_frame) (29 / 50)
     (- 754057015 / 10 ^ 10) (- 754056720 / 10 ^ 10)
     (- 2095373738 / 10 ^ 10) (- 2095372522 / 10 ^ 10) 0 0"
  using frame_step_scaled [OF frame_28, where n' = 29 and el' = "29 / 50"
      and Qlo = "50715696" and Qhi = "50715697" and Wlo = "8450472" and Whi = "8450473"
      and Tlo = "(- 601801)" and Thi = "(- 601799)" and Sl = "(- 711547742)" and Sh = "(- 711547468)"
      and C' = "(- 2095373738)" and D' = "(- 2095372522)" and A' = "(- 754057015)" and B' = "(- 754056720)"]
  by simp

lemma frame_30:
  "tracked (run_frames 30 (1 / 50) start_frame) (30 / 50)
     (- 790051422 / 10 ^ 10) (- 790051099 / 10 ^ 10)
     (- 1799720303 / 10 ^ 10) (- 1799718969 / 10 ^ 10) 0 0"
  using frame_step_scaled [OF frame_29, where n' = 30 and el' = "30 / 50"
      and Qlo = "56860198" and Qhi = "56860199" and Wlo = "9474005" and Whi = "9474006"
      and Tlo = "(- 714395)" and Thi = "(- 714393)" and Sl = "(- 753342623)" and Sh = "(- 753342324)"
      and C' = "(- 1799720303)" and D' = "(- 1799718969)" and A' = "(- 790051422)" and B' = "(- 790051099)"]
  by simp

lemma frame_31:
  "tracked (run_frames 31 (1 / 50) start_frame) (31 / 50)
     (- 819851236 / 10 ^ 10) (- 819850883 / 10 ^ 10)
     (- 1489990668 / 10 ^ 10) (- 1489989205 / 10 ^ 10) 0 0"
  using frame_step_scaled [OF frame_30, where n' = 31 and el' = "31 / 50"
      and Qlo = "62418124" and Qhi = "62418125" and Wlo = "10399773" and Whi = "10399775"
      and Tlo = "(- 821636)" and Thi = "(- 821635)" and Sl = "(- 789229788)" and Sh = "(- 789229462)"
      and C' = "(- 1489990668)" and D' = "(- 1489989205)" and A' = "(- 819851236)" and B' = "(- 819850883)"]
  by simp

lemma frame_32:
  "tracked (run_frames 32 (1 / 50) start_frame) (32 / 50)
     (- 843223470 / 10 ^ 10) (- 843223084 / 10 ^ 10)
     (- 1168611660 / 10 ^ 10) (- 1168610056 / 10 ^ 10) 0 0"
  using frame_step_scaled [OF frame_31, where n' = 32 and el' = "32 / 50"
      and Qlo = "67215604" and Qhi = "67215605" and Wlo = "11198835" and Whi = "11198836"
      and Tlo = "(- 918138)" and Thi = "(- 918137)" and Sl = "(- 818933100)" and Sh = "(- 818932744)"
      and C' = "(- 1168611660)" and D' = "(- 1168610056)" and A' = "(- 843223470)" and B' = "(- 843223084)"]
  by simp

lemma frame_33:
  "tracked (run_frames 33 (1 / 50) start_frame) (33 / 50)
     (- 859985461 / 10 ^ 10) (- 859985039 / 10 ^ 10)
     (- 838099519 / 10 ^ 10) (- 838097762 / 10 ^ 10) 0 0"
  using frame_step_scaled [OF frame_32, where n' = 33 and el' = "33 / 50"
      and Qlo = "71102582" and Qhi = "71102583" and Wlo = "11846217" and Whi = "11846218"
      and Tlo = "(- 998901)" and Thi = "(- 998900)" and Sl = "(- 842224571)" and Sh = "(- 842224182)"
      and C' = "(- 838099519)" and D' = "(- 838097762)" and A' = "(- 859985461)" and B' = "(- 859985039)"]
  by simp

lemma frame_34:
  "tracked (run_frames 34 (1 / 50) start_frame) (34 / 50)
     (- 870006270 / 10 ^ 10) (- 870005809 / 10 ^ 10)
     (- 501040434 / 10 ^ 10) (- 501038510 / 10 ^ 10) 0 0"
  using frame_step_scaled [OF frame_33, where n' = 34 and el' = "34 / 50"
      and Qlo = "73957499" and Qhi = "73957500" and Wlo = "12321691" and Whi = "12321692"
      and Tlo = "(- 1059648)" and Thi = "(- 1059647)" and Sl = "(- 858925815)" and Sh = "(- 858925390)"
      and C' = "(- 501040434)" and D' = "(- 501038510)" and A' = "(- 870006270)" and B' = "(- 870005809)"]
  by simp

lemma frame_35:
  "tracked (run_frames 35 (1 / 50) start_frame) (35 / 50)
     (- 873207683 / 10 ^ 10) (- 873207179 / 10 ^ 10)
     (- 160070642 / 10 ^ 10) (- 160068535 / 10 ^ 10) 0 0"
  using frame_step_scaled [OF frame_34, where n' = 35 and el' = "35 / 50"
      and Qlo = "75691090" and Qhi = "75691091" and Wlo = "12610407" and Whi = "12610408"
      and Tlo = "(- 1097114)" and Thi = "(- 1097113)" and Sl = "(- 868909158)" and Sh = "(- 868908694)"
      and C' = "(- 160070642)" and D' = "(- 160068535)" and A' = "(- 873207683)" and B' = "(- 873207179)"]
  by simp

lemma frame_36:
  "tracked (run_frames 36 (1 / 50) start_frame) (36 / 50)
     (- 869564808 / 10 ^ 10) (- 869564257 / 10 ^ 10)
     (182143779 / 10 ^ 10) (182146086 / 10 ^ 10) 0 0"
  using frame_step_scaled [OF frame_35, where n' = 36 and el' = "36 / 50"
      and Qlo = "76249165" and Qhi = "76249166" and Wlo = "12703349" and Whi = "12703350"
      and Tlo = "(- 1109267)" and Thi = "(- 1109266)" and Sl = "(- 872098418)" and Sh = "(- 872097911)"
      and C' = "182143779" and D' = "182146086" and A' = "(- 869564808)" and B' = "(- 869564257)"]
  by simp

lemma frame_37:
  "tracked (run_frames 37 (1 / 50) start_frame) (37 / 50)
     (- 859106263 / 10 ^ 10) (- 859105660 / 10 ^ 10)
     (522927297 / 10 ^ 10) (522929822 / 10 ^ 10) 0 0"
  using frame_step_scaled [OF frame_36, where n' = 37 and el' = "37 / 50"
      and Qlo = "75614295" and Qhi = "75614296" and Wlo = "12597617" and Whi = "12597619"
      and Tlo = "(- 1095445)" and Thi = "(- 1095444)" and Sl = "(- 868469365)" and Sh = "(- 868468811)"
      and C' = "522927297" and D' = "522929822" and A' = "(- 859106263)" and B' = "(- 859105660)"]
  by simp

lemma frame_38:
  "tracked (run_frames 38 (1 / 50) start_frame) (38 / 50)
     (- 841913956 / 10 ^ 10) (- 841913297 / 10 ^ 10)
     (859615366 / 10 ^ 10) (859618130 / 10 ^ 10) 0 0"
  using frame_step_scaled [OF frame_37, where n' = 38 and el' = "38 / 50"
      and Qlo = "73806357" and Qhi = "73806358" and Wlo = "12296520" and Whi = "12296521"
      and Tlo = "(- 1056402)" and Thi = "(- 1056401)" and Sl = "(- 858049863)" and Sh = "(- 858049257)"
      and C' = "859615366" and D' = "859618130" and A' = "(- 841913956)" and B' = "(- 841913297)"]
  by simp

lemma frame_39:
  "tracked (run_frames 39 (1 / 50) start_frame) (39 / 50)
     (- 818122460 / 10 ^ 10) (- 818121740 / 10 ^ 10)
     (1189574804 / 10 ^ 10) (1189577829 / 10 ^ 10) 0 0"
  using frame_step_scaled [OF frame_38, where n' = 39 and el' = "39 / 50"
      and Qlo = "70881910" and Qhi = "70881911" and Wlo = "11809464" and Whi = "11809465"
      and Tlo = "(- 994256)" and Thi = "(- 994255)" and Sl = "(- 840919702)" and Sh = "(- 840919040)"
      and C' = "1189574804" and D' = "1189577829" and A' = "(- 818122460)" and B' = "(- 818121740)"]
  by simp

lemma frame_40:
  "tracked (run_frames 40 (1 / 50) start_frame) (40 / 50)
     (- 787917981 / 10 ^ 10) (- 787917194 / 10 ^ 10)
     (1510223979 / 10 ^ 10) (1510227288 / 10 ^ 10) 0 0"
  using frame_step_scaled [OF frame_39, where n' = 40 and el' = "40 / 50"
      and Qlo = "66932435" and Qhi = "66932436" and Wlo = "11151672" and Whi = "11151673"
      and Tlo = "(- 912344)" and Thi = "(- 912343)" and Sl = "(- 817210118)" and Sh = "(- 817209395)"
      and C' = "1510223979" and D' = "1510227288" and A' = "(- 787917981)" and B' = "(- 787917194)"]
  by simp

lemma frame_41:
  "tracked (run_frames 41 (1 / 50) start_frame) (41 / 50)
     (- 751536928 / 10 ^ 10) (- 751536068 / 10 ^ 10)
     (1819052675 / 10 ^ 10) (1819056295 / 10 ^ 10) 0 0"
  using frame_step_scaled [OF frame_40, where n' = 41 and el' = "41 / 50"
      and Qlo = "62081474" and Qhi = "62081475" and Wlo = "10343700" and Whi = "10343701"
      and Tlo = "(- 814999)" and Thi = "(- 814998)" and Sl = "(- 787102984)" and Sh = "(- 787102194)"
      and C' = "1819052675" and D' = "1819056295" and A' = "(- 751536928)" and B' = "(- 751536068)"]
  by simp

lemma frame_42:
  "tracked (run_frames 42 (1 / 50) start_frame) (42 / 50)
     (- 709264098 / 10 ^ 10) (- 709263158 / 10 ^ 10)
     (2113641518 / 10 ^ 10) (2113645478 / 10 ^ 10) 0 0"
  using frame_step_scaled [OF frame_41, where n' = 42 and el' = "42 / 50"
      and Qlo = "56480775" and Qhi = "56480776" and Wlo = "9410804" and Whi = "9410805"
      and Tlo = "(- 707257)" and Thi = "(- 707256)" and Sl = "(- 750829673)" and Sh = "(- 750828810)"
      and C' = "2113641518" and D' = "2113645478" and A' = "(- 709264098)" and B' = "(- 709263158)"]
  by simp

lemma frame_43:
  "tracked (run_frames 43 (1 / 50) start_frame) (43 / 50)
     (- 661430482 / 10 ^ 10) (- 661429455 / 10 ^ 10)
     (2391680819 / 10 ^ 10) (2391685150 / 10 ^ 10) 0 0"
  using frame_step_scaled [OF frame_42, where n' = 43 and el' = "43 / 50"
      and Qlo = "50305556" and Qhi = "50305557" and Wlo = "8382150" and Whi = "8382151"
      and Tlo = "(- 594516)" and Thi = "(- 594515)" and Sl = "(- 708669584)" and Sh = "(- 708668641)"
      and C' = "2391680819" and D' = "2391685150" and A' = "(- 661430482)" and B' = "(- 661429455)"]
  by simp

lemma frame_44:
  "tracked (run_frames 44 (1 / 50) start_frame) (44 / 50)
     (- 608410709 / 10 ^ 10) (- 608409586 / 10 ^ 10)
     (2650988696 / 10 ^ 10) (2650993432 / 10 ^ 10) 0 0"
  using frame_step_scaled [OF frame_43, where n' = 44 and el' = "44 / 50"
      and Qlo = "43749028" and Qhi = "43749029" and Wlo = "7289909" and Whi = "7289910"
      and Tlo = "(- 482177)" and Thi = "(- 482176)" and Sl = "(- 660948307)" and Sh = "(- 660947277)"
      and C' = "2650988696" and D' = "2650993432" and A' = "(- 608410709)" and B' = "(- 608409586)"]
  by simp

lemma frame_45:
  "tracked (run_frames 45 (1 / 50) start_frame) (45 / 50)
     (- 550620143 / 10 ^ 10) (- 550618915 / 10 ^ 10)
     (2889528335 / 10 ^ 10) (2889533515 / 10 ^ 10) 0 0"
  using frame_step_scaled [OF frame_44, where n' = 45 and el' = "45 / 50"
      and Qlo = "37016359" and Qhi = "37016360" and Wlo = "6168251" and Whi = "6168252"
      and Tlo = "(- 375284)" and Thi = "(- 375282)" and Sl = "(- 608035428)" and Sh = "(- 608034301)"
      and C' = "2889528335" and D' = "2889533515" and A' = "(- 550620143)" and B' = "(- 550618915)"]
  by simp

lemma frame_46:
  "tracked (run_frames 46 (1 / 50) start_frame) (46 / 50)
     (- 488511659 / 10 ^ 10) (- 488510316 / 10 ^ 10)
     (3105424244 / 10 ^ 10) (3105429908 / 10 ^ 10) 0 0"
  using frame_step_scaled [OF frame_45, where n' = 46 and el' = "46 / 50"
      and Qlo = "30318254" and Qhi = "30318255" and Wlo = "5052276" and Whi = "5052277"
      and Tlo = "(- 278189)" and Thi = "(- 278188)" and Sl = "(- 550341956)" and Sh = "(- 550340725)"
      and C' = "3105424244" and D' = "3105429908" and A' = "(- 488511659)" and B' = "(- 488510316)"]
  by simp

lemma frame_47:
  "tracked (run_frames 47 (1 / 50) start_frame) (47 / 50)
     (- 422572113 / 10 ^ 10) (- 422570645 / 10 ^ 10)
     (3296977348 / 10 ^ 10) (3296983541 / 10 ^ 10) 0 0"
  using frame_step_scaled [OF frame_46, where n' = 47 and el' = "47 / 50"
      and Qlo = "23864364" and Qhi = "23864365" and Wlo = "3976919" and Whi = "3976920"
      and Tlo = "(- 194278)" and Thi = "(- 194277)" and Sl = "(- 488317383)" and Sh = "(- 488316037)"
      and C' = "3296977348" and D' = "3296983541" and A' = "(- 422572113)" and B' = "(- 422570645)"]
  by simp

lemma frame_48:
  "tracked (run_frames 48 (1 / 50) start_frame) (48 / 50)
     (- 353318538 / 10 ^ 10) (- 353316933 / 10 ^ 10)
     (3462678784 / 10 ^ 10) (3462685555 / 10 ^ 10) 0 0"
  using frame_step_scaled [OF frame_47, where n' = 48 and el' = "48 / 50"
      and Qlo = "17856719" and Qhi = "17856720" and Wlo = "2975854" and Whi = "2975855"
      and Tlo = "(- 125752)" and Thi = "(- 125751)" and Sl = "(- 422446363)" and Sh = "(- 422444892)"
      and C' = "3462678784" and D' = "3462685555" and A' = "(- 353318538)" and B' = "(- 353316933)"]
  by simp

lemma frame_49:
  "tracked (run_frames 49 (1 / 50) start_frame) (49 / 50)
     (- 281294093 / 10 ^ 10) (- 281292339 / 10 ^ 10)
     (3601222250 / 10 ^ 10) (3601229653 / 10 ^ 10) 0 0"
  using frame_step_scaled [OF frame_48, where n' = 49 and el' = "49 / 50"
      and Qlo = "12483398" and Qhi = "12483399" and Wlo = "2080436" and Whi = "2080437"
      and Tlo = "(- 73506)" and Thi = "(- 73505)" and Sl = "(- 353245034)" and Sh = "(- 353243426)"
      and C' = "3601222250" and D' = "3601229653" and A' = "(- 281294093)" and B' = "(- 281292339)"]
  by simp

lemma frame_50:
  "tracked (run_frames 50 (1 / 50) start_frame) (50 / 50)
     (- 207063798 / 10 ^ 10) (- 207061881 / 10 ^ 10)
     (3711514782 / 10 ^ 10) (3711522876 / 10 ^ 10) 0 0"
  using frame_step_scaled [OF frame_49, where n' = 50 and el' = "50 / 50"
      and Qlo = "7912636" and Qhi = "7912637" and Wlo = "1318720" and Whi = "1318721"
      and Tlo = "(- 37095)" and Thi = "(- 37094)" and Sl = "(- 281257000)" and Sh = "(- 281255243)"
      and C' = "3711514782" and D' = "3711522876" and A' = "(- 207063798)" and B' = "(- 207061881)"]
  by simp

lemma frame_51:
  "tracked (run_frames 51 (1 / 50) start_frame) (51 / 50)
     (- 131210082 / 10 ^ 10) (- 131207987 / 10 ^ 10)
     (3792685827 / 10 ^ 10) (3792694675 / 10 ^ 10) 0 0"
  using frame_step_scaled [OF frame_50, where n' = 51 and el' = "51 / 50"
      and Qlo = "4287541" and Qhi = "4287542" and Wlo = "714574" and Whi = "714576"
      and Tlo = "(- 14797)" and Thi = "(- 14796)" and Sl = "(- 207049003)" and Sh = "(- 207047083)"
      and C' = "3792685827" and D' = "3792694675" and A' = "(- 131210082)" and B' = "(- 131207987)"]
  by simp

lemma frame_52:
  "tracked (run_frames 52 (1 / 50) start_frame) (52 / 50)
     (- 54328192 / 10 ^ 10) (- 54325903 / 10 ^ 10)
     (3844094509 / 10 ^ 10) (3844104181 / 10 ^ 10) 0 0"
  using frame_step_scaled [OF frame_51, where n' = 52 and el' = "52 / 50"
      and Qlo = "1721608" and Qhi = "1721609" and Wlo = "286932" and Whi = "286933"
      and Tlo = "(- 3765)" and Thi = "(- 3764)" and Sl = "(- 131206319)" and Sh = "(- 131204221)"
      and C' = "3844094509" and D' = "3844104181" and A' = "(- 54328192)" and B' = "(- 54325903)"]
  by simp

lemma frame_53:
  "tracked (run_frames 53 (1 / 50) start_frame) (53 / 50)
     (22978508 / 10 ^ 10) (22981009 / 10 ^ 10)
     (3865335005 / 10 ^ 10) (3865345578 / 10 ^ 10) (53 / 50) 0"
  using frame_step_scaled [OF frame_52, where n' = 53 and el' = "53 / 50"
      and Qlo = "295155" and Qhi = "295156" and Wlo = "49192" and Whi = "49193"
      and Tlo = "(- 268)" and Thi = "(- 267)" and Sl = "(- 54327926)" and Sh = "(- 54325634)"
      and C' = "3865335005" and D' = "3865345578" and A' = "22978508" and B' = "22981009"]
  by simp

lemma frame_54:
  "tracked (run_frames 54 (1 / 50) start_frame) (54 / 50)
     (100103307 / 10 ^ 10) (100106040 / 10 ^ 10)
     (3856239957 / 10 ^ 10) (3856251514 / 10 ^ 10) (53 / 50) 0"
  using frame_step_scaled [OF frame_53, where n' = 54 and el' = "54 / 50"
      and Qlo = "52801" and Qhi = "52802" and Wlo = "8800" and Whi = "8801"
      and Tlo = "20" and Thi = "21" and Sl = "22978486" and Sh = "22980990"
      and C' = "3856239957" and D' = "3856251514" and A' = "100103307" and B' = "100106040"]
  by simp

lemma frame_55:
  "tracked (run_frames 55 (1 / 50) start_frame) (55 / 50)
     (176440944 / 10 ^ 10) (176443931 / 10 ^ 10)
     (3816881877 / 10 ^ 10) (3816894508 / 10 ^ 10) (53 / 50) 0"
  using frame_step_scaled [OF frame_54, where n' = 55 and el' = "55 / 50"
      and Qlo = "1002067" and Qhi = "1002068" and Wlo = "167010" and Whi = "167011"
      and Tlo = "1671" and Thi = "1672" and Sl = "100101634" and Sh = "100104370"
      and C' = "3816881877" and D' = "3816894508" and A' = "176440944" and B' = "176443931"]
  by simp

lemma frame_56:
  "tracked (run_frames 56 (1 / 50) start_frame) (56 / 50)
     (251392394 / 10 ^ 10) (251395658 / 10 ^ 10)
     (3747572532 / 10 ^ 10) (3747586337 / 10 ^ 10) (53 / 50) 0"
  using frame_step_scaled [OF frame_55, where n' = 56 and el' = "56 / 50"
      and Qlo = "3113140" and Qhi = "3113141" and Wlo = "518848" and Whi = "518849"
      and Tlo = "9154" and Thi = "9155" and Sl = "176431788" and Sh = "176434778"
      and C' = "3747572532" and D' = "3747586337" and A' = "251392394" and B' = "251395658"]
  by simp

lemma frame_57:
  "tracked (run_frames 57 (1 / 50) start_frame) (57 / 50)
     (324369600 / 10 ^ 10) (324373167 / 10 ^ 10)
     (3648860313 / 10 ^ 10) (3648875401 / 10 ^ 10) (53 / 50) 0"
  using frame_step_scaled [OF frame_56, where n' = 57 and el' = "57 / 50"
      and Qlo = "6319813" and Qhi = "6319814" and Wlo = "1053268" and Whi = "1053270"
      and Tlo = "26478" and Thi = "26479" and Sl = "251365914" and Sh = "251369181"
      and C' = "3648860313" and D' = "3648875401" and A' = "324369600" and B' = "324373167"]
  by simp

lemma frame_58:
  "tracked (run_frames 58 (1 / 50) start_frame) (58 / 50)
     (394800112 / 10 ^ 10) (394804010 / 10 ^ 10)
     (3521525623 / 10 ^ 10) (3521542113 / 10 ^ 10) (53 / 50) 0"
  using frame_step_scaled [OF frame_57, where n' = 58 and el' = "58 / 50"
      and Qlo = "10521563" and Qhi = "10521564" and Wlo = "1753501" and Whi = "1753502"
      and Tlo = "56878" and Thi = "56879" and Sl = "324312720" and Sh = "324316290"
      and C' = "3521525623" and D' = "3521542113" and A' = "394800112" and B' = "394804010"]
  by simp

lemma frame_59:
  "tracked (run_frames 59 (1 / 50) start_frame) (59 / 50)
     (462131598 / 10 ^ 10) (462135858 / 10 ^ 10)
     (3366574339 / 10 ^ 10) (3366592361 / 10 ^ 10) (53 / 50) 0"
  using frame_step_scaled [OF frame_58, where n' = 59 and el' = "59 / 50"
      and Qlo = "15586712" and Qhi = "15586713" and Wlo = "2597582" and Whi = "2597584"
      and Tlo = "102552" and Thi = "102553" and Sl = "394697558" and Sh = "394701459"
      and C' = "3366574339" and D' = "3366592361" and A' = "462131598" and B' = "462135858"]
  by simp

lemma frame_60:
  "tracked (run_frames 60 (1 / 50) start_frame) (60 / 50)
     (525836186 / 10 ^ 10) (525840841 / 10 ^ 10)
     (3185229436 / 10 ^ 10) (3185249131 / 10 ^ 10) (53 / 50) 0"
  using frame_step_scaled [OF frame_59, where n' = 60 and el' = "60 / 50"
      and Qlo = "21356561" and Qhi = "21356562" and Wlo = "3559046" and Whi = "3559047"
      and Tlo = "164474" and Thi = "164475" and Sl = "461967122" and Sh = "461971385"
      and C' = "3185229436" and D' = "3185249131" and A' = "525836186" and B' = "525840841"]
  by simp

lemma frame_61:
  "tracked (run_frames 61 (1 / 50) start_frame) (61 / 50)
     (585414603 / 10 ^ 10) (585419689 / 10 ^ 10)
     (2978920860 / 10 ^ 10) (2978942383 / 10 ^ 10) (53 / 50) 0"
  using frame_step_scaled [OF frame_60, where n' = 61 and el' = "61 / 50"
      and Qlo = "27650369" and Qhi = "27650370" and Wlo = "4607757" and Whi = "4607758"
      and Tlo = "242292" and Thi = "242293" and Sl = "525593892" and Sh = "525598550"
      and C' = "2978920860" and D' = "2978942383" and A' = "585414603" and B' = "585419689"]
  by simp

lemma frame_62:
  "tracked (run_frames 62 (1 / 50) start_frame) (62 / 50)
     (640400078 / 10 ^ 10) (640405636 / 10 ^ 10)
     (2749273782 / 10 ^ 10) (2749297303 / 10 ^ 10) (53 / 50) 0"
  using frame_step_scaled [OF frame_61, where n' = 62 and el' = "62 / 50"
      and Qlo = "34271025" and Qhi = "34271026" and Wlo = "5710858" and Whi = "5710859"
      and Tlo = "334321" and Thi = "334323" and Sl = "585080279" and Sh = "585085369"
      and C' = "2749273782" and D' = "2749297303" and A' = "640400078" and B' = "640405636"]
  by simp

lemma frame_63:
  "tracked (run_frames 63 (1 / 50) start_frame) (63 / 50)
     (690361985 / 10 ^ 10) (690368058 / 10 ^ 10)
     (2498095352 / 10 ^ 10) (2498121056 / 10 ^ 10) (53 / 50) 0"
  using frame_step_scaled [OF frame_62, where n' = 63 and el' = "63 / 50"
      and Qlo = "41011225" and Qhi = "41011226" and Wlo = "6833802" and Whi = "6833803"
      and Tlo = "437636" and Thi = "437637" and Sl = "639962440" and Sh = "639968001"
      and C' = "2498095352" and D' = "2498121056" and A' = "690361985" and B' = "690368058"]
  by simp

lemma frame_64:
  "tracked (run_frames 64 (1 / 50) start_frame) (64 / 50)
     (734909186 / 10 ^ 10) (734915822 / 10 ^ 10)
     (2227360095 / 10 ^ 10) (2227388184 / 10 ^ 10) (53 / 50) 0"
  using frame_step_scaled [OF frame_63, where n' = 64 and el' = "64 / 50"
      and Qlo = "47659967" and Qhi = "47659968" and Wlo = "7941434" and Whi = "7941436"
      and Tlo = "548246" and Thi = "548247" and Sl = "689813737" and Sh = "689819813"
      and C' = "2227360095" and D' = "2227388184" and A' = "734909186" and B' = "734915822"]
  by simp

lemma frame_65:
  "tracked (run_frames 65 (1 / 50) start_frame) (65 / 50)
     (773693067 / 10 ^ 10) (773700318 / 10 ^ 10)
     (1939194092 / 10 ^ 10) (1939224787 / 10 ^ 10) (53 / 50) 0"
  using frame_step_scaled [OF frame_64, where n' = 65 and el' = "65 / 50"
      and Qlo = "54009151" and Qhi = "54009152" and Wlo = "8999094" and Whi = "8999095"
      and Tlo = "661351" and Thi = "661352" and Sl = "734247833" and Sh = "734254472"
      and C' = "1939194092" and D' = "1939224787" and A' = "773693067" and B' = "773700318"]
  by simp

lemma frame_66:
  "tracked (run_frames 66 (1 / 50) start_frame) (66 / 50)
     (806410229 / 10 ^ 10) (806418151 / 10 ^ 10)
     (1635858101 / 10 ^ 10) (1635891643 / 10 ^ 10) (53 / 50) 0"
  using frame_step_scaled [OF frame_65, where n' = 66 and el' = "66 / 50"
      and Qlo = "59860096" and Qhi = "59860097" and Wlo = "9973696" and Whi = "9973697"
      and Tlo = "771657" and Thi = "771659" and Sl = "772921407" and Sh = "772928662"
      and C' = "1635858101" and D' = "1635891643" and A' = "806410229" and B' = "806418151"]
  by simp

lemma frame_67:
  "tracked (run_frames 67 (1 / 50) start_frame) (67 / 50)
     (832804824 / 10 ^ 10) (832813480 / 10 ^ 10)
     (1319729751 / 10 ^ 10) (1319766403 / 10 ^ 10) (53 / 50) 0"
  using frame_step_scaled [OF frame_66, where n' = 67 and el' = "67 / 50"
      and Qlo = "65029745" and Qhi = "65029746" and Wlo = "10834766" and Whi = "10834767"
      and Tlo = "873726" and Thi = "873727" and Sl = "805536501" and Sh = "805544426"
      and C' = "1319729751" and D' = "1319766403" and A' = "832804824" and B' = "832813480"]
  by simp

lemma frame_68:
  "tracked (run_frames 68 (1 / 50) start_frame) (68 / 50)
     (852670523 / 10 ^ 10) (852679981 / 10 ^ 10)
     (993284967 / 10 ^ 10) (993325017 / 10 ^ 10) (53 / 50) 0"
  using frame_step_scaled [OF frame_67, where n' = 68 and el' = "68 / 50"
      and Qlo = "69356387" and Qhi = "69356388" and Wlo = "11555389" and Whi = "11555390"
      and Tlo = "962338" and Thi = "962339" and Sl = "831842484" and Sh = "831851143"
      and C' = "993284967" and D' = "993325017" and A' = "852670523" and B' = "852679981"]
  by simp

lemma frame_69:
  "tracked (run_frames 69 (1 / 50) start_frame) (69 / 50)
     (865852098 / 10 ^ 10) (865862432 / 10 ^ 10)
     (659078763 / 10 ^ 10) (659122526 / 10 ^ 10) (53 / 50) 0"
  using frame_step_scaled [OF frame_68, where n' = 69 and el' = "69 / 50"
      and Qlo = "72704702" and Qhi = "72704703" and Wlo = "12113045" and Whi = "12113046"
      and Tlo = "1032843" and Thi = "1032844" and Sl = "851637678" and Sh = "851647139"
      and C' = "659078763" and D' = "659122526" and A' = "865852098" and B' = "865862432"]
  by simp

lemma frame_70:
  "tracked (run_frames 70 (1 / 50) start_frame) (70 / 50)
     (872246608 / 10 ^ 10) (872257900 / 10 ^ 10)
     (319725533 / 10 ^ 10) (319773353 / 10 ^ 10) (53 / 50) 0"
  using frame_step_scaled [OF frame_69, where n' = 70 and el' = "70 / 50"
      and Qlo = "74969985" and Qhi = "74969986" and Wlo = "12490313" and Whi = "12490314"
      and Tlo = "1081476" and Thi = "1081477" and Sl = "864770620" and Sh = "864780957"
      and C' = "319725533" and D' = "319773353" and A' = "872246608" and B' = "872257900"]
  by simp

lemma frame_71:
  "tracked (run_frames 71 (1 / 50) start_frame) (71 / 50)
     (871804187 / 10 ^ 10) (871816525 / 10 ^ 10)
     (- 22121022 / 10 ^ 10) (- 22068770 / 10 ^ 10) (53 / 50) 0"
  using frame_step_scaled [OF frame_70, where n' = 71 and el' = "71 / 50"
      and Qlo = "76081414" and Qhi = "76081415" and Wlo = "12675412" and Whi = "12675413"
      and Tlo = "1105608" and Thi = "1105609" and Sl = "871140998" and Sh = "871152293"
      and C' = "(- 22121022)" and D' = "(- 22068770)" and A' = "871804187" and B' = "871816525"]
  by simp

lemma frame_72:
  "tracked (run_frames 72 (1 / 50) start_frame) (72 / 50)
     (864528422 / 10 ^ 10) (864541903 / 10 ^ 10)
     (- 363788204 / 10 ^ 10) (- 363731109 / 10 ^ 10) (53 / 50) 0"
  using frame_step_scaled [OF frame_71, where n' = 72 and el' = "72 / 50"
      and Qlo = "76004254" and Qhi = "76004255" and Wlo = "12662561" and Whi = "12662562"
      and Tlo = "1103927" and Thi = "1103928" and Sl = "870700258" and Sh = "870712599"
      and C' = "(- 363788204)" and D' = "(- 363731109)" and A' = "864528422" and B' = "864541903"]
  by simp

lemma frame_73:
  "tracked (run_frames 73 (1 / 50) start_frame) (73 / 50)
     (850476327 / 10 ^ 10) (850491056 / 10 ^ 10)
     (- 702604743 / 10 ^ 10) (- 702542357 / 10 ^ 10) (53 / 50) 0"
  using frame_step_scaled [OF frame_72, where n' = 73 and el' = "73 / 50"
      and Qlo = "74740939" and Qhi = "74740940" and Wlo = "12452167" and Whi = "12452169"
      and Tlo = "1076525" and Thi = "1076526" and Sl = "863451895" and Sh = "863465379"
      and C' = "(- 702604743)" and D' = "(- 702542357)" and A' = "850476327" and B' = "850491056"]
  by simp

lemma frame_74:
  "tracked (run_frames 74 (1 / 50) start_frame) (74 / 50)
     (829757902 / 10 ^ 10) (829773996 / 10 ^ 10)
     (- 1035921215 / 10 ^ 10) (- 1035853048 / 10 ^ 10) (53 / 50) 0"
  using frame_step_scaled [OF frame_73, where n' = 74 and el' = "74 / 50"
      and Qlo = "72330998" and Qhi = "72330999" and Wlo = "12050806" and Whi = "12050807"
      and Tlo = "1024892" and Thi = "1024893" and Sl = "849451433" and Sh = "849466165"
      and C' = "(- 1035921215)" and D' = "(- 1035853048)" and A' = "829757902" and B' = "829773996"]
  by simp

lemma frame_75:
  "tracked (run_frames 75 (1 / 50) start_frame) (75 / 50)
     (802535295 / 10 ^ 10) (802552880 / 10 ^ 10)
     (- 1361130321 / 10 ^ 10) (- 1361055838 / 10 ^ 10) (53 / 50) 0"
  using frame_step_scaled [OF frame_74, where n' = 75 and el' = "75 / 50"
      and Qlo = "68849817" and Qhi = "68849818" and Wlo = "11471019" and Whi = "11471020"
      and Tlo = "951816" and Thi = "951817" and Sl = "828806084" and Sh = "828822181"
      and C' = "(- 1361130321)" and D' = "(- 1361055838)" and A' = "802535295" and B' = "802552880"]
  by simp

lemma frame_76:
  "tracked (run_frames 76 (1 / 50) start_frame) (76 / 50)
     (769021556 / 10 ^ 10) (769040770 / 10 ^ 10)
     (- 1675686917 / 10 ^ 10) (- 1675605533 / 10 ^ 10) (53 / 50) 0"
  using frame_step_scaled [OF frame_75, where n' = 76 and el' = "76 / 50"
      and Qlo = "64406289" and Qhi = "64406290" and Wlo = "10730924" and Whi = "10730925"
      and Tlo = "861194" and Thi = "861195" and Sl = "801674099" and Sh = "801691687"
      and C' = "(- 1675686917)" and D' = "(- 1675605533)" and A' = "769021556" and B' = "769040770"]
  by simp

lemma frame_77:
  "tracked (run_frames 77 (1 / 50) start_frame) (77 / 50)
     (729479002 / 10 ^ 10) (729499996 / 10 ^ 10)
     (- 1977127655 / 10 ^ 10) (- 1977038730 / 10 ^ 10) (53 / 50) 0"
  using frame_step_scaled [OF frame_76, where n' = 77 and el' = "77 / 50"
      and Qlo = "59139415" and Qhi = "59139416" and Wlo = "9853654" and Whi = "9853655"
      and Tlo = "757767" and Thi = "757768" and Sl = "768263787" and Sh = "768283004"
      and C' = "(- 1977127655)" and D' = "(- 1977038730)" and A' = "729479002" and B' = "729499996"]
  by simp

lemma frame_78:
  "tracked (run_frames 78 (1 / 50) start_frame) (78 / 50)
     (684217199 / 10 ^ 10) (684240138 / 10 ^ 10)
     (- 2263090107 / 10 ^ 10) (- 2262992943 / 10 ^ 10) (53 / 50) 0"
  using frame_step_scaled [OF frame_77, where n' = 78 and el' = "78 / 50"
      and Qlo = "53213961" and Qhi = "53213962" and Wlo = "8866633" and Whi = "8866634"
      and Tlo = "646802" and Thi = "646803" and Sl = "728832198" and Sh = "728853195"
      and C' = "(- 2263090107)" and D' = "(- 2262992943)" and A' = "684217199" and B' = "684240138"]
  by simp

lemma frame_79:
  "tracked (run_frames 79 (1 / 50) start_frame) (79 / 50)
     (633590574 / 10 ^ 10) (633615637 / 10 ^ 10)
     (- 2531331237 / 10 ^ 10) (- 2531225072 / 10 ^ 10) (53 / 50) 0"
  using frame_step_scaled [OF frame_78, where n' = 79 and el' = "79 / 50"
      and Qlo = "46815317" and Qhi = "46815318" and Wlo = "7800726" and Whi = "7800727"
      and Tlo = "533739" and Thi = "533740" and Sl = "683683458" and Sh = "683706400"
      and C' = "(- 2531331237)" and D' = "(- 2531225072)" and A' = "633590574" and B' = "633615637"]
  by simp

lemma frame_80:
  "tracked (run_frames 80 (1 / 50) start_frame) (80 / 50)
     (577995672 / 10 ^ 10) (578023056 / 10 ^ 10)
     (- 2779745078 / 10 ^ 10) (- 2779629078 / 10 ^ 10) (53 / 50) 0"
  using frame_step_scaled [OF frame_79, where n' = 80 and el' = "80 / 50"
      and Qlo = "40143701" and Qhi = "40143702" and Wlo = "6689273" and Whi = "6689275"
      and Tlo = "423826" and Thi = "423827" and Sl = "633166746" and Sh = "633191812"
      and C' = "(- 2779745078)" and D' = "(- 2779629078)" and A' = "577995672" and B' = "578023056"]
  by simp

lemma frame_81:
  "tracked (run_frames 81 (1 / 50) start_frame) (81 / 50)
     (517868082 / 10 ^ 10) (517898002 / 10 ^ 10)
     (- 3006379467 / 10 ^ 10) (- 3006252722 / 10 ^ 10) (53 / 50) 0"
  using frame_step_scaled [OF frame_80, where n' = 81 and el' = "81 / 50"
      and Qlo = "33407899" and Qhi = "33407900" and Wlo = "5567053" and Whi = "5567054"
      and Tlo = "321773" and Thi = "321774" and Sl = "577673897" and Sh = "577701284"
      and C' = "(- 3006379467)" and D' = "(- 3006252722)" and A' = "517868082" and B' = "517898002"]
  by simp

lemma frame_82:
  "tracked (run_frames 82 (1 / 50) start_frame) (82 / 50)
     (453679048 / 10 ^ 10) (453711738 / 10 ^ 10)
     (- 3209451697 / 10 ^ 10) (- 3209313212 / 10 ^ 10) (53 / 50) 0"
  using frame_step_scaled [OF frame_81, where n' = 82 and el' = "82 / 50"
      and Qlo = "26818735" and Qhi = "26818736" and Wlo = "4469189" and Whi = "4469190"
      and Tlo = "231445" and Thi = "231446" and Sl = "517636635" and Sh = "517666558"
      and C' = "(- 3209451697)" and D' = "(- 3209313212)" and A' = "453679048" and B' = "453711738"]
  by simp

lemma frame_83:
  "tracked (run_frames 83 (1 / 50) start_frame) (83 / 50)
     (385931789 / 10 ^ 10) (385967506 / 10 ^ 10)
     (- 3387362932 / 10 ^ 10) (- 3387211620 / 10 ^ 10) (53 / 50) 0"
  using frame_step_scaled [OF frame_82, where n' = 83 and el' = "83 / 50"
      and Qlo = "20582467" and Qhi = "20582468" and Wlo = "3430058" and Whi = "3430059"
      and Tlo = "155614" and Thi = "155615" and Sl = "453523432" and Sh = "453556125"
      and C' = "(- 3387362932)" and D' = "(- 3387211620)" and A' = "385931789" and B' = "385967506"]
  by simp

lemma frame_84:
  "tracked (run_frames 84 (1 / 50) start_frame) (84 / 50)
     (315157564 / 10 ^ 10) (315196588 / 10 ^ 10)
     (- 3538711245 / 10 ^ 10) (- 3538545918 / 10 ^ 10) (53 / 50) 0"
  using frame_step_scaled [OF frame_83, where n' = 84 and el' = "84 / 50"
      and Qlo = "14894334" and Qhi = "14894335" and Wlo = "2482204" and Whi = "2482205"
      and Tlo = "95796" and Thi = "95797" and Sl = "385835991" and Sh = "385871711"
      and C' = "(- 3538711245)" and D' = "(- 3538545918)" and A' = "315157564" and B' = "315196588"]
  by simp

lemma frame_85:
  "tracked (run_frames 85 (1 / 50) start_frame) (85 / 50)
     (241911501 / 10 ^ 10) (241954138 / 10 ^ 10)
     (- 3662303142 / 10 ^ 10) (- 3662122503 / 10 ^ 10) (53 / 50) 0"
  using frame_step_scaled [OF frame_84, where n' = 85 and el' = "85 / 50"
      and Qlo = "9932429" and Qhi = "9932430" and Wlo = "1655322" and Whi = "1655323"
      and Tlo = "52168" and Thi = "52169" and Sl = "315105394" and Sh = "315144421"
      and C' = "(- 3662303142)" and D' = "(- 3662122503)" and A' = "241911501" and B' = "241954138"]
  by simp

lemma frame_86:
  "tracked (run_frames 86 (1 / 50) start_frame) (86 / 50)
     (166768232 / 10 ^ 10) (166814817 / 10 ^ 10)
     (- 3757163442 / 10 ^ 10) (- 3756966074 / 10 ^ 10) (53 / 50) 0"
  using frame_step_scaled [OF frame_85, where n' = 86 and el' = "86 / 50"
      and Qlo = "5852117" and Qhi = "5852118" and Wlo = "975324" and Whi = "975325"
      and Tlo = "23594" and Thi = "23595" and Sl = "241887905" and Sh = "241930545"
      and C' = "(- 3757163442)" and D' = "(- 3756966074)" and A' = "166768232" and B' = "166814817"]
  by simp

lemma frame_87:
  "tracked (run_frames 87 (1 / 50) start_frame) (87 / 50)
     (90317363 / 10 ^ 10) (90368262 / 10 ^ 10)
     (- 3822543401 / 10 ^ 10) (- 3822327754 / 10 ^ 10) (53 / 50) 0"
  using frame_step_scaled [OF frame_86, where n' = 87 and el' = "87 / 50"
      and Qlo = "2781164" and Qhi = "2781165" and Wlo = "463520" and Whi = "463522"
      and Tlo = "7730" and Thi = "7731" and Sl = "166760500" and Sh = "166807088"
      and C' = "(- 3822543401)" and D' = "(- 3822327754)" and A' = "90317363" and B' = "90368262"]
  by simp

lemma frame_88:
  "tracked (run_frames 88 (1 / 50) start_frame) (88 / 50)
     (13158823 / 10 ^ 10) (13214435 / 10 ^ 10)
     (- 3857926976 / 10 ^ 10) (- 3857691358 / 10 ^ 10) (53 / 50) 0"
  using frame_step_scaled [OF frame_87, where n' = 88 and el' = "88 / 50"
      and Qlo = "815722" and Qhi = "815723" and Wlo = "135953" and Whi = "135954"
      and Tlo = "1227" and Thi = "1228" and Sl = "90316134" and Sh = "90367036"
      and C' = "(- 3857926976)" and D' = "(- 3857691358)" and A' = "13158823" and B' = "13214435"]
  by simp

lemma frame_89:
  "tracked (run_frames 89 (1 / 50) start_frame) (89 / 50)
     (- 64101881 / 10 ^ 10) (- 64041119 / 10 ^ 10)
     (- 3863035161 / 10 ^ 10) (- 3862777724 / 10 ^ 10) (53 / 50) 0"
  using frame_step_scaled [OF frame_88, where n' = 89 and el' = "89 / 50"
      and Qlo = "17315" and Qhi = "17316" and Wlo = "2885" and Whi = "2886"
      and Tlo = "3" and Thi = "4" and Sl = "13158818" and Sh = "13214433"
      and C' = "(- 3863035161)" and D' = "(- 3862777724)" and A' = "(- 64101881)" and B' = "(- 64041119)"]
  by simp

lemma frame_90:
  "tracked (run_frames 90 (1 / 50) start_frame) (90 / 50)
     (- 140858448 / 10 ^ 10) (- 140792060 / 10 ^ 10)
     (- 3837828339 / 10 ^ 10) (- 3837547061 / 10 ^ 10) (53 / 50) 0"
  using frame_step_scaled [OF frame_89, where n' = 90 and el' = "90 / 50"
      and Qlo = "410905" and Qhi = "410906" and Wlo = "68484" and Whi = "68485"
      and Tlo = "(- 440)" and Thi = "(- 438)" and Sl = "(- 64101444)" and Sh = "(- 64040678)"
      and C' = "(- 3837828339)" and D' = "(- 3837547061)" and A' = "(- 140858448)" and B' = "(- 140792060)"]
  by simp

lemma frame_91:
  "tracked (run_frames 91 (1 / 50) start_frame) (91 / 50)
     (- 216508581 / 10 ^ 10) (- 216436045 / 10 ^ 10)
     (- 3782506607 / 10 ^ 10) (- 3782199282 / 10 ^ 10) (53 / 50) 0"
  using frame_step_scaled [OF frame_90, where n' = 91 and el' = "91 / 50"
      and Qlo = "1984110" and Qhi = "1984111" and Wlo = "330681" and Whi = "330682"
      and Tlo = "(- 4658)" and Thi = "(- 4657)" and Sl = "(- 140853792)" and Sh = "(- 140787401)"
      and C' = "(- 3782506607)" and D' = "(- 3782199282)" and A' = "(- 216508581)" and B' = "(- 216436045)"]
  by simp

lemma frame_92:
  "tracked (run_frames 92 (1 / 50) start_frame) (92 / 50)
     (- 290458743 / 10 ^ 10) (- 290379491 / 10 ^ 10)
     (- 3697508091 / 10 ^ 10) (- 3697172307 / 10 ^ 10) (53 / 50) 0"
  using frame_step_scaled [OF frame_91, where n' = 92 and el' = "92 / 50"
      and Qlo = "4687596" and Qhi = "4687597" and Wlo = "781247" and Whi = "781248"
      and Tlo = "(- 16915)" and Thi = "(- 16914)" and Sl = "(- 216491668)" and Sh = "(- 216419129)"
      and C' = "(- 3697508091)" and D' = "(- 3697172307)" and A' = "(- 290458743)" and B' = "(- 290379491)"]
  by simp

lemma frame_93:
  "tracked (run_frames 93 (1 / 50) start_frame) (93 / 50)
     (- 362128849 / 10 ^ 10) (- 362042258 / 10 ^ 10)
     (- 3583505255 / 10 ^ 10) (- 3583138377 / 10 ^ 10) (53 / 50) 0"
  using frame_step_scaled [OF frame_92, where n' = 93 and el' = "93 / 50"
      and Qlo = "8436628" and Qhi = "8436629" and Wlo = "1406045" and Whi = "1406046"
      and Tlo = "(- 40840)" and Thi = "(- 40839)" and Sl = "(- 290417905)" and Sh = "(- 290338650)"
      and C' = "(- 3583505255)" and D' = "(- 3583138377)" and A' = "(- 362128849)" and B' = "(- 362042258)"]
  by simp

lemma frame_94:
  "tracked (run_frames 94 (1 / 50) start_frame) (94 / 50)
     (- 430956835 / 10 ^ 10) (- 430862226 / 10 ^ 10)
     (- 3441399259 / 10 ^ 10) (- 3440998408 / 10 ^ 10) (53 / 50) 0"
  using frame_step_scaled [OF frame_93, where n' = 94 and el' = "94 / 50"
      and Qlo = "13113730" and Qhi = "13113731" and Wlo = "2185478" and Whi = "2185479"
      and Tlo = "(- 79143)" and Thi = "(- 79142)" and Sl = "(- 362049708)" and Sh = "(- 361963114)"
      and C' = "(- 3441399259)" and D' = "(- 3440998408)" and A' = "(- 430956835)" and B' = "(- 430862226)"]
  by simp

lemma frame_95:
  "tracked (run_frames 95 (1 / 50) start_frame) (95 / 50)
     (- 496403084 / 10 ^ 10) (- 496299715 / 10 ^ 10)
     (- 3272312435 / 10 ^ 10) (- 3271874465 / 10 ^ 10) (53 / 50) 0"
  using frame_step_scaled [OF frame_94, where n' = 95 and el' = "95 / 50"
      and Qlo = "18572379" and Qhi = "18572380" and Wlo = "3095109" and Whi = "3095110"
      and Tlo = "(- 133386)" and Thi = "(- 133385)" and Sl = "(- 430823451)" and Sh = "(- 430728839)"
      and C' = "(- 3272312435)" and D' = "(- 3271874465)" and A' = "(- 496403084)" and B' = "(- 496299715)"]
  by simp

lemma frame_96:
  "tracked (run_frames 96 (1 / 50) start_frame) (96 / 50)
     (- 557954664 / 10 ^ 10) (- 557841723 / 10 ^ 10)
     (- 3077578970 / 10 ^ 10) (- 3077100445 / 10 ^ 10) (53 / 50) 0"
  using frame_step_scaled [OF frame_95, where n' = 96 and el' = "96 / 50"
      and Qlo = "24641602" and Qhi = "24641603" and Wlo = "4106427" and Whi = "4106428"
      and Tlo = "(- 203845)" and Thi = "(- 203844)" and Sl = "(- 496199241)" and Sh = "(- 496095869)"
      and C' = "(- 3077578970)" and D' = "(- 3077100445)" and A' = "(- 557954664)" and B' = "(- 557841723)"]
  by simp

lemma frame_97:
  "tracked (run_frames 97 (1 / 50) start_frame) (97 / 50)
     (- 615129343 / 10 ^ 10) (- 615005944 / 10 ^ 10)
     (- 2858733909 / 10 ^ 10) (- 2858211073 / 10 ^ 10) (53 / 50) 0"
  using frame_step_scaled [OF frame_96, where n' = 97 and el' = "97 / 50"
      and Qlo = "31131340" and Qhi = "31131341" and Wlo = "5187749" and Whi = "5187750"
      and Tlo = "(- 289453)" and Thi = "(- 289452)" and Sl = "(- 557665213)" and Sh = "(- 557552269)"
      and C' = "(- 2858733909)" and D' = "(- 2858211073)" and A' = "(- 615129343)" and B' = "(- 615005944)"]
  by simp

lemma frame_98:
  "tracked (run_frames 98 (1 / 50) start_frame) (98 / 50)
     (- 667479355 / 10 ^ 10) (- 667344530 / 10 ^ 10)
     (- 2617500596 / 10 ^ 10) (- 2616929346 / 10 ^ 10) (53 / 50) 0"
  using frame_step_scaled [OF frame_97, where n' = 98 and el' = "98 / 50"
      and Qlo = "37838410" and Qhi = "37838411" and Wlo = "6305208" and Whi = "6305209"
      and Tlo = "(- 387852)" and Thi = "(- 387851)" and Sl = "(- 614741493)" and Sh = "(- 614618091)"
      and C' = "(- 2617500596)" and D' = "(- 2616929346)" and A' = "(- 667479355)" and B' = "(- 667344530)"]
  by simp

lemma frame_99:
  "tracked (run_frames 99 (1 / 50) start_frame) (99 / 50)
     (- 714594889 / 10 ^ 10) (- 714447581 / 10 ^ 10)
     (- 2355776697 / 10 ^ 10) (- 2355152551 / 10 ^ 10) (53 / 50) 0"
  using frame_step_scaled [OF frame_98, where n' = 99 and el' = "99 / 50"
      and Qlo = "44552868" and Qhi = "44552869" and Wlo = "7423823" and Whi = "7423825"
      and Tlo = "(- 495525)" and Thi = "(- 495524)" and Sl = "(- 666983832)" and Sh = "(- 666849004)"
      and C' = "(- 2355776697)" and D' = "(- 2355152551)" and A' = "(- 714594889)" and B' = "(- 714447581)"]
  by simp

lemma frame_100:
  "tracked (run_frames 100 (1 / 50) start_frame) (100 / 50)
     (- 756107268 / 10 ^ 10) (- 755946320 / 10 ^ 10)
     (- 2075618939 / 10 ^ 10) (- 2074936999 / 10 ^ 10) (53 / 50) 0"
  using frame_step_scaled [OF frame_99, where n' = 100 and el' = "100 / 50"
      and Qlo = "51064585" and Qhi = "51064586" and Wlo = "8508591" and Whi = "8508592"
      and Tlo = "(- 608020)" and Thi = "(- 608019)" and Sl = "(- 713986871)" and Sh = "(- 713839560)"
      and C' = "(- 2075618939)" and D' = "(- 2074936999)" and A' = "(- 756107268)" and B' = "(- 755946320)"]
  by simp

lemma frame_101:
  "tracked (run_frames 101 (1 / 50) start_frame) (101 / 50)
     (- 791691803 / 10 ^ 10) (- 791515952 / 10 ^ 10)
     (- 1779226713 / 10 ^ 10) (- 1778481628 / 10 ^ 10) (53 / 50) 0"
  using frame_step_scaled [OF frame_100, where n' = 101 and el' = "101 / 50"
      and Qlo = "57169820" and Qhi = "57169821" and Wlo = "9525579" and Whi = "9525580"
      and Tlo = "(- 720237)" and Thi = "(- 720235)" and Sl = "(- 755387034)" and Sh = "(- 755226082)"
      and C' = "(- 1779226713)" and D' = "(- 1778481628)" and A' = "(- 791691803)" and B' = "(- 791515952)"]
  by simp

lemma frame_102:
  "tracked (run_frames 102 (1 / 50) start_frame) (102 / 50)
     (- 821070297 / 10 ^ 10) (- 820878164 / 10 ^ 10)
     (- 1468924692 / 10 ^ 10) (- 1468110616 / 10 ^ 10) (53 / 50) 0"
  using frame_step_scaled [OF frame_101, where n' = 102 and el' = "102 / 50"
      and Qlo = "62677591" and Qhi = "62677592" and Wlo = "10442991" and Whi = "10442992"
      and Tlo = "(- 826764)" and Thi = "(- 826763)" and Sl = "(- 790865041)" and Sh = "(- 790689187)"
      and C' = "(- 1468924692)" and D' = "(- 1468110616)" and A' = "(- 821070297)" and B' = "(- 820878164)"]
  by simp

lemma frame_103:
  "tracked (run_frames 103 (1 / 50) start_frame) (103 / 50)
     (- 844013190 / 10 ^ 10) (- 843803267 / 10 ^ 10)
     (- 1147144609 / 10 ^ 10) (- 1146255155 / 10 ^ 10) (53 / 50) 0"
  using frame_step_scaled [OF frame_102, where n' = 103 and el' = "103 / 50"
      and Qlo = "67415643" and Qhi = "67415644" and Wlo = "11232153" and Whi = "11232154"
      and Tlo = "(- 922239)" and Thi = "(- 922238)" and Sl = "(- 820148060)" and Sh = "(- 819955924)"
      and C' = "(- 1147144609)" and D' = "(- 1146255155)" and A' = "(- 844013190)" and B' = "(- 843803267)"]
  by simp

lemma frame_104:
  "tracked (run_frames 104 (1 / 50) start_frame) (104 / 50)
     (- 860341317 / 10 ^ 10) (- 860111957 / 10 ^ 10)
     (- 816406336 / 10 ^ 10) (- 815434524 / 10 ^ 10) (53 / 50) 0"
  using frame_step_scaled [OF frame_103, where n' = 104 and el' = "104 / 50"
      and Qlo = "71235826" and Qhi = "71235827" and Wlo = "11868408" and Whi = "11868410"
      and Tlo = "(- 1001710)" and Thi = "(- 1001709)" and Sl = "(- 843011482)" and Sh = "(- 842801556)"
      and C' = "(- 816406336)" and D' = "(- 815434524)" and A' = "(- 860341317)" and B' = "(- 860111957)"]
  by simp

lemma frame_105:
  "tracked (run_frames 105 (1 / 50) start_frame) (105 / 50)
     (- 869927285 / 10 ^ 10) (- 869676689 / 10 ^ 10)
     (- 479298399 / 10 ^ 10) (- 478236604 / 10 ^ 10) (53 / 50) 0"
  using frame_step_scaled [OF frame_104, where n' = 105 and el' = "105 / 50"
      and Qlo = "74018718" and Qhi = "74018719" and Wlo = "12331887" and Whi = "12331888"
      and Tlo = "(- 1060964)" and Thi = "(- 1060963)" and Sl = "(- 859280355)" and Sh = "(- 859050992)"
      and C' = "(- 479298399)" and D' = "(- 478236604)" and A' = "(- 869927285)" and B' = "(- 869676689)"]
  by simp

lemma frame_106:
  "tracked (run_frames 106 (1 / 50) start_frame) (106 / 50)
     (- 872696447 / 10 ^ 10) (- 872422648 / 10 ^ 10)
     (- 138458071 / 10 ^ 10) (- 137297962 / 10 ^ 10) (53 / 50) 0"
  using frame_step_scaled [OF frame_105, where n' = 106 and el' = "106 / 50"
      and Qlo = "75677348" and Qhi = "75677349" and Wlo = "12608118" and Whi = "12608119"
      and Tlo = "(- 1096815)" and Thi = "(- 1096814)" and Sl = "(- 868830472)" and Sh = "(- 868579873)"
      and C' = "(- 138458071)" and D' = "(- 137297962)" and A' = "(- 872696447)" and B' = "(- 872422648)"]
  by simp

lemma frame_107:
  "tracked (run_frames 107 (1 / 50) start_frame) (107 / 50)
     (- 868627471 / 10 ^ 10) (- 868328320 / 10 ^ 10)
     (203448832 / 10 ^ 10) (204716359 / 10 ^ 10) (53 / 50) 0"
  using frame_step_scaled [OF frame_106, where n' = 107 and el' = "107 / 50"
      and Qlo = "76159908" and Qhi = "76159909" and Wlo = "12688484" and Whi = "12688485"
      and Tlo = "(- 1107320)" and Thi = "(- 1107319)" and Sl = "(- 871589129)" and Sh = "(- 871315327)"
      and C' = "203448832" and D' = "204716359" and A' = "(- 868627471)" and B' = "(- 868328320)"]
  by simp

lemma frame_108:
  "tracked (run_frames 108 (1 / 50) start_frame) (108 / 50)
     (- 857752505 / 10 ^ 10) (- 857425655 / 10 ^ 10)
     (543748331 / 10 ^ 10) (545133221 / 10 ^ 10) (53 / 50) 0"
  using frame_step_scaled [OF frame_107, where n' = 108 and el' = "108 / 50"
      and Qlo = "75451368" and Qhi = "75451369" and Wlo = "12570483" and Whi = "12570485"
      and Tlo = "(- 1091907)" and Thi = "(- 1091906)" and Sl = "(- 867535566)" and Sh = "(- 867236412)"
      and C' = "543748331" and D' = "545133221" and A' = "(- 857752505)" and B' = "(- 857425655)"]
  by simp

lemma frame_109:
  "tracked (run_frames 109 (1 / 50) start_frame) (109 / 50)
     (- 840156931 / 10 ^ 10) (- 839799818 / 10 ^ 10)
     (879778706 / 10 ^ 10) (881291827 / 10 ^ 10) (53 / 50) 0"
  using frame_step_scaled [OF frame_108, where n' = 109 and el' = "109 / 50"
      and Qlo = "73573935" and Qhi = "73573936" and Wlo = "12257811" and Whi = "12257812"
      and Tlo = "(- 1051417)" and Thi = "(- 1051416)" and Sl = "(- 856701090)" and Sh = "(- 856374237)"
      and C' = "879778706" and D' = "881291827" and A' = "(- 840156931)" and B' = "(- 839799818)"]
  by simp

lemma frame_110:
  "tracked (run_frames 110 (1 / 50) start_frame) (110 / 50)
     (- 815978715 / 10 ^ 10) (- 815588536 / 10 ^ 10)
     (1208910849 / 10 ^ 10) (1210564073 / 10 ^ 10) (53 / 50) 0"
  using frame_step_scaled [OF frame_109, where n' = 110 and el' = "110 / 50"
      and Qlo = "70586366" and Qhi = "70586367" and Wlo = "11760242" and Whi = "11760243"
      and Tlo = "(- 988045)" and Thi = "(- 988044)" and Sl = "(- 839168888)" and Sh = "(- 838811772)"
      and C' = "1208910849" and D' = "1210564073" and A' = "(- 815978715)" and B' = "(- 815588536)"]
  by simp

lemma frame_111:
  "tracked (run_frames 111 (1 / 50) start_frame) (111 / 50)
     (- 785407347 / 10 ^ 10) (- 784981041 / 10 ^ 10)
     (1528568414 / 10 ^ 10) (1530374713 / 10 ^ 10) (53 / 50) 0"
  using frame_step_scaled [OF frame_110, where n' = 111 and el' = "111 / 50"
      and Qlo = "66582126" and Qhi = "66582127" and Wlo = "11093326" and Whi = "11093327"
      and Tlo = "(- 905192)" and Thi = "(- 905191)" and Sl = "(- 815073525)" and Sh = "(- 814683343)"
      and C' = "1528568414" and D' = "1530374713" and A' = "(- 785407347)" and B' = "(- 784981041)"]
  by simp

lemma frame_112:
  "tracked (run_frames 112 (1 / 50) start_frame) (112 / 50)
     (- 748682395 / 10 ^ 10) (- 748216617 / 10 ^ 10)
     (1836247643 / 10 ^ 10) (1838221191 / 10 ^ 10) (53 / 50) 0"
  using frame_step_scaled [OF frame_111, where n' = 112 and el' = "112 / 50"
      and Qlo = "61686470" and Qhi = "61686471" and Wlo = "10277907" and Whi = "10277908"
      and Tlo = "(- 807235)" and Thi = "(- 807234)" and Sl = "(- 784600114)" and Sh = "(- 784173805)"
      and C' = "1836247643" and D' = "1838221191" and A' = "(- 748682395)" and B' = "(- 748216617)"]
  by simp

lemma frame_113:
  "tracked (run_frames 113 (1 / 50) start_frame) (113 / 50)
     (- 706091661 / 10 ^ 10) (- 705582756 / 10 ^ 10)
     (2129536740 / 10 ^ 10) (2131693022 / 10 ^ 10) (53 / 50) 0"
  using frame_step_scaled [OF frame_112, where n' = 113 and el' = "113 / 50"
      and Qlo = "56052532" and Qhi = "56052533" and Wlo = "9339470" and Whi = "9339471"
      and Tlo = "(- 699230)" and Thi = "(- 699229)" and Sl = "(- 747983167)" and Sh = "(- 747517386)"
      and C' = "2129536740" and D' = "2131693022" and A' = "(- 706091661)" and B' = "(- 705582756)"]
  by simp

lemma frame_114:
  "tracked (run_frames 114 (1 / 50) start_frame) (114 / 50)
     (- 657968969 / 10 ^ 10) (- 657412944 / 10 ^ 10)
     (2406134649 / 10 ^ 10) (2408490585 / 10 ^ 10) (53 / 50) 0"
  using frame_step_scaled [OF frame_113, where n' = 114 and el' = "114 / 50"
      and Qlo = "49856543" and Qhi = "49856544" and Wlo = "8307352" and Whi = "8307353"
      and Tlo = "(- 586576)" and Thi = "(- 586575)" and Sl = "(- 705505087)" and Sh = "(- 704996179)"
      and C' = "2406134649" and D' = "2408490585" and A' = "(- 657968969)" and B' = "(- 657412944)"]
  by simp

lemma frame_115:
  "tracked (run_frames 115 (1 / 50) start_frame) (115 / 50)
     (- 604691587 / 10 ^ 10) (- 604084080 / 10 ^ 10)
     (2663869113 / 10 ^ 10) (2666443188 / 10 ^ 10) (53 / 50) 0"
  using frame_step_scaled [OF frame_114, where n' = 115 and el' = "115 / 50"
      and Qlo = "43292316" and Qhi = "43292317" and Wlo = "7213824" and Whi = "7213825"
      and Tlo = "(- 474648)" and Thi = "(- 474647)" and Sl = "(- 657494323)" and Sh = "(- 656938295)"
      and C' = "2663869113" and D' = "2666443188" and A' = "(- 604691587)" and B' = "(- 604084080)"]
  by simp

lemma frame_116:
  "tracked (run_frames 116 (1 / 50) start_frame) (116 / 50)
     (- 546677310 / 10 ^ 10) (- 546013554 / 10 ^ 10)
     (2900713850 / 10 ^ 10) (2903526262 / 10 ^ 10) (53 / 50) 0"
  using frame_step_scaled [OF frame_115, where n' = 116 and el' = "116 / 50"
      and Qlo = "36565191" and Qhi = "36565192" and Wlo = "6093084" and Whi = "6093085"
      and Tlo = "(- 368444)" and Thi = "(- 368443)" and Sl = "(- 604323145)" and Sh = "(- 603715635)"
      and C' = "2900713850" and D' = "2903526262" and A' = "(- 546677310)" and B' = "(- 546013554)"]
  by simp

lemma frame_117:
  "tracked (run_frames 117 (1 / 50) start_frame) (117 / 50)
     (- 484381216 / 10 ^ 10) (- 483656003 / 10 ^ 10)
     (3114804720 / 10 ^ 10) (3117877536 / 10 ^ 10) (53 / 50) 0"
  using frame_step_scaled [OF frame_116, where n' = 117 and el' = "117 / 50"
      and Qlo = "29885608" and Qhi = "29885609" and Wlo = "4980190" and Whi = "4980191"
      and Tlo = "(- 272256)" and Thi = "(- 272255)" and Sl = "(- 546405056)" and Sh = "(- 545741297)"
      and C' = "3114804720" and D' = "3117877536" and A' = "(- 484381216)" and B' = "(- 483656003)"]
  by simp

lemma frame_118:
  "tracked (run_frames 118 (1 / 50) start_frame) (118 / 50)
     (- 418292122 / 10 ^ 10) (- 417499761 / 10 ^ 10)
     (3304454721 / 10 ^ 10) (3307812051 / 10 ^ 10) (53 / 50) 0"
  using frame_step_scaled [OF frame_117, where n' = 118 and el' = "118 / 50"
      and Qlo = "23462516" and Qhi = "23462517" and Wlo = "3909960" and Whi = "3909961"
      and Tlo = "(- 189392)" and Thi = "(- 189391)" and Sl = "(- 484191826)" and Sh = "(- 483466610)"
      and C' = "3304454721" and D' = "3307812051" and A' = "(- 418292122)" and B' = "(- 417499761)"]
  by simp

lemma frame_119:
  "tracked (run_frames 119 (1 / 50) start_frame) (119 / 50)
     (- 348928769 / 10 ^ 10) (- 348063043 / 10 ^ 10)
     (3468167676 / 10 ^ 10) (3471835864 / 10 ^ 10) (53 / 50) 0"
  using frame_step_scaled [OF frame_118, where n' = 119 and el' = "119 / 50"
      and Qlo = "17496829" and Qhi = "17496830" and Wlo = "2915883" and Whi = "2915884"
      and Tlo = "(- 121970)" and Thi = "(- 121969)" and Sl = "(- 418170154)" and Sh = "(- 417377790)"
      and C' = "3468167676" and D' = "3471835864" and A' = "(- 348928769)" and B' = "(- 348063043)"]
  by simp

lemma frame_120:
  "tracked (run_frames 120 (1 / 50) start_frame) (120 / 50)
     (- 276835760 / 10 ^ 10) (- 275889877 / 10 ^ 10)
     (3604650468 / 10 ^ 10) (3608658296 / 10 ^ 10) (53 / 50) 0"
  using frame_step_scaled [OF frame_119, where n' = 120 and el' = "120 / 50"
      and Qlo = "12175128" and Qhi = "12175129" and Wlo = "2029064" and Whi = "2029065"
      and Tlo = "(- 70800)" and Thi = "(- 70799)" and Sl = "(- 348857971)" and Sh = "(- 347992242)"
      and C' = "3604650468" and D' = "3608658296" and A' = "(- 276835760)" and B' = "(- 275889877)"]
  by simp

lemma frame_121:
  "tracked (run_frames 121 (1 / 50) start_frame) (121 / 50)
     (- 202579287 / 10 ^ 10) (- 201545824 / 10 ^ 10)
     (3712823687 / 10 ^ 10) (3717202601 / 10 ^ 10) (53 / 50) 0"
  using frame_step_scaled [OF frame_120, where n' = 121 and el' = "121 / 50"
      and Qlo = "7663803" and Qhi = "7663804" and Wlo = "1277251" and Whi = "1277252"
      and Tlo = "(- 35359)" and Thi = "(- 35358)" and Sl = "(- 276800403)" and Sh = "(- 275854517)"
      and C' = "3712823687" and D' = "3717202601" and A' = "(- 202579287)" and B' = "(- 201545824)"]
  by simp

lemma frame_122:
  "tracked (run_frames 122 (1 / 50) start_frame) (122 / 50)
     (- 126742676 / 10 ^ 10) (- 125613525 / 10 ^ 10)
     (3791830574 / 10 ^ 10) (3796614933 / 10 ^ 10) (53 / 50) 0"
  using frame_step_scaled [OF frame_121, where n' = 122 and el' = "122 / 50"
      and Qlo = "4103836" and Qhi = "4103837" and Wlo = "683958" and Whi = "683959"
      and Tlo = "(- 13856)" and Thi = "(- 13855)" and Sl = "(- 202565433)" and Sh = "(- 201531967)"
      and C' = "3791830574" and D' = "3796614933" and A' = "(- 126742676)" and B' = "(- 125613525)"]
  by simp

lemma frame_123:
  "tracked (run_frames 123 (1 / 50) start_frame) (123 / 50)
     (- 49921793 / 10 ^ 10) (- 48688095 / 10 ^ 10)
     (3841044152 / 10 ^ 10) (3846271496 / 10 ^ 10) (53 / 50) 0"
  using frame_step_scaled [OF frame_122, where n' = 123 and el' = "123 / 50"
      and Qlo = "1606370" and Qhi = "1606371" and Wlo = "267726" and Whi = "267727"
      and Tlo = "(- 3394)" and Thi = "(- 3393)" and Sl = "(- 126739284)" and Sh = "(- 125610130)"
      and C' = "3841044152" and D' = "3846271496" and A' = "(- 49921793)" and B' = "(- 48688095)"]
  by simp

lemma frame_124:
  "tracked (run_frames 124 (1 / 50) start_frame) (124 / 50)
     (27279656 / 10 ^ 10) (28627582 / 10 ^ 10)
     (3860072457 / 10 ^ 10) (3865783802 / 10 ^ 10) (53 / 50) 1"
  using frame_step_scaled [OF frame_123, where n' = 124 and el' = "124 / 50"
      and Qlo = "249218" and Qhi = "249219" and Wlo = "41536" and Whi = "41537"
      and Tlo = "(- 208)" and Thi = "(- 207)" and Sl = "(- 49921587)" and Sh = "(- 48687886)"
      and C' = "3860072457" and D' = "3865783802" and A' = "27279656" and B' = "28627582"]
  by simp

lemma small_angle_period_bound: "2 * pi * sqrt (50 / 100 / G) < 1.42"
proof -
  have "sqrt (50 / 100 / G) < 0.22577"
    by (rule real_less_lsqrt) (simp_all add: G_def power2_eq_square)
  moreover have "0 \<le> sqrt (50 / 100 / G)" by (simp add: G_def)
  ultimately have "pi * sqrt (50 / 100 / G) < 3.1415927 * 0.22577"
    using pi_upper pi_gt_zero by (intro mult_strict_mono) simp_all
  then show ?thesis by simp
qed

text \<open>
  C4. The measured period does not approximate \<open>2 * pi * sqrt (L / g)\<close>: with the page as
  loaded (length 50 cm, initial angle 5 degrees), Start pressed and 124 frames 20 ms
  apart, \<open>oscillations\<close> is 1 and \<open>elapsedTime\<close> is 2.48, so the period shown is 2.48 s,
  while \<open>2 * pi * sqrt (L / g)\<close> is below 1.42 s. The elapsed time runs from Start, but
  the first upward zero crossing, about three quarters of a swing later, is not counted.
\<close>

theorem displayed_period_overshoots:
  "\<exists>f. run_frames 124 0.02 \<lparr>lastTime = 0, pendulum = startBtn_click 0 initial_pendulum\<rparr>
           = Some f
       \<and> oscillations (pendulum f) = 1
       \<and> elapsedTime (pendulum f) = 2.48
       \<and> updateUI_period (pendulum f) = Some 2.48
       \<and> 2 * pi * sqrt (length_cm (pendulum f) / 100 / G) < 1.42"
proof -
  from frame_124 obtain f where f: "run_frames 124 (1 / 50) start_frame = Some f"
    and len: "length_cm (pendulum f) = 50"
    and el: "elapsedTime (pendulum f) = 124 / 50"
    and osc: "oscillations (pendulum f) = 1"
    by (auto simp add: tracked_def split: option.splits)
  have run: "run_frames 124 0.02 \<lparr>lastTime = 0, pendulum = startBtn_click 0 initial_pendulum\<rparr>
               = Some f"
    using f by (simp add: start_frame_def)
  have shown: "updateUI_period (pendulum f) = Some 2.48"
    by (simp add: updateUI_period_def osc el)
  have "2 * pi * sqrt (length_cm (pendulum f) / 100 / G) < 1.42"
    unfolding len by (rule small_angle_period_bound)
  with run osc el shown show ?thesis by auto
qed

section \<open>Properties of binary64 rounding\<close>

lemma pow2_unique:
  fixes x :: real
  assumes a: "2 powi a \<le> x" "x < 2 powi (a + 1)"
    and b: "2 powi b \<le> x" "x < 2 powi (b + 1)"
  shows "a = b"
proof (rule ccontr)
  assume "a \<noteq> b"
  then consider "a + 1 \<le> b" | "b + 1 \<le> a" by linarith
  then show False
  proof cases
    case 1
    then have "(2::real) powi (a + 1) \<le> 2 powi b" by (intro power_int_increasing) simp_all
    with a(2) b(1) show False by linarith
  next
    case 2
    then have "(2::real) powi (b + 1) \<le> 2 powi a" by (intro power_int_increasing) simp_all
    with b(2) a(1) show False by linarith
  qed
qed

lemma pow2_less_imp_less:
  assumes "(2::real) powi a < 2 powi b"
  shows "a < b"
proof (rule ccontr)
  assume "\<not> a < b"
  then have "b \<le> a" by simp
  then have "(2::real) powi b \<le> 2 powi a" by (intro power_int_increasing) simp_all
  with assms show False by linarith
qed

lemma bitlen_frame:
  assumes "0 < n"
  shows "(2::real) powi (bitlen n - 1) \<le> of_int n" "of_int n + 1 \<le> (2::real) powi bitlen n"
    "1 \<le> bitlen n"
proof -
  from bitlen_bounds [OF assms]
  have lo: "2 ^ nat (bitlen n - 1) \<le> n" and hi: "n < 2 ^ nat (bitlen n)" by simp_all
  show b1: "1 \<le> bitlen n"
    using assms bitlen_eq_zero_iff [of n] bitlen_nonneg [of n] by linarith
  have "(2::real) powi (bitlen n - 1) = 2 ^ nat (bitlen n - 1)"
    using b1 by (simp add: power_int_def)
  also have "\<dots> = of_int (2 ^ nat (bitlen n - 1))" by simp
  also have "\<dots> \<le> of_int n" using lo by (simp only: of_int_le_iff)
  finally show "(2::real) powi (bitlen n - 1) \<le> of_int n" .
  from hi have "n + 1 \<le> 2 ^ nat (bitlen n)" by simp
  then have "(of_int (n + 1) :: real) \<le> of_int (2 ^ nat (bitlen n))" by (simp only: of_int_le_iff)
  also have "\<dots> = 2 powi bitlen n"
    using b1 by (simp add: power_int_def)
  finally show "of_int n + 1 \<le> (2::real) powi bitlen n" by simp
qed

lemma expo_raw_frame:
  fixes r :: real
  assumes "r \<noteq> 0"
  defines "e \<equiv> (if 1 \<le> \<bar>r\<bar> then bitlen \<lfloor>\<bar>r\<bar>\<rfloor> - 1 else - bitlen (\<lceil>1 / \<bar>r\<bar>\<rceil> - 1))"
  shows "2 powi e \<le> \<bar>r\<bar>" "\<bar>r\<bar> < 2 powi (e + 1)"
proof -
  have both: "2 powi e \<le> \<bar>r\<bar> \<and> \<bar>r\<bar> < 2 powi (e + 1)"
  proof (cases "1 \<le> \<bar>r\<bar>")
    case True
    define n where "n = \<lfloor>\<bar>r\<bar>\<rfloor>"
    have npos: "0 < n" using True by (simp add: n_def)
    have e: "e = bitlen n - 1" using True by (simp add: e_def n_def)
    have "of_int n \<le> \<bar>r\<bar>" "\<bar>r\<bar> < of_int n + 1" by (simp_all add: n_def)
    with bitlen_frame [OF npos] show ?thesis unfolding e by simp
  next
    case False
    define y where "y = 1 / \<bar>r\<bar>"
    define c where "c = \<lceil>y\<rceil>"
    define k where "k = bitlen (c - 1)"
    have rpos: "0 < \<bar>r\<bar>" using assms by simp
    have y1: "1 < y" using False rpos by (simp add: y_def)
    have c: "of_int c - 1 < y" "y \<le> of_int c" by (simp_all add: c_def) linarith
    have "1 < c" using y1 c(2) by linarith
    then have cpos: "0 < c - 1" by simp
    have e: "e = - k" using False by (simp add: e_def k_def c_def y_def)
    from bitlen_frame [OF cpos]
    have lo: "(2::real) powi (k - 1) \<le> of_int (c - 1)" and hi: "of_int (c - 1) + 1 \<le> (2::real) powi k"
      by (simp_all add: k_def)
    have ylo: "2 powi (k - 1) < y" using lo c(1) by simp
    have yhi: "y \<le> 2 powi k" using hi c(2) by simp
    have r: "\<bar>r\<bar> = 1 / y" using rpos by (simp add: y_def)
    have "2 powi (- k) = 1 / (2::real) powi k" by (rule power_int_minus_divide)
    also have "\<dots> \<le> 1 / y" using yhi y1 by (intro divide_left_mono) simp_all
    finally have A: "2 powi e \<le> \<bar>r\<bar>" unfolding e r .
    have "1 / y < 1 / (2::real) powi (k - 1)"
      using ylo y1 by (intro divide_strict_left_mono mult_pos_pos) simp_all
    also have "\<dots> = 2 powi (- (k - 1))" by (rule power_int_minus_divide [symmetric])
    also have "\<dots> = 2 powi (e + 1)" by (simp add: e)
    finally have B: "\<bar>r\<bar> < 2 powi (e + 1)" unfolding r .
    from A B show ?thesis ..
  qed
  from both show "2 powi e \<le> \<bar>r\<bar>" "\<bar>r\<bar> < 2 powi (e + 1)" by simp_all
qed

lemma expo_eq:
  fixes r :: real
  assumes "2 powi e \<le> \<bar>r\<bar>" "\<bar>r\<bar> < 2 powi (e + 1)" "- 1022 \<le> e"
  shows "expo r = e"
proof -
  have "0 < \<bar>r\<bar>" using assms(1) zero_less_power_int [of "2::real" e] by linarith
  then have nz: "r \<noteq> 0" by auto
  define e0 where "e0 = (if 1 \<le> \<bar>r\<bar> then bitlen \<lfloor>\<bar>r\<bar>\<rfloor> - 1 else - bitlen (\<lceil>1 / \<bar>r\<bar>\<rceil> - 1))"
  have "2 powi e0 \<le> \<bar>r\<bar>" "\<bar>r\<bar> < 2 powi (e0 + 1)"
    unfolding e0_def by (rule expo_raw_frame [OF nz])+
  then have "e0 = e" using assms(1,2) by (rule pow2_unique)
  then show ?thesis using assms(3) by (simp add: expo_def e0_def)
qed

lemma round64_eval:
  fixes r :: real
  assumes "2 powi e \<le> \<bar>r\<bar>" "\<bar>r\<bar> < 2 powi (e + 1)" "- 1022 \<le> e"
    and "rhe (\<bar>r\<bar> / 2 powi (e - 52)) = n"
    and "of_int n * 2 powi (e - 52) < (2::real) ^ 1024"
    and "0 < n"
  shows "round64 r = Fin (if 0 < r then of_int n * 2 powi (e - 52) else - (of_int n * 2 powi (e - 52)))"
proof -
  have "0 < \<bar>r\<bar>" using assms(1) zero_less_power_int [of "2::real" e] by linarith
  then have nz: "r \<noteq> 0" by auto
  have e: "expo r = e" using assms(1-3) by (rule expo_eq)
  have v: "0 < of_int n * (2::real) powi (e - 52)" using assms(6) by simp
  have q: "rhe (\<bar>r\<bar> / 2 powi (e - 52)) = n" by fact
  show ?thesis
    unfolding round64_def Let_def e q using nz v assms(5,6) by simp
qed

lemma rhe_of_int: "rhe (of_int j) = j"
  by (simp add: rhe_def)

lemma round64_overflow:
  fixes r :: real
  assumes "2 ^ 1024 \<le> \<bar>r\<bar>"
  shows "round64 r = (if 0 < r then PInf else NInf)"
proof -
  have nz: "r \<noteq> 0" using assms by auto
  define e where "e = expo r"
  define q :: real where "q = 2 powi (e - 52)"
  have qpos: "0 < q" by (simp add: q_def)
  define e0 where "e0 = (if 1 \<le> \<bar>r\<bar> then bitlen \<lfloor>\<bar>r\<bar>\<rfloor> - 1 else - bitlen (\<lceil>1 / \<bar>r\<bar>\<rceil> - 1))"
  have fr: "2 powi e0 \<le> \<bar>r\<bar>" "\<bar>r\<bar> < 2 powi (e0 + 1)"
    unfolding e0_def by (rule expo_raw_frame [OF nz])+
  have "(2::real) powi 1024 \<le> \<bar>r\<bar>" using assms by simp
  with fr(2) have "(2::real) powi 1024 < 2 powi (e0 + 1)" by linarith
  then have "1024 < e0 + 1" by (rule pow2_less_imp_less)
  then have e0: "1024 \<le> e0" by simp
  then have e: "e = e0" by (simp add: e_def expo_def e0_def)
  have "(2::real) powi 52 * q = 2 powi (52 + (e - 52))"
    unfolding q_def by (rule power_int_add [symmetric]) simp
  then have split: "(2::real) powi 52 * q = 2 powi e" by simp
  have "(2::real) powi 52 = 2 powi e / q" using split qpos by (simp add: field_simps)
  also have "\<dots> \<le> \<bar>r\<bar> / q" using fr(1) qpos unfolding e by (intro divide_right_mono) simp_all
  finally have big: "of_int (2 ^ 52) \<le> \<bar>r\<bar> / q" by simp
  have fl: "2 ^ 52 \<le> \<lfloor>\<bar>r\<bar> / q\<rfloor>" using big by (simp only: le_floor_iff)
  have "\<lfloor>\<bar>r\<bar> / q\<rfloor> \<le> rhe (\<bar>r\<bar> / q)" by (simp add: rhe_def Let_def)
  with fl have "2 ^ 52 \<le> rhe (\<bar>r\<bar> / q)" by linarith
  then have "(of_int (2 ^ 52) :: real) \<le> of_int (rhe (\<bar>r\<bar> / q))" by (simp only: of_int_le_iff)
  then have "2 powi 52 * q \<le> of_int (rhe (\<bar>r\<bar> / q)) * q"
    using qpos by (intro mult_right_mono) simp_all
  then have "2 powi e \<le> of_int (rhe (\<bar>r\<bar> / q)) * q" unfolding split .
  moreover have "(2::real) powi 1024 \<le> 2 powi e"
    using e0 unfolding e by (intro power_int_increasing) simp_all
  ultimately have "(2::real) ^ 1024 \<le> of_int (rhe (\<bar>r\<bar> / q)) * q" by simp
  then show ?thesis
    using nz unfolding round64_def Let_def e_def [symmetric] q_def [symmetric] by simp
qed

lemma round64_int:
  assumes "\<bar>k\<bar> < 2 ^ 53"
  shows "round64 (of_int k) = Fin (of_int k)"
proof (cases "k = 0")
  case True
  then show ?thesis by (simp add: round64_def)
next
  case False
  define a where "a = \<bar>k\<bar>"
  have apos: "0 < a" using False by (simp add: a_def)
  have abs_r: "\<bar>of_int k :: real\<bar> = of_int a" by (simp add: a_def)
  define b where "b = bitlen a"
  have b: "(2::real) powi (b - 1) \<le> of_int a" "of_int a + 1 \<le> (2::real) powi b" "1 \<le> b"
    unfolding b_def by (rule bitlen_frame [OF apos])+
  have "(of_int a :: real) < of_int (2 ^ 53)" using assms unfolding a_def [symmetric] by (simp only: of_int_less_iff)
  then have "(2::real) powi (b - 1) < 2 powi 53" using b(1) by simp
  then have b53: "b - 1 < 53" by (rule pow2_less_imp_less)
  have fr: "2 powi (b - 1) \<le> \<bar>of_int k :: real\<bar>" "\<bar>of_int k :: real\<bar> < 2 powi (b - 1 + 1)"
    using b(1,2) unfolding abs_r by simp_all
  have e: "expo (of_int k) = b - 1"
    using fr by (rule expo_eq) (use b(3) in simp)
  define s where "s = nat (53 - b)"
  have q: "(2::real) powi (b - 1 - 52) = 1 / 2 ^ s"
  proof -
    have "b - 1 - 52 = - int s" using b53 by (simp add: s_def)
    then show ?thesis by (simp add: power_int_minus_divide)
  qed
  have quot: "\<bar>of_int k :: real\<bar> / (1 / 2 ^ s) = of_int (a * 2 ^ s)" unfolding abs_r by simp
  have unscale: "(of_int (a * 2 ^ s) :: real) * (1 / 2 ^ s) = of_int a" by simp
  have small: "(of_int a :: real) < 2 ^ 1024"
  proof -
    have "(of_int a :: real) < 2 ^ 53" using assms unfolding a_def [symmetric]
      by (metis of_int_less_iff of_int_numeral of_int_power)
    also have "\<dots> \<le> 2 ^ 1024" by (intro power_increasing) simp_all
    finally show ?thesis .
  qed
  have nzr: "(of_int k :: real) \<noteq> 0" using False by simp
  have apos': "(0::real) < of_int a" using apos by simp
  have sgn: "(if 0 < (of_int k :: real) then of_int a else - of_int a) = (of_int k :: real)"
    by (simp add: a_def)
  show ?thesis
    unfolding round64_def Let_def e q quot rhe_of_int unscale
    using nzr small apos' sgn by simp
qed

lemma round64_numeral [simp]:
  "numeral k < (2::int) ^ 53 \<Longrightarrow> round64 (numeral k) = Fin (numeral k)"
  using round64_int [of "numeral k"] by simp


lemma round64_one: "round64 1 = Fin 1"
  using round64_int [of 1] by simp

lemma round64_half: "round64 (1 / 2) = Fin (1 / 2)"
  using round64_eval [of "- 1" "1 / 2" "2 ^ 52"] by (simp add: rhe_def)

lemma round64_not_nan [simp]: "round64 r \<noteq> NaN"
  by (simp add: round64_def Let_def)

lemma ddiv_Fin: "a \<noteq> 0 \<Longrightarrow> b \<noteq> 0 \<Longrightarrow> ddiv (Fin a) (Fin b) = round64 (a / b)"
  by (simp add: ddiv_def)

lemma dmul_Fin: "a \<noteq> 0 \<Longrightarrow> b \<noteq> 0 \<Longrightarrow> dmul (Fin a) (Fin b) = round64 (a * b)"
  by (simp add: dmul_def)

lemma dadd_Fin: "dadd (Fin a) (Fin b) = (if a + b = 0 then Fin 0 else round64 (a + b))"
  by (simp add: dadd_def)

lemma dsub_Fin: "dsub (Fin a) (Fin b) = (if a - b = 0 then Fin 0 else round64 (a - b))"
  by (simp add: dsub_def dadd_def)

lemma dmin_Fin: "dmin (Fin a) (Fin b) = Fin (min a b)"
  by (simp add: dmin_def dlt_def min_def)

lemma dmax_Fin: "dmax (Fin a) (Fin b) = Fin (max a b)"
  by (auto simp add: dmax_def dlt_def max_def)

section \<open>Properties of the beam balance\<close>

subsection \<open>The roundings that the examples go through\<close>

lemma beam_round_1: "round64 (1 / 5) = Fin (3602879701896397 / 18014398509481984)"
  using round64_eval [of "- 3" "1 / 5" 7205759403792794] by (simp add: rhe_def)

lemma beam_round_2: "round64 (3 / 10) = Fin (5404319552844595 / 18014398509481984)"
  using round64_eval [of "- 2" "3 / 10" 5404319552844595] by (simp add: rhe_def)

lemma beam_round_3: "round64 (9 / 50) = Fin (3242591731706757 / 18014398509481984)"
  using round64_eval [of "- 3" "9 / 50" 6485183463413514] by (simp add: rhe_def)

lemma beam_round_4: "round64 (3 / 25) = Fin (1080863910568919 / 9007199254740992)"
  using round64_eval [of "- 4" "3 / 25" 8646911284551352] by (simp add: rhe_def)

lemma beam_round_5: "round64 (981 / 100) = Fin (5522539043063071 / 562949953421312)"
  using round64_eval [of "3" "981 / 100" 5522539043063071] by (simp add: rhe_def)

lemma beam_round_6: "round64 (19897043821182290799206378655187 / 10141204801825835211973625643008) = Fin (4418031234450457 / 2251799813685248)"
  using round64_eval [of "0" "19897043821182290799206378655187 / 10141204801825835211973625643008" 8836062468900914] by (simp add: rhe_def)

lemma beam_round_7: "round64 (29845565731773433437540046451245 / 10141204801825835211973625643008) = Fin (6627046851675685 / 2251799813685248)"
  using round64_eval [of "1" "29845565731773433437540046451245 / 10141204801825835211973625643008" 6627046851675685] by (simp add: rhe_def)

lemma beam_round_8: "round64 (14325871551251248698537568637949 / 40564819207303340847894502572032) = Fin (3180982488804329 / 9007199254740992)"
  using round64_eval [of "- 2" "14325871551251248698537568637949 / 40564819207303340847894502572032" 6361964977608658] by (simp add: rhe_def)

lemma beam_round_9: "round64 (7162935775625623808836829034515 / 20282409603651670423947251286016) = Fin (6361964977608657 / 18014398509481984)"
  using round64_eval [of "- 2" "7162935775625623808836829034515 / 20282409603651670423947251286016" 6361964977608657] by (simp add: rhe_def)

lemma beam_round_10: "round64 (- (1 / 18014398509481984)) = Fin (- (1 / 18014398509481984))"
  using round64_eval [of "- 54" "- (1 / 18014398509481984)" 4503599627370496] by (simp add: rhe_def)

lemma beam_round_11: "round64 (1 / 2) = Fin (1 / 2)"
  using round64_eval [of "- 1" "1 / 2" 4503599627370496] by (simp add: rhe_def)

lemma beam_round_12: "round64 (- (1 / 9007199254740992)) = Fin (- (1 / 9007199254740992))"
  using round64_eval [of "- 53" "- (1 / 9007199254740992)" 4503599627370496] by (simp add: rhe_def)

lemma beam_round_13: "round64 (884279719003555 / 1688849860263936) = Fin (4716158501352293 / 9007199254740992)"
  using round64_eval [of "- 1" "884279719003555 / 1688849860263936" 4716158501352293] by (simp add: rhe_def)

lemma beam_round_14: "round64 (- (4716158501352293 / 81129638414606681695789005144064)) = Fin (- (4716158501352293 / 81129638414606681695789005144064))"
  using round64_eval [of "- 54" "- (4716158501352293 / 81129638414606681695789005144064)" 4716158501352293] by (simp add: rhe_def)

lemma beam_round_15: "round64 (23876452585418747830895947729915 / 40564819207303340847894502572032) = Fin (1325409370335137 / 2251799813685248)"
  using round64_eval [of "- 1" "23876452585418747830895947729915 / 40564819207303340847894502572032" 5301637481340548] by (simp add: rhe_def)

lemma beam_round_16: "round64 (23876452585418748238471714006945 / 40564819207303340847894502572032) = Fin (1325409370335137 / 2251799813685248)"
  using round64_eval [of "- 1" "23876452585418748238471714006945 / 40564819207303340847894502572032" 5301637481340548] by (simp add: rhe_def)

lemma beam_round_17: "round64 10715086071862673209484250490600018105614048117055336074437503883703510511249361224931983788156958581275946729175531468251871452856923140435984577574698574803934567774824230985421074605062371141877954182153046474983581941267398767559165543946077062914571196477686542167660429831652624386837205668069376 = Fin 10715086071862673209484250490600018105614048117055336074437503883703510511249361224931983788156958581275946729175531468251871452856923140435984577574698574803934567774824230985421074605062371141877954182153046474983581941267398767559165543946077062914571196477686542167660429831652624386837205668069376"
  using round64_eval [of "1000" "10715086071862673209484250490600018105614048117055336074437503883703510511249361224931983788156958581275946729175531468251871452856923140435984577574698574803934567774824230985421074605062371141877954182153046474983581941267398767559165543946077062914571196477686542167660429831652624386837205668069376" 4503599627370496] by (simp add: rhe_def)

lemma beam_round_18: "round64 105114994364972829514509097297160674684329805397556454400668475846401179371242577404914076224709038468200276567436324217389485016578031420506242226040735075548934912542008044773148234039358049112410823373044474862526216527780732856302225351561338223146986039655695548179918474596164028795247997755588608 = Fin 105114994364972829514509097297160674684329805397556454400668475846401179371242577404914076224709038468200276567436324217389485016578031420506242226040735075548934912542008044773148234039358049112410823373044474862526216527780732856302225351561338223146986039655695548179918474596164028795247997755588608"
  using round64_eval [of "1003" "105114994364972829514509097297160674684329805397556454400668475846401179371242577404914076224709038468200276567436324217389485016578031420506242226040735075548934912542008044773148234039358049112410823373044474862526216527780732856302225351561338223146986039655695548179918474596164028795247997755588608" 5522539043063071] by (simp add: rhe_def)

lemma beam_round_19: "round64 112866365779195647673350032596446772856622909465137312491146596074614746173829178209213626768794116834131530958823537769035158160121165695783683531174799178320691174250136194617393851039799199443041578525914606872011048982358230769182681344244512551602763810322442869891385543084182827681798107642433618147540992 = PInf"
  using round64_overflow [of "112866365779195647673350032596446772856622909465137312491146596074614746173829178209213626768794116834131530958823537769035158160121165695783683531174799178320691174250136194617393851039799199443041578525914606872011048982358230769182681344244512551602763810322442869891385543084182827681798107642433618147540992"] by simp

lemmas beam_rounds =
  beam_round_1 beam_round_2 beam_round_3 beam_round_4 beam_round_5 beam_round_6
  beam_round_7 beam_round_8 beam_round_9 beam_round_10 beam_round_11 beam_round_12
  beam_round_13 beam_round_14 beam_round_15 beam_round_16 beam_round_17 beam_round_18
  beam_round_19

subsection \<open>Operations on special values\<close>

lemma dsub_PInf_PInf: "dsub PInf PInf = NaN"
  by (simp add: dsub_def dadd_def)

lemma dsub_Fin_PInf: "dsub (Fin a) PInf = NInf"
  by (simp add: dsub_def dadd_def)

lemma ddiv_NaN: "ddiv NaN b = NaN"
  by (simp add: ddiv_def)

lemma dmul_NaN: "dmul NaN b = NaN"
  by (simp add: dmul_def)

lemma dmin_NaN: "dmin a NaN = NaN"
  by (simp add: dmin_def)

lemma dmax_NaN: "dmax a NaN = NaN"
  by (simp add: dmax_def)

lemma ddiv_NInf_pos: "0 < b \<Longrightarrow> ddiv NInf (Fin b) = NInf"
  by (simp add: ddiv_def signed_inf_def)

lemma dmul_NInf_pos: "0 < b \<Longrightarrow> dmul NInf (Fin b) = NInf"
  by (simp add: dmul_def signed_inf_def)

lemma dmin_Fin_NInf: "dmin (Fin a) NInf = NInf"
  by (simp add: dmin_def dlt_def)

lemma dmax_Fin_NInf: "dmax (Fin a) NInf = Fin a"
  by (simp add: dmax_def dlt_def)

lemma ddiv_zero_pos: "0 < b \<Longrightarrow> ddiv (Fin 0) (Fin b) = Fin 0"
  by (simp add: ddiv_def signed_zero_def)

lemma dmul_zero_pos: "0 < b \<Longrightarrow> dmul (Fin 0) (Fin b) = Fin 0"
  by (simp add: dmul_def signed_zero_def)

lemmas special_values =
  dsub_PInf_PInf dsub_Fin_PInf ddiv_NaN dmul_NaN dmin_NaN dmax_NaN
  ddiv_NInf_pos dmul_NInf_pos dmin_Fin_NInf dmax_Fin_NInf ddiv_zero_pos dmul_zero_pos

subsection \<open>The tilt limit\<close>

lemma MAX_TILT_ANGLE_value: "MAX_TILT_ANGLE = Fin (4716158501352293 / 2 ^ 53)"
  by (simp add: MAX_TILT_ANGLE_def Math_PI_def ddiv_Fin beam_rounds)

lemma MAX_TILT_ANGLE_is_30_degrees:
  "\<exists>r. MAX_TILT_ANGLE = Fin r \<and> \<bar>r - 30 * (pi / 180)\<bar> < 1 / 10 ^ 7"
proof -
  have "4716158501352293 / 2 ^ 53 - 30 * (pi / 180) < 1 / 10 ^ 7"
    using pi_lower by simp
  moreover have "- (4716158501352293 / 2 ^ 53 - 30 * (pi / 180)) < 1 / 10 ^ 7"
    using pi_upper by simp
  ultimately have "\<bar>4716158501352293 / 2 ^ 53 - 30 * (pi / 180)\<bar> < 1 / 10 ^ 7"
    by (simp only: abs_less_iff)
  then show ?thesis
    unfolding MAX_TILT_ANGLE_value by blast
qed

subsection \<open>The examples, evaluated\<close>

lemma unbalanced_moments:
  "calculateMoments
     \<lparr>mass1 = Fin 200, dist1 = Fin 18,
       mass2 = Fin 300, dist2 = Fin 12,
       currentAngle = Fin 0, targetAngle = Fin 0\<rparr>
   = \<lparr>moment1 = Fin (3180982488804329 / 2 ^ 53), moment2 = Fin (6361964977608657 / 2 ^ 54),
      F1 = Fin (4418031234450457 / 2 ^ 51), F2 = Fin (6627046851675685 / 2 ^ 51)\<rparr>"
  by (simp add: calculateMoments_def Let_def GRAVITY_def ddiv_Fin dmul_Fin beam_rounds)

lemma unbalanced_tilt:
  "calculateTiltAngle
     \<lparr>mass1 = Fin 200, dist1 = Fin 18,
       mass2 = Fin 300, dist2 = Fin 12,
       currentAngle = Fin 0, targetAngle = Fin 0\<rparr>
   = Fin (- (4716158501352293 / 2 ^ 106))"
  unfolding calculateTiltAngle_def Let_def unbalanced_moments
  by (simp add: MAX_TILT_ANGLE_value
      dsub_Fin ddiv_Fin dmul_Fin dmin_Fin dmax_Fin special_values beam_rounds)

lemma balanced_moments:
  "calculateMoments
     \<lparr>mass1 = Fin 200, dist1 = Fin 30,
       mass2 = Fin 300, dist2 = Fin 20,
       currentAngle = Fin 0, targetAngle = Fin 0\<rparr>
   = \<lparr>moment1 = Fin (1325409370335137 / 2 ^ 51), moment2 = Fin (1325409370335137 / 2 ^ 51),
      F1 = Fin (4418031234450457 / 2 ^ 51), F2 = Fin (6627046851675685 / 2 ^ 51)\<rparr>"
  by (simp add: calculateMoments_def Let_def GRAVITY_def ddiv_Fin dmul_Fin beam_rounds)

lemma balanced_tilt:
  "calculateTiltAngle
     \<lparr>mass1 = Fin 200, dist1 = Fin 30,
       mass2 = Fin 300, dist2 = Fin 20,
       currentAngle = Fin 0, targetAngle = Fin 0\<rparr>
   = Fin 0"
  unfolding calculateTiltAngle_def Let_def balanced_moments
  by (simp add: MAX_TILT_ANGLE_value
      dsub_Fin ddiv_Fin dmul_Fin dmin_Fin dmax_Fin special_values beam_rounds)

lemma overflow_moments:
  "calculateMoments
     \<lparr>mass1 = Fin (1000 * 2 ^ 1000), dist1 = Fin (100 * 2 ^ 30),
       mass2 = Fin (1000 * 2 ^ 1000), dist2 = Fin (100 * 2 ^ 30),
       currentAngle = Fin 0, targetAngle = Fin 0\<rparr>
   = \<lparr>moment1 = PInf, moment2 = PInf,
      F1 = Fin (5522539043063071 * 2 ^ 951), F2 = Fin (5522539043063071 * 2 ^ 951)\<rparr>"
  by (simp add: calculateMoments_def Let_def GRAVITY_def ddiv_Fin dmul_Fin beam_rounds)

lemma overflow_tilt:
  "calculateTiltAngle
     \<lparr>mass1 = Fin (1000 * 2 ^ 1000), dist1 = Fin (100 * 2 ^ 30),
       mass2 = Fin (1000 * 2 ^ 1000), dist2 = Fin (100 * 2 ^ 30),
       currentAngle = Fin 0, targetAngle = Fin 0\<rparr>
   = NaN"
  unfolding calculateTiltAngle_def Let_def overflow_moments
  by (simp add: MAX_TILT_ANGLE_value
      dsub_Fin ddiv_Fin dmul_Fin dmin_Fin dmax_Fin special_values beam_rounds)

lemma one_sided_moments:
  "calculateMoments
     \<lparr>mass1 = Fin (1000 * 2 ^ 1000), dist1 = Fin (100 * 2 ^ 30),
       mass2 = Fin 300, dist2 = Fin 20,
       currentAngle = Fin 0, targetAngle = Fin 0\<rparr>
   = \<lparr>moment1 = PInf, moment2 = Fin (1325409370335137 / 2 ^ 51),
      F1 = Fin (5522539043063071 * 2 ^ 951), F2 = Fin (6627046851675685 / 2 ^ 51)\<rparr>"
  by (simp add: calculateMoments_def Let_def GRAVITY_def ddiv_Fin dmul_Fin beam_rounds)

lemma one_sided_tilt:
  "calculateTiltAngle
     \<lparr>mass1 = Fin (1000 * 2 ^ 1000), dist1 = Fin (100 * 2 ^ 30),
       mass2 = Fin 300, dist2 = Fin 20,
       currentAngle = Fin 0, targetAngle = Fin 0\<rparr>
   = Fin (- (4716158501352293 / 2 ^ 53))"
  unfolding calculateTiltAngle_def Let_def one_sided_moments
  by (simp add: MAX_TILT_ANGLE_value
      dsub_Fin ddiv_Fin dmul_Fin dmin_Fin dmax_Fin special_values beam_rounds)

subsection \<open>Equal moments\<close>

lemma equal_finite_difference:
  assumes "deq a b" and "is_finite a"
  shows "is_zero (dsub b a)"
  using assms by (cases a; cases b) (auto simp add: deq_def dlt_def dsub_def dadd_def)

lemma clamp_of_zero:
  assumes "is_zero n" and "0 < m"
  shows "dmax (dneg (Fin m)) (dmin (Fin m) (dmul (ddiv n (round64 0.5)) (Fin m))) = n"
  using assms
  by (cases n)
    (auto simp add: round64_half ddiv_def dmul_def dmin_def dmax_def dlt_def signed_zero_def)

text \<open>
  C2. Whenever the two moments that \<open>calculateMoments\<close> computes are equal finite
  numbers, \<open>calculateTiltAngle\<close> returns zero. Equality of the computed moments is not
  equality of the products \<open>mass1 * dist1\<close> and \<open>mass2 * dist2\<close>: each moment is rounded
  three times on its way, and the example after the theorem has equal products
  with moments that differ in the last bit.
\<close>

theorem equal_moments_give_zero_tilt:
  assumes "deq (moment1 (calculateMoments s)) (moment2 (calculateMoments s))"
    and "is_finite (moment1 (calculateMoments s))"
  shows "is_zero (calculateTiltAngle s)"
proof -
  define n where "n = dsub (moment2 (calculateMoments s)) (moment1 (calculateMoments s))"
  have z: "is_zero n"
    unfolding n_def using assms by (rule equal_finite_difference)
  have "calculateTiltAngle s = n"
    unfolding calculateTiltAngle_def Let_def MAX_TILT_ANGLE_value n_def [symmetric]
    by (rule clamp_of_zero [OF z]) simp
  with z show ?thesis by simp
qed

theorem equal_moments_give_zero_tilt_witness:
  "deq (moment1 (calculateMoments
     \<lparr>mass1 = Fin 200, dist1 = Fin 30,
       mass2 = Fin 300, dist2 = Fin 20,
       currentAngle = Fin 0, targetAngle = Fin 0\<rparr>))
     (moment2 (calculateMoments
     \<lparr>mass1 = Fin 200, dist1 = Fin 30,
       mass2 = Fin 300, dist2 = Fin 20,
       currentAngle = Fin 0, targetAngle = Fin 0\<rparr>))
   \<and> is_finite (moment1 (calculateMoments
     \<lparr>mass1 = Fin 200, dist1 = Fin 30,
       mass2 = Fin 300, dist2 = Fin 20,
       currentAngle = Fin 0, targetAngle = Fin 0\<rparr>))
   \<and> is_zero (calculateTiltAngle
     \<lparr>mass1 = Fin 200, dist1 = Fin 30,
       mass2 = Fin 300, dist2 = Fin 20,
       currentAngle = Fin 0, targetAngle = Fin 0\<rparr>)
   \<and> calculateTiltAngle
     \<lparr>mass1 = Fin 200, dist1 = Fin 30,
       mass2 = Fin 300, dist2 = Fin 20,
       currentAngle = Fin 0, targetAngle = Fin 0\<rparr> = Fin 0"
  using equal_moments_give_zero_tilt
    [of "\<lparr>mass1 = Fin 200, dist1 = Fin 30,
       mass2 = Fin 300, dist2 = Fin 20,
       currentAngle = Fin 0, targetAngle = Fin 0\<rparr>"]
  unfolding balanced_moments balanced_tilt
  by (simp add: deq_def dlt_def)

text \<open>
  With 200 g at 18 cm against 300 g at 12 cm the products \<open>mass1 * dist1\<close> and
  \<open>mass2 * dist2\<close> are both 3600, the computed moments are unequal and the tilt is
  about \<open>-5.8e-17\<close>, not 0.
\<close>

theorem unequal_moments_of_equal_products:
  "deq (dmul (Fin 200) (Fin 18)) (dmul (Fin 300) (Fin 12))
   \<and> \<not> deq (moment1 (calculateMoments
     \<lparr>mass1 = Fin 200, dist1 = Fin 18,
       mass2 = Fin 300, dist2 = Fin 12,
       currentAngle = Fin 0, targetAngle = Fin 0\<rparr>))
     (moment2 (calculateMoments
     \<lparr>mass1 = Fin 200, dist1 = Fin 18,
       mass2 = Fin 300, dist2 = Fin 12,
       currentAngle = Fin 0, targetAngle = Fin 0\<rparr>))
   \<and> calculateTiltAngle
     \<lparr>mass1 = Fin 200, dist1 = Fin 18,
       mass2 = Fin 300, dist2 = Fin 12,
       currentAngle = Fin 0, targetAngle = Fin 0\<rparr> = Fin (- (4716158501352293 / 2 ^ 106))
   \<and> \<not> is_zero (calculateTiltAngle
     \<lparr>mass1 = Fin 200, dist1 = Fin 18,
       mass2 = Fin 300, dist2 = Fin 12,
       currentAngle = Fin 0, targetAngle = Fin 0\<rparr>)"
  unfolding unbalanced_moments unbalanced_tilt
  by (simp add: deq_def dlt_def dmul_Fin)

subsection \<open>The clamp\<close>

lemma net_moment_nan:
  "dsub b a = NaN \<longleftrightarrow> a = NaN \<or> b = NaN \<or> (is_inf a \<and> a = b)"
  by (cases a; cases b) (auto simp add: dsub_def dadd_def Let_def)

lemma ddiv_half_not_nan: "a \<noteq> NaN \<Longrightarrow> ddiv a (round64 0.5) \<noteq> NaN"
  by (cases a) (auto simp add: round64_half ddiv_def signed_zero_def signed_inf_def)

lemma dmul_pos_not_nan: "a \<noteq> NaN \<Longrightarrow> 0 < m \<Longrightarrow> dmul a (Fin m) \<noteq> NaN"
  by (cases a) (auto simp add: dmul_def signed_zero_def signed_inf_def Let_def)

lemma clamp_range:
  assumes "a \<noteq> NaN" and "0 < m"
  shows "dle (dneg (Fin m)) (dmax (dneg (Fin m)) (dmin (Fin m) a))
       \<and> dle (dmax (dneg (Fin m)) (dmin (Fin m) a)) (Fin m)"
  using assms by (cases a) (auto simp add: dmin_def dmax_def dlt_def dle_def)

lemma tilt_in_range:
  assumes "dsub (moment2 (calculateMoments s)) (moment1 (calculateMoments s)) \<noteq> NaN"
  shows "dle (dneg MAX_TILT_ANGLE) (calculateTiltAngle s)
       \<and> dle (calculateTiltAngle s) MAX_TILT_ANGLE"
proof -
  define m :: real where "m = 4716158501352293 / 2 ^ 53"
  have m: "0 < m" by (simp add: m_def)
  define a where "a = dmul (ddiv (dsub (moment2 (calculateMoments s)) (moment1 (calculateMoments s)))
                      (round64 0.5)) (Fin m)"
  have "a \<noteq> NaN"
    unfolding a_def using assms m by (intro dmul_pos_not_nan ddiv_half_not_nan)
  from clamp_range [OF this m] show ?thesis
    unfolding calculateTiltAngle_def Let_def MAX_TILT_ANGLE_value m_def [symmetric] a_def [symmetric] .
qed

text \<open>The angle is \<open>NaN\<close> exactly when the net moment is.\<close>

lemma tilt_nan_iff:
  "calculateTiltAngle s = NaN
     \<longleftrightarrow> dsub (moment2 (calculateMoments s)) (moment1 (calculateMoments s)) = NaN"
proof
  assume "calculateTiltAngle s = NaN"
  then show "dsub (moment2 (calculateMoments s)) (moment1 (calculateMoments s)) = NaN"
    using tilt_in_range [of s] by (auto simp add: dle_def)
next
  assume "dsub (moment2 (calculateMoments s)) (moment1 (calculateMoments s)) = NaN"
  then show "calculateTiltAngle s = NaN"
    by (simp add: calculateTiltAngle_def Let_def special_values)
qed

text \<open>
  C8. For all masses and distances, however large, for which the net moment
  \<open>moment2 - moment1\<close> is not \<open>NaN\<close>, the angle returned by \<open>calculateTiltAngle\<close> lies in
  \<open>[-MAX_TILT_ANGLE, MAX_TILT_ANGLE]\<close>, and \<open>MAX_TILT_ANGLE\<close> is 30 degrees in radians to
  seven decimal places. The net moment is \<open>NaN\<close> when a moment is \<open>NaN\<close> or both moments
  are the same infinity (\<open>net_moment_nan\<close>); the angle is then \<open>NaN\<close> (\<open>tilt_nan_iff\<close>),
  which is in no range.
\<close>

theorem tilt_angle_clamped_unless_nan:
  assumes "dsub (moment2 (calculateMoments s)) (moment1 (calculateMoments s)) \<noteq> NaN"
  shows "dle (dneg MAX_TILT_ANGLE) (calculateTiltAngle s)
       \<and> dle (calculateTiltAngle s) MAX_TILT_ANGLE
       \<and> (\<exists>r. MAX_TILT_ANGLE = Fin r \<and> \<bar>r - 30 * (pi / 180)\<bar> < 1 / 10 ^ 7)"
  using tilt_in_range [OF assms] MAX_TILT_ANGLE_is_30_degrees by simp

theorem tilt_angle_clamped_unless_nan_witness:
  "dsub (moment2 (calculateMoments
     \<lparr>mass1 = Fin (1000 * 2 ^ 1000), dist1 = Fin (100 * 2 ^ 30),
       mass2 = Fin 300, dist2 = Fin 20,
       currentAngle = Fin 0, targetAngle = Fin 0\<rparr>))
     (moment1 (calculateMoments
     \<lparr>mass1 = Fin (1000 * 2 ^ 1000), dist1 = Fin (100 * 2 ^ 30),
       mass2 = Fin 300, dist2 = Fin 20,
       currentAngle = Fin 0, targetAngle = Fin 0\<rparr>)) \<noteq> NaN
   \<and> calculateTiltAngle
     \<lparr>mass1 = Fin (1000 * 2 ^ 1000), dist1 = Fin (100 * 2 ^ 30),
       mass2 = Fin 300, dist2 = Fin 20,
       currentAngle = Fin 0, targetAngle = Fin 0\<rparr> = dneg MAX_TILT_ANGLE
   \<and> dle (dneg MAX_TILT_ANGLE) (calculateTiltAngle
     \<lparr>mass1 = Fin (1000 * 2 ^ 1000), dist1 = Fin (100 * 2 ^ 30),
       mass2 = Fin 300, dist2 = Fin 20,
       currentAngle = Fin 0, targetAngle = Fin 0\<rparr>)
   \<and> dle (calculateTiltAngle
     \<lparr>mass1 = Fin (1000 * 2 ^ 1000), dist1 = Fin (100 * 2 ^ 30),
       mass2 = Fin 300, dist2 = Fin 20,
       currentAngle = Fin 0, targetAngle = Fin 0\<rparr>) MAX_TILT_ANGLE"
  using tilt_angle_clamped_unless_nan
    [of "\<lparr>mass1 = Fin (1000 * 2 ^ 1000), dist1 = Fin (100 * 2 ^ 30),
       mass2 = Fin 300, dist2 = Fin 20,
       currentAngle = Fin 0, targetAngle = Fin 0\<rparr>"]
  unfolding one_sided_moments one_sided_tilt
  by (simp add: special_values MAX_TILT_ANGLE_value dle_def dlt_def)

text \<open>
  With \<open>1000 * 2 ^ 1000\<close> g at \<open>100 * 2 ^ 30\<close> cm on both sides, both moments overflow
  to \<open>Infinity\<close>, their difference is \<open>NaN\<close>, and \<open>Math.min\<close> and \<open>Math.max\<close> pass the
  \<open>NaN\<close> on.
\<close>

theorem overflowing_moments_give_nan_tilt:
  "moment1 (calculateMoments
     \<lparr>mass1 = Fin (1000 * 2 ^ 1000), dist1 = Fin (100 * 2 ^ 30),
       mass2 = Fin (1000 * 2 ^ 1000), dist2 = Fin (100 * 2 ^ 30),
       currentAngle = Fin 0, targetAngle = Fin 0\<rparr>) = PInf
   \<and> moment2 (calculateMoments
     \<lparr>mass1 = Fin (1000 * 2 ^ 1000), dist1 = Fin (100 * 2 ^ 30),
       mass2 = Fin (1000 * 2 ^ 1000), dist2 = Fin (100 * 2 ^ 30),
       currentAngle = Fin 0, targetAngle = Fin 0\<rparr>) = PInf
   \<and> calculateTiltAngle
     \<lparr>mass1 = Fin (1000 * 2 ^ 1000), dist1 = Fin (100 * 2 ^ 30),
       mass2 = Fin (1000 * 2 ^ 1000), dist2 = Fin (100 * 2 ^ 30),
       currentAngle = Fin 0, targetAngle = Fin 0\<rparr> = NaN
   \<and> \<not> dle (dneg MAX_TILT_ANGLE) (calculateTiltAngle
     \<lparr>mass1 = Fin (1000 * 2 ^ 1000), dist1 = Fin (100 * 2 ^ 30),
       mass2 = Fin (1000 * 2 ^ 1000), dist2 = Fin (100 * 2 ^ 30),
       currentAngle = Fin 0, targetAngle = Fin 0\<rparr>)
   \<and> \<not> dle (calculateTiltAngle
     \<lparr>mass1 = Fin (1000 * 2 ^ 1000), dist1 = Fin (100 * 2 ^ 30),
       mass2 = Fin (1000 * 2 ^ 1000), dist2 = Fin (100 * 2 ^ 30),
       currentAngle = Fin 0, targetAngle = Fin 0\<rparr>) MAX_TILT_ANGLE"
  unfolding overflow_moments overflow_tilt
  by (simp add: dle_def)

section \<open>Properties of the linear regression\<close>

subsection \<open>Operations that do not round\<close>

lemma exact_of_int: "\<bar>k\<bar> < 2 ^ 53 \<Longrightarrow> exact (of_int k)"
  by (simp add: exact_def round64_int)












subsection \<open>The regression of points on a line, in exact arithmetic\<close>







subsection \<open>Points on a line with large abscissae\<close>

lemma regression_round_1: "round64 20000000300000000 = Fin 20000000300000000"
  using round64_eval [of "54" "20000000300000000" 5000000075000000] by (simp add: rhe_def)

lemma regression_round_2: "round64 20000000700000005 = Fin 20000000700000004"
  using round64_eval [of "54" "20000000700000005" 5000000175000001] by (simp add: rhe_def)

lemma regression_round_3: "round64 40000001000000004 = Fin 40000001000000000"
  using round64_eval [of "55" "40000001000000004" 5000000125000000] by (simp add: rhe_def)

lemma regression_round_4: "round64 20000001100000014 = Fin 20000001100000016"
  using round64_eval [of "54" "20000001100000014" 5000000275000004] by (simp add: rhe_def)

lemma regression_round_5: "round64 60000002100000016 = Fin 60000002100000016"
  using round64_eval [of "55" "60000002100000016" 7500000262500002] by (simp add: rhe_def)

lemma regression_round_6: "round64 10000000000000000 = Fin 10000000000000000"
  using round64_eval [of "53" "10000000000000000" 5000000000000000] by (simp add: rhe_def)

lemma regression_round_7: "round64 10000000200000001 = Fin 10000000200000000"
  using round64_eval [of "53" "10000000200000001" 5000000100000000] by (simp add: rhe_def)

lemma regression_round_8: "round64 20000000200000000 = Fin 20000000200000000"
  using round64_eval [of "54" "20000000200000000" 5000000050000000] by (simp add: rhe_def)

lemma regression_round_9: "round64 10000000400000004 = Fin 10000000400000004"
  using round64_eval [of "53" "10000000400000004" 5000000200000002] by (simp add: rhe_def)

lemma regression_round_10: "round64 30000000600000004 = Fin 30000000600000004"
  using round64_eval [of "54" "30000000600000004" 7500000150000001] by (simp add: rhe_def)

lemma regression_round_11: "round64 180000006300000048 = Fin 180000006300000064"
  using round64_eval [of "57" "180000006300000048" 5625000196875002] by (simp add: rhe_def)

lemma regression_round_12: "round64 180000006300000045 = Fin 180000006300000032"
  using round64_eval [of "57" "180000006300000045" 5625000196875001] by (simp add: rhe_def)

lemma regression_round_13: "round64 90000001800000012 = Fin 90000001800000016"
  using round64_eval [of "56" "90000001800000012" 5625000112500001] by (simp add: rhe_def)

lemma regression_round_14: "round64 90000001800000009 = Fin 90000001800000016"
  using round64_eval [of "56" "90000001800000009" 5625000112500001] by (simp add: rhe_def)

lemma regression_round_15: "round64 10000000500000005 = Fin 10000000500000004"
  using round64_eval [of "53" "10000000500000005" 5000000250000002] by (simp add: rhe_def)

lemma regression_round_16: "round64 15000001050000018 = Fin 15000001050000018"
  using round64_eval [of "53" "15000001050000018" 7500000525000009] by (simp add: rhe_def)

lemma regression_round_17: "round64 45000003150000054 = Fin 45000003150000056"
  using round64_eval [of "55" "45000003150000054" 5625000393750007] by (simp add: rhe_def)

lemma regression_round_18: "round64 45000003150000045 = Fin 45000003150000048"
  using round64_eval [of "55" "45000003150000045" 5625000393750006] by (simp add: rhe_def)

lemma regression_round_19: "round64 22500000900000015 = Fin 22500000900000016"
  using round64_eval [of "54" "22500000900000015" 5625000225000004] by (simp add: rhe_def)

lemma regression_round_20: "round64 22500000900000009 = Fin 22500000900000008"
  using round64_eval [of "54" "22500000900000009" 5625000225000002] by (simp add: rhe_def)

lemmas regression_rounds =
  regression_round_1 regression_round_2 regression_round_3 regression_round_4
  regression_round_5 regression_round_6 regression_round_7 regression_round_8
  regression_round_9 regression_round_10 regression_round_11 regression_round_12
  regression_round_13 regression_round_14 regression_round_15 regression_round_16
  regression_round_17 regression_round_18 regression_round_19 regression_round_20










lemma medium_sumX:
  "foldl (\<lambda>a b. dadd a b) (Fin 0) [Fin 50000000, Fin 50000001, Fin 50000002] = Fin 150000003"
  by (simp add: dadd_Fin)

lemma medium_sumY:
  "foldl (\<lambda>a b. dadd a b) (Fin 0) [Fin 100000003, Fin 100000005, Fin 100000007] = Fin 300000015"
  by (simp add: dadd_Fin)

lemma medium_sumXY:
  "foldl (\<lambda>sum (i, xi). dadd sum (dmul xi (js_index [Fin 100000003, Fin 100000005, Fin 100000007] i)))
     (Fin 0) (enumerate 0 [Fin 50000000, Fin 50000001, Fin 50000002]) = Fin 15000001050000018"
  by (simp add: js_index_def dadd_Fin dmul_Fin regression_rounds)

lemma medium_sumXX:
  "foldl (\<lambda>sum xi. dadd sum (dmul xi xi)) (Fin 0) [Fin 50000000, Fin 50000001, Fin 50000002]
     = Fin 7500000300000005"
  by (simp add: dadd_Fin dmul_Fin regression_rounds)

lemma medium_numerator:
  "dsub (dmul (Fin 3) (Fin 15000001050000018)) (dmul (Fin 150000003) (Fin 300000015)) = Fin 8"
  by (simp add: dsub_Fin dmul_Fin regression_rounds)

lemma medium_denominator:
  "dsub (dmul (Fin 3) (Fin 7500000300000005)) (dmul (Fin 150000003) (Fin 150000003)) = Fin 8"
  by (simp add: dsub_Fin dmul_Fin regression_rounds)

lemma medium_slope: "ddiv (Fin 8) (Fin 8) = Fin 1"
  by (simp add: ddiv_def signed_inf_def round64_one Let_def)

lemma medium_intercept: "ddiv (dsub (Fin 300000015) (dmul (Fin 1) (Fin 150000003))) (Fin 3) = Fin 50000004"
  by (simp add: ddiv_def dsub_def dadd_def dmul_def signed_inf_def round64_one Let_def)

lemma medium_regression:
  "calculateLinearRegression [Fin 50000000, Fin 50000001, Fin 50000002]
      [Fin 100000003, Fin 100000005, Fin 100000007] = \<lparr>slope = Fin 1, intercept = Fin 50000004\<rparr>"
  unfolding calculateLinearRegression_def Let_def medium_sumX medium_sumY medium_sumXY medium_sumXX
  by (simp add: medium_numerator medium_denominator medium_slope medium_intercept)


text \<open>
  With abscissae near \<open>5 * 10 ^ 7\<close> the results are finite and wrong: three points on
  \<open>y = 2 * x + 3\<close> give slope 1 and intercept 50000004.
\<close>

lemma regression_of_medium_values:
  "calculateLinearRegression (map Fin [50000000, 50000001, 50000002])
     (map Fin [100000003, 100000005, 100000007]) = \<lparr>slope = Fin 1, intercept = Fin 50000004\<rparr>"
  using medium_regression by simp

end
